theory Spec2Isabelle
  imports Complex_Main "HOL-Library.Sublist"
begin

section \<open>JavaScript strings\<close>

text \<open>
  A JavaScript string is a sequence of UTF-16 code units. It is modelled as a \<open>string\<close>;
  the character with code \<open>n\<close> stands for the code unit \<open>n\<close>, so the model covers the
  strings whose code units are below 256, and \<open>length\<close> is the JavaScript \<open>.length\<close>.
\<close>

definition str_includes :: "string \<Rightarrow> string \<Rightarrow> bool" where
  \<comment> \<open>\<open>s.includes(sub)\<close>\<close>
  "str_includes s sub = sublist sub s"

definition is_ws :: "char \<Rightarrow> bool" where
  \<comment> \<open>white space and line terminators below 256: TAB, LF, VT, FF, CR, SP, NBSP\<close>
  "is_ws c = (of_char c \<in> {9, 10, 11, 12, 13, 32, 160 :: nat})"

definition trim :: "string \<Rightarrow> string" where
  \<comment> \<open>\<open>s.trim()\<close>\<close>
  "trim s = rev (dropWhile is_ws (rev (dropWhile is_ws s)))"

definition toUpperCase_char :: "char \<Rightarrow> string" where
  \<comment> \<open>Upper-casing of one code unit below 256: a-z and the Latin-1 letters move down by 32,
      the sharp s becomes SS. The upper-case forms of the micro sign (181) and of y with
      diaeresis (255) lie above 255; the model leaves these two code units as they are.\<close>
  "toUpperCase_char c =
     (let n = (of_char c :: nat) in
      if 97 \<le> n \<and> n \<le> 122 then [char_of (n - 32)]
      else if n = 223 then ''SS''
      else if 224 \<le> n \<and> n \<le> 254 \<and> n \<noteq> 247 then [char_of (n - 32)]
      else [c])"

definition toUpperCase :: "string \<Rightarrow> string" where
  "toUpperCase s = concat (map toUpperCase_char s)"

definition digit_char :: "int \<Rightarrow> char" where
  "digit_char d = ''0123456789'' ! nat d"

function show_digits :: "int \<Rightarrow> string" where
  \<comment> \<open>the decimal digits of an integer that is not negative\<close>
  "show_digits n =
     (if n < 10 then [digit_char n] else show_digits (n div 10) @ [digit_char (n mod 10)])"
  by pat_completeness auto
termination
  by (relation "measure nat") auto

declare show_digits.simps [simp del]

definition show_nat :: "nat \<Rightarrow> string" where
  "show_nat n = show_digits (int n)"

function count_digits :: "int \<Rightarrow> int \<Rightarrow> int" where
  \<comment> \<open>the number of digits of \<open>x > 0\<close> in base \<open>b > 1\<close>\<close>
  "count_digits b x = (if 0 < x \<and> 1 < b then count_digits b (x div b) + 1 else 0)"
  by pat_completeness auto
termination
  by (relation "measure (\<lambda>(b, x). nat x)") (simp_all add: zless_nat_conj int_div_less_self)

declare count_digits.simps [simp del]

section \<open>JavaScript numbers\<close>

text \<open>
  A JavaScript number is an IEEE 754 double. \<open>Fin x\<close> is the finite double of exact value
  \<open>x\<close>; the sign of zero is not modelled.
\<close>

datatype jsnum = NaN | PInf | NInf | Fin rat

definition pow_int :: "int \<Rightarrow> int \<Rightarrow> rat" where
  "pow_int b k = (if 0 \<le> k then of_int b ^ nat k else 1 / of_int b ^ nat (- k))"

definition ilog :: "int \<Rightarrow> rat \<Rightarrow> int" where
  \<comment> \<open>\<open>\<lfloor>log b x\<rfloor>\<close> for \<open>x > 0\<close> and \<open>b > 1\<close>\<close>
  "ilog b x =
     (let (p, q) = quotient_of x;
          k = count_digits b p - count_digits b q
      in if pow_int b k \<le> x then k else k - 1)"

definition round_half_even :: "rat \<Rightarrow> int" where
  "round_half_even x =
     (let f = \<lfloor>x\<rfloor>; d = x - of_int f in
      if d < 1 / 2 then f else if 1 / 2 < d then f + 1
      else if even f then f else f + 1)"

definition to_double_pos :: "rat \<Rightarrow> jsnum" where
  \<comment> \<open>round to nearest, ties to even, 53 bits of precision, exponents from -1074; the
      rounded value \<open>m * 2 ^ e\<close> overflows when it reaches \<open>2 ^ 1024\<close>, that is when \<open>m\<close> has
      more than \<open>1024 - e\<close> binary digits\<close>
  "to_double_pos x =
     (let e = max (ilog 2 x - 52) (- 1074);
          m = round_half_even (x / pow_int 2 e)
      in if 1024 < count_digits 2 m + e then PInf else Fin (of_int m * pow_int 2 e))"

definition to_double :: "rat \<Rightarrow> jsnum" where
  \<comment> \<open>the Number value for a mathematical value\<close>
  "to_double x =
     (if x = 0 then Fin 0
      else if 0 < x then to_double_pos x
      else (case to_double_pos (- x) of Fin v \<Rightarrow> Fin (- v) | _ \<Rightarrow> NInf))"

definition trunc_rat :: "rat \<Rightarrow> int" where
  "trunc_rat x = (if 0 \<le> x then \<lfloor>x\<rfloor> else - \<lfloor>- x\<rfloor>)"

fun Math_trunc :: "jsnum \<Rightarrow> jsnum" where
  "Math_trunc (Fin x) = Fin (of_int (trunc_rat x))"
| "Math_trunc n = n"

fun Number_isFinite :: "jsnum \<Rightarrow> bool" where
  "Number_isFinite (Fin x) = True"
| "Number_isFinite n = False"

fun ToInt32 :: "jsnum \<Rightarrow> int" where
  \<comment> \<open>the conversion behind \<open>x | 0\<close>\<close>
  "ToInt32 (Fin x) =
     (let int32bit = trunc_rat x mod 2 ^ 32
      in if 2 ^ 31 \<le> int32bit then int32bit - 2 ^ 32 else int32bit)"
| "ToInt32 n = 0"

fun num_truthy :: "jsnum \<Rightarrow> bool" where
  "num_truthy NaN = False"
| "num_truthy (Fin x) = (x \<noteq> 0)"
| "num_truthy n = True"

fun num_gt0 :: "jsnum \<Rightarrow> bool" where
  \<comment> \<open>\<open>n > 0\<close>\<close>
  "num_gt0 (Fin x) = (0 < x)"
| "num_gt0 PInf = True"
| "num_gt0 n = False"

subsection \<open>Arithmetic\<close>

text \<open>
  An operation on finite doubles is the exact operation followed by rounding. Division by
  zero and the products of zero and infinity follow IEEE 754 for a zero of positive sign.
\<close>

fun num_sign :: "jsnum \<Rightarrow> int" where
  "num_sign (Fin x) = (if x < 0 then - 1 else 1)"
| "num_sign NInf = - 1"
| "num_sign n = 1"

definition signed_inf :: "int \<Rightarrow> jsnum" where
  "signed_inf s = (if s < 0 then NInf else PInf)"

fun num_mul :: "jsnum \<Rightarrow> jsnum \<Rightarrow> jsnum" where
  "num_mul NaN b = NaN"
| "num_mul a NaN = NaN"
| "num_mul (Fin a) (Fin b) = to_double (a * b)"
| "num_mul (Fin a) b = (if a = 0 then NaN else signed_inf (num_sign (Fin a) * num_sign b))"
| "num_mul a (Fin b) = (if b = 0 then NaN else signed_inf (num_sign a * num_sign (Fin b)))"
| "num_mul a b = signed_inf (num_sign a * num_sign b)"

fun num_div :: "jsnum \<Rightarrow> jsnum \<Rightarrow> jsnum" where
  "num_div NaN b = NaN"
| "num_div a NaN = NaN"
| "num_div (Fin a) (Fin b) =
     (if b = 0 then (if a = 0 then NaN else signed_inf (num_sign (Fin a)))
      else to_double (a / b))"
| "num_div (Fin a) b = Fin 0"
| "num_div a (Fin b) = signed_inf (num_sign a * num_sign (Fin b))"
| "num_div a b = NaN"

fun num_sub :: "jsnum \<Rightarrow> jsnum \<Rightarrow> jsnum" where
  "num_sub NaN b = NaN"
| "num_sub a NaN = NaN"
| "num_sub (Fin a) (Fin b) = to_double (a - b)"
| "num_sub (Fin a) PInf = NInf"
| "num_sub (Fin a) NInf = PInf"
| "num_sub PInf PInf = NaN"
| "num_sub NInf NInf = NaN"
| "num_sub a b = a"

fun num_le :: "jsnum \<Rightarrow> jsnum \<Rightarrow> bool" where
  \<comment> \<open>\<open>a <= b\<close>, false when an operand is \<open>NaN\<close>\<close>
  "num_le NaN b = False"
| "num_le a NaN = False"
| "num_le (Fin a) (Fin b) = (a \<le> b)"
| "num_le NInf b = True"
| "num_le a PInf = True"
| "num_le a b = False"

definition Math_max :: "jsnum \<Rightarrow> jsnum \<Rightarrow> jsnum" where
  "Math_max a b = (if a = NaN \<or> b = NaN then NaN else if num_le a b then b else a)"

definition Math_min :: "jsnum \<Rightarrow> jsnum \<Rightarrow> jsnum" where
  "Math_min a b = (if a = NaN \<or> b = NaN then NaN else if num_le a b then a else b)"

fun Math_floor :: "jsnum \<Rightarrow> jsnum" where
  "Math_floor (Fin x) = Fin (of_int \<lfloor>x\<rfloor>)"
| "Math_floor n = n"

subsection \<open>Number to string\<close>

definition digit_candidates :: "rat \<Rightarrow> int \<Rightarrow> int \<Rightarrow> (int \<times> int) list" where
  \<comment> \<open>the pairs \<open>(s, n)\<close> with \<open>k\<close> digits in \<open>s\<close> for which \<open>s * 10 ^ (n - k)\<close> is the double \<open>x\<close>\<close>
  "digit_candidates x n0 k =
     [(s, n). n \<leftarrow> [n0, n0 + 1],
              s \<leftarrow> [\<lfloor>x / pow_int 10 (n - k)\<rfloor>, \<lfloor>x / pow_int 10 (n - k)\<rfloor> + 1],
              10 ^ nat (k - 1) \<le> s \<and> s < 10 ^ nat k
                \<and> to_double (of_int s * pow_int 10 (n - k)) = Fin x]"

definition closest_candidate :: "rat \<Rightarrow> int \<Rightarrow> (int \<times> int) list \<Rightarrow> int \<times> int" where
  \<comment> \<open>of several candidates the one closest to \<open>x\<close>, an even \<open>s\<close> at a tie\<close>
  "closest_candidate x k cs =
     (let dist = (\<lambda>(s, n). \<bar>of_int s * pow_int 10 (n - k) - x\<bar>) in
      fold (\<lambda>c best. if dist c < dist best \<or> (dist c = dist best \<and> even (fst c)) then c else best)
        (tl cs) (hd cs))"

fun shortest_digits :: "rat \<Rightarrow> int \<Rightarrow> nat \<Rightarrow> int \<Rightarrow> int \<times> int \<times> int" where
  \<comment> \<open>\<open>(s, n, k)\<close> with the least \<open>k\<close>, from \<open>k\<close> on. 17 digits determine every double, so the
      search started with 17 steps at \<open>k = 1\<close> ends in the second clause\<close>
  "shortest_digits x n0 0 k = (round_half_even (x / pow_int 10 (n0 - k)), n0, k)"
| "shortest_digits x n0 (Suc fuel) k =
     (case digit_candidates x n0 k of
        [] \<Rightarrow> shortest_digits x n0 fuel (k + 1)
      | cs \<Rightarrow> (let (s, n) = closest_candidate x k cs in (s, n, k)))"

definition Number_toString_pos :: "rat \<Rightarrow> string" where
  "Number_toString_pos x =
     (let (s, n, k) = shortest_digits x (ilog 10 x + 1) 17 1;
          ds = show_digits s;
          ex = (if 0 \<le> n - 1 then ''+'' else ''-'') @ show_digits \<bar>n - 1\<bar>
      in if k \<le> n \<and> n \<le> 21 then ds @ replicate (nat (n - k)) CHR ''0''
         else if 0 < n \<and> n \<le> 21 then take (nat n) ds @ ''.'' @ drop (nat n) ds
         else if - 6 < n \<and> n \<le> 0 then ''0.'' @ replicate (nat (- n)) CHR ''0'' @ ds
         else if k = 1 then ds @ ''e'' @ ex
         else take 1 ds @ ''.'' @ drop 1 ds @ ''e'' @ ex)"

fun Number_toString :: "jsnum \<Rightarrow> string" where
  "Number_toString NaN = ''NaN''"
| "Number_toString PInf = ''Infinity''"
| "Number_toString NInf = ''-Infinity''"
| "Number_toString (Fin x) =
     (if x = 0 then ''0''
      else if x < 0 then ''-'' @ Number_toString_pos (- x)
      else Number_toString_pos x)"

subsection \<open>String to number\<close>

definition is_digit :: "char \<Rightarrow> bool" where
  "is_digit c = (48 \<le> (of_char c :: int) \<and> (of_char c :: int) \<le> 57)"

definition digit_val :: "char \<Rightarrow> int option" where
  \<comment> \<open>the value of a hexadecimal digit\<close>
  "digit_val c =
     (let n = (of_char c :: int) in
      if 48 \<le> n \<and> n \<le> 57 then Some (n - 48)
      else if 97 \<le> n \<and> n \<le> 102 then Some (n - 87)
      else if 65 \<le> n \<and> n \<le> 70 then Some (n - 55)
      else None)"

definition digits_value :: "int \<Rightarrow> string \<Rightarrow> int option" where
  \<comment> \<open>the value of a non-empty string of digits of base \<open>b\<close>\<close>
  "digits_value b ds =
     (if ds = [] then None
      else fold (\<lambda>c acc. case (acc, digit_val c) of
                   (Some a, Some d) \<Rightarrow> if d < b then Some (a * b + d) else None
                 | _ \<Rightarrow> None) ds (Some 0))"

definition parse_exponent :: "string \<Rightarrow> int option" where
  \<comment> \<open>an optional exponent part, up to the end of the string\<close>
  "parse_exponent r =
     (case r of
        [] \<Rightarrow> Some 0
      | c # t \<Rightarrow>
          if c = CHR ''e'' \<or> c = CHR ''E'' then
            (case t of
               CHR ''+'' # ds \<Rightarrow> digits_value 10 ds
             | CHR ''-'' # ds \<Rightarrow> map_option uminus (digits_value 10 ds)
             | _ \<Rightarrow> digits_value 10 t)
          else None)"

definition parse_unsigned_decimal :: "string \<Rightarrow> jsnum option" where
  "parse_unsigned_decimal s =
     (if s = ''Infinity'' then Some PInf
      else
        let ip = takeWhile is_digit s; r1 = dropWhile is_digit s;
            dot = (r1 \<noteq> [] \<and> hd r1 = CHR ''.'');
            fp = (if dot then takeWhile is_digit (tl r1) else []);
            r2 = (if dot then dropWhile is_digit (tl r1) else r1)
        in if ip = [] \<and> fp = [] then None
           else (case (digits_value 10 (ip @ fp), parse_exponent r2) of
                   (Some m, Some e) \<Rightarrow> Some (to_double (of_int m * pow_int 10 (e - int (length fp))))
                 | _ \<Rightarrow> None))"

fun negate :: "jsnum \<Rightarrow> jsnum" where
  "negate (Fin x) = Fin (- x)"
| "negate PInf = NInf"
| "negate NInf = PInf"
| "negate NaN = NaN"

definition StringToNumber :: "string \<Rightarrow> jsnum" where
  \<comment> \<open>\<open>Number(s)\<close> for a string: white space trimmed, the empty string is 0, a decimal
      literal with optional sign, fraction and exponent, \<open>Infinity\<close>, or an unsigned
      binary, octal or hexadecimal integer; everything else is \<open>NaN\<close>\<close>
  "StringToNumber s =
     (let t = trim s in
      if t = [] then Fin 0
      else if take 2 t \<in> {''0x'', ''0X''} then
        (case digits_value 16 (drop 2 t) of Some n \<Rightarrow> to_double (of_int n) | None \<Rightarrow> NaN)
      else if take 2 t \<in> {''0o'', ''0O''} then
        (case digits_value 8 (drop 2 t) of Some n \<Rightarrow> to_double (of_int n) | None \<Rightarrow> NaN)
      else if take 2 t \<in> {''0b'', ''0B''} then
        (case digits_value 2 (drop 2 t) of Some n \<Rightarrow> to_double (of_int n) | None \<Rightarrow> NaN)
      else
        (case t of
           CHR ''+'' # u \<Rightarrow> (case parse_unsigned_decimal u of Some n \<Rightarrow> n | None \<Rightarrow> NaN)
         | CHR ''-'' # u \<Rightarrow> (case parse_unsigned_decimal u of Some n \<Rightarrow> negate n | None \<Rightarrow> NaN)
         | _ \<Rightarrow> (case parse_unsigned_decimal t of Some n \<Rightarrow> n | None \<Rightarrow> NaN)))"

section \<open>JavaScript values\<close>

text \<open>
  The values that payloads, store replies and thrown exceptions range over. An object is
  the list of its own enumerable properties in enumeration order; an \<open>Error\<close> object is
  its \<open>name\<close> (\<open>Error\<close>, \<open>TypeError\<close>) and its \<open>message\<close>.
  A function that can throw returns \<open>jsval + 'a\<close>, \<open>Inl\<close> being the throw.
\<close>

datatype jsval =
    JUndefined
  | JNull
  | JBool bool
  | JNum jsnum
  | JStr string
  | JArr "jsval list"
  | JObj "(string \<times> jsval) list"
  | JError string string

fun join :: "string \<Rightarrow> string list \<Rightarrow> string" where
  "join sep [] = []"
| "join sep [x] = x"
| "join sep (x # y # ys) = x @ sep @ join sep (y # ys)"

fun String_of :: "jsval \<Rightarrow> string" where
  \<comment> \<open>\<open>String(v)\<close>, also the conversion of a template literal\<close>
  "String_of JUndefined = ''undefined''"
| "String_of JNull = ''null''"
| "String_of (JBool b) = (if b then ''true'' else ''false'')"
| "String_of (JNum n) = Number_toString n"
| "String_of (JStr s) = s"
| "String_of (JArr xs) =
     join '','' (map (\<lambda>x. if x = JUndefined \<or> x = JNull then [] else String_of x) xs)"
| "String_of (JObj kvs) = ''[object Object]''"
| "String_of (JError n m) = (if n = [] then m else if m = [] then n else n @ '': '' @ m)"

fun Number_of :: "jsval \<Rightarrow> jsnum" where
  \<comment> \<open>\<open>Number(v)\<close>\<close>
  "Number_of JUndefined = NaN"
| "Number_of JNull = Fin 0"
| "Number_of (JBool b) = (if b then Fin 1 else Fin 0)"
| "Number_of (JNum n) = n"
| "Number_of (JStr s) = StringToNumber s"
| "Number_of v = StringToNumber (String_of v)"

definition hex_digit :: "nat \<Rightarrow> char" where
  "hex_digit d = (if d < 10 then char_of (48 + d) else char_of (87 + d))"

definition quote_char :: "char \<Rightarrow> string" where
  "quote_char c =
     (let n = (of_char c :: nat) in
      if n = 8 then [CHR 0x5C, CHR ''b'']
      else if n = 9 then [CHR 0x5C, CHR ''t'']
      else if n = 10 then [CHR 0x5C, CHR ''n'']
      else if n = 12 then [CHR 0x5C, CHR ''f'']
      else if n = 13 then [CHR 0x5C, CHR ''r'']
      else if n = 34 then [CHR 0x5C, CHR 0x22]
      else if n = 92 then [CHR 0x5C, CHR 0x5C]
      else if n < 32 then [CHR 0x5C, CHR ''u'', CHR ''0'', CHR ''0'', hex_digit (n div 16), hex_digit (n mod 16)]
      else [c])"

definition quote :: "string \<Rightarrow> string" where
  "quote s = [CHR 0x22] @ concat (map quote_char s) @ [CHR 0x22]"

fun JSON_stringify :: "jsval \<Rightarrow> string option" where
  \<comment> \<open>\<open>JSON.stringify(v)\<close>; \<open>None\<close> is the result \<open>undefined\<close>\<close>
  "JSON_stringify JUndefined = None"
| "JSON_stringify JNull = Some ''null''"
| "JSON_stringify (JBool b) = Some (if b then ''true'' else ''false'')"
| "JSON_stringify (JNum n) = Some (if Number_isFinite n then Number_toString n else ''null'')"
| "JSON_stringify (JStr s) = Some (quote s)"
| "JSON_stringify (JArr xs) =
     Some (''['' @ join '','' (map (\<lambda>x. case JSON_stringify x of None \<Rightarrow> ''null'' | Some t \<Rightarrow> t) xs) @ '']'')"
| "JSON_stringify (JObj kvs) =
     Some (''{'' @ join '','' (concat (map (\<lambda>(k, v). case JSON_stringify v of None \<Rightarrow> []
                                                  | Some t \<Rightarrow> [quote k @ '':'' @ t]) kvs)) @ ''}'')"
| "JSON_stringify (JError n m) = Some ''{}''"

definition template :: "string option \<Rightarrow> string" where
  \<comment> \<open>a \<open>JSON.stringify\<close> result inside a template literal\<close>
  "template r = (case r of None \<Rightarrow> ''undefined'' | Some t \<Rightarrow> t)"

fun truthy :: "jsval \<Rightarrow> bool" where
  "truthy JUndefined = False"
| "truthy JNull = False"
| "truthy (JBool b) = b"
| "truthy (JNum n) = num_truthy n"
| "truthy (JStr s) = (s \<noteq> [])"
| "truthy v = True"

fun typeof_object :: "jsval \<Rightarrow> bool" where
  \<comment> \<open>\<open>typeof v === "object"\<close>\<close>
  "typeof_object JNull = True"
| "typeof_object (JArr xs) = True"
| "typeof_object (JObj kvs) = True"
| "typeof_object (JError n m) = True"
| "typeof_object v = False"

fun Array_isArray :: "jsval \<Rightarrow> bool" where
  "Array_isArray (JArr xs) = True"
| "Array_isArray v = False"

fun get_message :: "jsval \<Rightarrow> jsval" where
  \<comment> \<open>\<open>v?.message\<close>\<close>
  "get_message (JError n m) = JStr m"
| "get_message (JObj kvs) = (case map_of kvs ''message'' of Some v \<Rightarrow> v | None \<Rightarrow> JUndefined)"
| "get_message v = JUndefined"

fun get_name :: "jsval \<Rightarrow> jsval" where
  \<comment> \<open>\<open>v?.name\<close>\<close>
  "get_name (JError n m) = JStr n"
| "get_name (JObj kvs) = (case map_of kvs ''name'' of Some v \<Rightarrow> v | None \<Rightarrow> JUndefined)"
| "get_name v = JUndefined"

definition nullish :: "jsval \<Rightarrow> bool" where
  "nullish v = (v = JUndefined \<or> v = JNull)"

definition coalesce :: "jsval \<Rightarrow> jsval \<Rightarrow> jsval" where
  \<comment> \<open>\<open>a ?? b\<close>\<close>
  "coalesce a b = (if nullish a then b else a)"

fun index :: "jsval list \<Rightarrow> nat \<Rightarrow> jsval" where
  \<comment> \<open>\<open>res[i]\<close>: \<open>undefined\<close> out of range\<close>
  "index xs i = (if i < length xs then xs ! i else JUndefined)"

section \<open>Key layout (src/helper.ts)\<close>

definition queueBase :: "string \<Rightarrow> string" where
  "queueBase queueName =
     (if str_includes queueName ''{'' \<and> str_includes queueName ''}'' then queueName
      else ''{'' @ queueName @ ''}'')"

definition queueAnchor :: "string \<Rightarrow> string" where
  "queueAnchor queueName = queueBase queueName @ '':meta''"

definition childsAnchor_max :: "string \<Rightarrow> nat \<Rightarrow> jsval + string" where
  "childsAnchor_max key maxLen =
     (let k = trim key in
      if k = [] then Inl (JError ''Error'' ''childs_anchor key is required'')
      else if str_includes k ''{'' \<or> str_includes k ''}'' then
        Inl (JError ''Error'' (''childs_anchor key must not contain '{' or '}'' @ [CHR 0x27]))
      else if length k > maxLen then
        Inl (JError ''Error'' (''childs_anchor key too long (max '' @ show_nat maxLen @ '' chars)''))
      else Inr (''{cc:'' @ k @ ''}:meta''))"

definition childsAnchor :: "string \<Rightarrow> jsval + string" where
  \<comment> \<open>the default \<open>maxLen = 128\<close>; no caller passes another\<close>
  "childsAnchor key = childsAnchor_max key 128"

section \<open>The store and the runtime\<close>

text \<open>
  The store client \<open>r\<close> (an ioredis connection), the clock and the ULID generator are
  the outside world. Its state is a value of an arbitrary type \<open>'s\<close>; \<open>respond\<close> answers a
  store call with a reply (\<open>Inr\<close>) or a thrown error (\<open>Inl\<close>) and the next state. Every
  theorem below holds for every such world. The calls an operation issues are recorded,
  in order, in \<open>trace\<close>, together with the taking and releasing of the script mutex,
  the sleeps of the runloop and the lines it logs. A logged line is the template
  literal of the source that produced it (one constructor each) with the values
  interpolated into it; for the line that announces a job the last value is the raw
  payload, from which the preview that is printed is computed.
  An operation is one atomic step: tasks interleave between operations, so the mutex is
  free whenever \<open>lock\<close> is called.
\<close>

datatype call =
    EVALSHA string nat "string list"
  | EVAL string nat "string list"
  | EXISTS string
  | HGET string string


datatype log_line =
    LogSigterm string
  | LogHardExit string
  | LogDraining string
  | LogStopping string
  | LogExitIdle string
  | LogReserveError string
  | LogMissingToken string
  | LogFastExit string
  | LogReceived string int string string
  | LogAckSuccess string
  | LogAckSuccessError string string
  | LogAckFailRetry string int
  | LogAckFailFailed string
  | LogJobError string string
  | LogAckFailError string string
  | LogExitDrained string

datatype event = Call call | Lock | Unlock | Sleep jsnum | Log log_line

record script =
  sha :: string
  src :: string

record scripts =
  enqueue_script :: script
  reserve_script :: script
  heartbeat_script :: script
  ack_success_script :: script
  ack_fail_script :: script
  promote_delayed_script :: script
  reap_expired_script :: script
  pause_script :: script
  resume_script :: script
  retry_failed_script :: script
  retry_failed_batch_script :: script
  remove_job_script :: script
  remove_jobs_batch_script :: script
  childs_init_script :: script
  child_ack_script :: script

record 's runtime =
  respond :: "call \<Rightarrow> 's \<Rightarrow> (jsval + jsval) \<times> 's"
  nowMs :: "'s \<Rightarrow> int"
  newUlid :: "'s \<Rightarrow> string \<times> 's"
  scripts :: scripts

record 's world =
  ext :: 's
  trace :: "event list"

definition perform :: "'s runtime \<Rightarrow> call \<Rightarrow> 's world \<Rightarrow> (jsval + jsval) \<times> 's world" where
  "perform rt c w =
     (let (r, s') = respond rt c (ext w)
      in (r, w\<lparr>ext := s', trace := trace w @ [Call c]\<rparr>))"

definition emit :: "event \<Rightarrow> 's world \<Rightarrow> 's world" where
  "emit e w = w\<lparr>trace := trace w @ [e]\<rparr>"

section \<open>The operations layer (src/ops.ts)\<close>

definition Error :: "string \<Rightarrow> jsval" where
  \<comment> \<open>\<open>new Error(msg)\<close>\<close>
  "Error msg = JError ''Error'' msg"

definition isNoScriptError :: "jsval \<Rightarrow> bool" where
  "isNoScriptError err =
     (if \<not> truthy err \<or> \<not> typeof_object err then False
      else let msg = String_of (coalesce (get_message err) (JStr ''''))
           in str_includes (toUpperCase msg) ''NOSCRIPT'')"

definition evalshaWithNoScriptFallback ::
  "'s runtime \<Rightarrow> string \<Rightarrow> string \<Rightarrow> nat \<Rightarrow> string list \<Rightarrow> 's world \<Rightarrow> (jsval + jsval) \<times> 's world" where
  "evalshaWithNoScriptFallback rt sha' src' numkeys keysAndArgs w =
     (case perform rt (EVALSHA sha' numkeys keysAndArgs) w of
        (Inr res, w1) \<Rightarrow> (Inr res, w1)
      | (Inl err, w1) \<Rightarrow>
          if \<not> isNoScriptError err then (Inl err, w1)
          else
            let w2 = emit Lock w1;
                (r, w3) = perform rt (EVAL src' numkeys keysAndArgs) w2
            in (r, emit Unlock w3))"

definition run_script ::
  "'s runtime \<Rightarrow> (scripts \<Rightarrow> script) \<Rightarrow> string list \<Rightarrow> 's world \<Rightarrow> (jsval + jsval) \<times> 's world" where
  \<comment> \<open>\<open>this.evalshaWithNoScriptFallback(this.scripts.X.sha, this.scripts.X.src, 1, ...)\<close>\<close>
  "run_script rt which keysAndArgs w =
     evalshaWithNoScriptFallback rt (sha (which (scripts rt))) (src (which (scripts rt))) 1 keysAndArgs w"

definition now_or_override :: "'s runtime \<Rightarrow> jsnum option \<Rightarrow> 's world \<Rightarrow> jsnum" where
  \<comment> \<open>\<open>now_ms_override || nowMs()\<close>, the override defaulting to 0\<close>
  "now_or_override rt now_ms_override w =
     (let ov = (case now_ms_override of None \<Rightarrow> Fin 0 | Some n \<Rightarrow> n)
      in if num_truthy ov then ov else Fin (of_int (nowMs rt (ext w))))"

definition str_trunc :: "jsnum \<Rightarrow> string" where
  \<comment> \<open>\<open>String(Math.trunc(n))\<close>\<close>
  "str_trunc n = Number_toString (Math_trunc n)"

definition or_default :: "'a \<Rightarrow> 'a option \<Rightarrow> 'a" where
  \<comment> \<open>a destructuring default: it replaces an omitted (\<open>undefined\<close>) field\<close>
  "or_default d v = (case v of None \<Rightarrow> d | Some x \<Rightarrow> x)"

definition arr_items :: "jsval \<Rightarrow> jsval list option" where
  "arr_items v = (case v of JArr xs \<Rightarrow> Some xs | _ \<Rightarrow> None)"

definition reason_of :: "jsval list \<Rightarrow> string" where
  \<comment> \<open>\<open>res.length > 1 ? String(res[1]) : "UNKNOWN"\<close>\<close>
  "reason_of xs = (if length xs > 1 then String_of (index xs 1) else ''UNKNOWN'')"

record publish_args =
  arg_queue :: string
  arg_payload :: jsval
  arg_job_id :: "string option"
  arg_max_attempts :: "jsnum option"
  arg_timeout_ms :: "jsnum option"
  arg_backoff_ms :: "jsnum option"
  arg_due_ms :: "jsnum option"
  arg_now_ms_override :: "jsnum option"
  arg_gid :: "string option"
  arg_group_limit :: "jsnum option"

definition publish_type_error :: jsval where
  "publish_type_error = JError ''TypeError''
     (''publish(payload=...) must be an object or array (structured JSON). '' @
      ''Wrap strings as {text: '' @ [CHR 0x27] @ ''...'' @ [CHR 0x27] @ ''} or {value: '' @
      [CHR 0x27] @ ''...'' @ [CHR 0x27] @ ''}.'')"

definition fresh_ulid :: "'s runtime \<Rightarrow> 's world \<Rightarrow> string \<times> 's world" where
  "fresh_ulid rt w = (let (u, s') = newUlid rt (ext w) in (u, w\<lparr>ext := s'\<rparr>))"

definition publish_argv :: "'s runtime \<Rightarrow> publish_args \<Rightarrow> 's world \<Rightarrow> string list \<times> 's world" where
  \<comment> \<open>the arguments of the enqueue script, after the anchor; \<open>None\<close> stands for an omitted
      field, for \<open>gid\<close> also for \<open>null\<close>\<close>
  "publish_argv rt args w =
     (let max_attempts = or_default (Fin 3) (arg_max_attempts args);
          timeout_ms = or_default (Fin 30000) (arg_timeout_ms args);
          backoff_ms = or_default (Fin 5000) (arg_backoff_ms args);
          due_ms = or_default (Fin 0) (arg_due_ms args);
          group_limit = or_default (Fin 0) (arg_group_limit args);
          nms = now_or_override rt (arg_now_ms_override args) w;
          (jid, w1) = (case arg_job_id args of
                         None \<Rightarrow> fresh_ulid rt w
                       | Some j \<Rightarrow> if j \<noteq> [] then (j, w) else fresh_ulid rt w);
          payload_s = template (JSON_stringify (arg_payload args));
          gid_s = trim (or_default '''' (arg_gid args));
          glimit_s = (if num_truthy group_limit \<and> num_gt0 group_limit
                      then str_trunc group_limit else ''0'')
      in ([jid, payload_s, str_trunc max_attempts, str_trunc timeout_ms,
           str_trunc backoff_ms, str_trunc nms, str_trunc due_ms, gid_s, glimit_s], w1))"

definition publish :: "'s runtime \<Rightarrow> publish_args \<Rightarrow> 's world \<Rightarrow> (jsval + string) \<times> 's world" where
  "publish rt args w =
     (let isObject = (arg_payload args \<noteq> JNull \<and> typeof_object (arg_payload args)
                       \<and> \<not> Array_isArray (arg_payload args));
          isArray = Array_isArray (arg_payload args)
      in if \<not> isObject \<and> \<not> isArray then (Inl publish_type_error, w)
         else
           let anchor = queueAnchor (arg_queue args);
               (argv, w1) = publish_argv rt args w
           in case run_script rt enqueue_script (anchor # argv) w1 of
                (Inl e, w2) \<Rightarrow> (Inl e, w2)
              | (Inr res, w2) \<Rightarrow>
                  (case arr_items res of
                     None \<Rightarrow> (Inl (Error (''Unexpected ENQUEUE response: '' @ String_of res)), w2)
                   | Some xs \<Rightarrow>
                       if length xs < 2 then
                         (Inl (Error (''Unexpected ENQUEUE response: '' @ String_of res)), w2)
                       else
                         let status = String_of (index xs 0); out_id = String_of (index xs 1)
                         in if status \<noteq> ''OK'' then (Inl (Error (''ENQUEUE failed: '' @ status)), w2)
                            else (Inr out_id, w2)))"

definition unexpected :: "string \<Rightarrow> string \<Rightarrow> jsval" where
  \<comment> \<open>\<open>new Error(`Unexpected OP response: ${text}`)\<close>\<close>
  "unexpected op text = Error (''Unexpected '' @ op @ '' response: '' @ text)"

definition failed :: "string \<Rightarrow> jsval list \<Rightarrow> jsval" where
  \<comment> \<open>\<open>new Error(`OP failed: ${reason}`)\<close>\<close>
  "failed op xs = Error (op @ '' failed: '' @ reason_of xs)"

definition pause :: "'s runtime \<Rightarrow> string \<Rightarrow> 's world \<Rightarrow> (jsval + string) \<times> 's world" where
  "pause rt queue w =
     (case run_script rt pause_script [queueAnchor queue] w of
        (Inl e, w1) \<Rightarrow> (Inl e, w1)
      | (Inr res, w1) \<Rightarrow> (Inr (String_of res), w1))"

definition resume :: "'s runtime \<Rightarrow> string \<Rightarrow> 's world \<Rightarrow> (jsval + jsnum) \<times> 's world" where
  "resume rt queue w =
     (case run_script rt resume_script [queueAnchor queue] w of
        (Inl e, w1) \<Rightarrow> (Inl e, w1)
      | (Inr res, w1) \<Rightarrow>
          (let n = Number_of res in (Inr (if Number_isFinite n then Math_trunc n else Fin 0), w1)))"

definition is_paused :: "'s runtime \<Rightarrow> string \<Rightarrow> 's world \<Rightarrow> (jsval + bool) \<times> 's world" where
  "is_paused rt queue w =
     (let base = queueBase queue in
      case perform rt (EXISTS (base @ '':paused'')) w of
        (Inl e, w1) \<Rightarrow> (Inl e, w1)
      | (Inr n, w1) \<Rightarrow> (Inr (Number_of n = Fin 1), w1))"

record ReserveJob =
  rj_job_id :: string
  rj_payload :: string
  rj_lock_until_ms :: int
  rj_attempt :: int
  rj_gid :: string
  rj_lease_token :: string

datatype ReserveResult = Empty | Paused | Job ReserveJob

definition reserve_parse :: "jsval \<Rightarrow> jsval + ReserveResult" where
  "reserve_parse res =
     (case arr_items res of
        None \<Rightarrow> Inl (unexpected ''RESERVE'' (String_of res))
      | Some xs \<Rightarrow>
          if length xs < 1 then Inl (unexpected ''RESERVE'' (String_of res))
          else if index xs 0 = JStr ''EMPTY'' then Inr Empty
          else if index xs 0 = JStr ''PAUSED'' then Inr Paused
          else if index xs 0 \<noteq> JStr ''JOB'' \<or> length xs < 7 then
            Inl (unexpected ''RESERVE'' (template (JSON_stringify res)))
          else Inr (Job \<lparr>rj_job_id = String_of (index xs 1),
                          rj_payload = String_of (index xs 2),
                          rj_lock_until_ms = ToInt32 (Number_of (index xs 3)),
                          rj_attempt = ToInt32 (Number_of (index xs 4)),
                          rj_gid = String_of (coalesce (index xs 5) (JStr '''')),
                          rj_lease_token = String_of (coalesce (index xs 6) (JStr ''''))\<rparr>))"

definition reserve ::
  "'s runtime \<Rightarrow> string \<Rightarrow> jsnum option \<Rightarrow> 's world \<Rightarrow> (jsval + ReserveResult) \<times> 's world" where
  "reserve rt queue now_ms_override w =
     (let anchor = queueAnchor queue; nms = now_or_override rt now_ms_override w in
      case run_script rt reserve_script [anchor, str_trunc nms] w of
        (Inl e, w1) \<Rightarrow> (Inl e, w1)
      | (Inr res, w1) \<Rightarrow> (reserve_parse res, w1))"

definition heartbeat_parse :: "jsval \<Rightarrow> jsval + int" where
  "heartbeat_parse res =
     (case arr_items res of
        None \<Rightarrow> Inl (unexpected ''HEARTBEAT'' (String_of res))
      | Some xs \<Rightarrow>
          if length xs < 1 then Inl (unexpected ''HEARTBEAT'' (String_of res))
          else if index xs 0 = JStr ''OK'' then Inr (ToInt32 (Number_of (index xs 1)))
          else if index xs 0 = JStr ''ERR'' then Inl (failed ''HEARTBEAT'' xs)
          else Inl (unexpected ''HEARTBEAT'' (template (JSON_stringify res))))"

definition heartbeat ::
  "'s runtime \<Rightarrow> string \<Rightarrow> string \<Rightarrow> string \<Rightarrow> jsnum option \<Rightarrow> 's world \<Rightarrow> (jsval + int) \<times> 's world" where
  "heartbeat rt queue job_id lease_token now_ms_override w =
     (let anchor = queueAnchor queue; nms = now_or_override rt now_ms_override w in
      case run_script rt heartbeat_script [anchor, job_id, str_trunc nms, lease_token] w of
        (Inl e, w1) \<Rightarrow> (Inl e, w1)
      | (Inr res, w1) \<Rightarrow> (heartbeat_parse res, w1))"

definition status_parse :: "string \<Rightarrow> jsval \<Rightarrow> jsval + unit" where
  \<comment> \<open>the reply shape \<open>["OK"]\<close> or \<open>["ERR", reason]\<close> of ack_success, retry_failed,
      remove_job and childs_init\<close>
  "status_parse op res =
     (case arr_items res of
        None \<Rightarrow> Inl (unexpected op (String_of res))
      | Some xs \<Rightarrow>
          if length xs < 1 then Inl (unexpected op (String_of res))
          else if index xs 0 = JStr ''OK'' then Inr ()
          else if index xs 0 = JStr ''ERR'' then Inl (failed op xs)
          else Inl (unexpected op (template (JSON_stringify res))))"

definition ack_success ::
  "'s runtime \<Rightarrow> string \<Rightarrow> string \<Rightarrow> string \<Rightarrow> jsnum option \<Rightarrow> 's world \<Rightarrow> (jsval + unit) \<times> 's world" where
  "ack_success rt queue job_id lease_token now_ms_override w =
     (let anchor = queueAnchor queue; nms = now_or_override rt now_ms_override w in
      case run_script rt ack_success_script [anchor, job_id, str_trunc nms, lease_token] w of
        (Inl e, w1) \<Rightarrow> (Inl e, w1)
      | (Inr res, w1) \<Rightarrow> (status_parse ''ACK_SUCCESS'' res, w1))"

datatype AckFailResult = RETRY int | FAILED

definition ack_fail_parse :: "jsval \<Rightarrow> jsval + AckFailResult" where
  "ack_fail_parse res =
     (case arr_items res of
        None \<Rightarrow> Inl (unexpected ''ACK_FAIL'' (String_of res))
      | Some xs \<Rightarrow>
          if length xs < 1 then Inl (unexpected ''ACK_FAIL'' (String_of res))
          else if index xs 0 = JStr ''RETRY'' then Inr (RETRY (ToInt32 (Number_of (index xs 1))))
          else if index xs 0 = JStr ''FAILED'' then Inr FAILED
          else if index xs 0 = JStr ''ERR'' then Inl (failed ''ACK_FAIL'' xs)
          else Inl (unexpected ''ACK_FAIL'' (template (JSON_stringify res))))"

definition ack_fail ::
  "'s runtime \<Rightarrow> string \<Rightarrow> string \<Rightarrow> string \<Rightarrow> string option \<Rightarrow> jsnum option \<Rightarrow> 's world
     \<Rightarrow> (jsval + AckFailResult) \<times> 's world" where
  \<comment> \<open>\<open>error\<close> is \<open>None\<close> when omitted or \<open>null\<close>\<close>
  "ack_fail rt queue job_id lease_token error now_ms_override w =
     (let anchor = queueAnchor queue; nms = now_or_override rt now_ms_override w;
          argv = (case error of
                    None \<Rightarrow> [anchor, job_id, str_trunc nms, lease_token]
                  | Some e \<Rightarrow> if trim e = '''' then [anchor, job_id, str_trunc nms, lease_token]
                              else [anchor, job_id, str_trunc nms, lease_token, e])
      in case run_script rt ack_fail_script argv w of
           (Inl e, w1) \<Rightarrow> (Inl e, w1)
         | (Inr res, w1) \<Rightarrow> (ack_fail_parse res, w1))"

definition count_parse :: "string \<Rightarrow> jsval \<Rightarrow> jsval + int" where
  \<comment> \<open>the reply shape \<open>["OK", count]\<close> of promote_delayed and reap_expired\<close>
  "count_parse op res =
     (case arr_items res of
        None \<Rightarrow> Inl (unexpected op (template (JSON_stringify res)))
      | Some xs \<Rightarrow>
          if length xs < 2 \<or> index xs 0 \<noteq> JStr ''OK'' then
            Inl (unexpected op (template (JSON_stringify res)))
          else Inr (ToInt32 (Number_of (index xs 1))))"

definition promote_delayed ::
  "'s runtime \<Rightarrow> string \<Rightarrow> jsnum option \<Rightarrow> jsnum option \<Rightarrow> 's world \<Rightarrow> (jsval + int) \<times> 's world" where
  "promote_delayed rt queue max_promote now_ms_override w =
     (let anchor = queueAnchor queue; nms = now_or_override rt now_ms_override w in
      case run_script rt promote_delayed_script
             [anchor, str_trunc nms, str_trunc (or_default (Fin 1000) max_promote)] w of
        (Inl e, w1) \<Rightarrow> (Inl e, w1)
      | (Inr res, w1) \<Rightarrow> (count_parse ''PROMOTE_DELAYED'' res, w1))"

definition reap_expired ::
  "'s runtime \<Rightarrow> string \<Rightarrow> jsnum option \<Rightarrow> jsnum option \<Rightarrow> 's world \<Rightarrow> (jsval + int) \<times> 's world" where
  "reap_expired rt queue max_reap now_ms_override w =
     (let anchor = queueAnchor queue; nms = now_or_override rt now_ms_override w in
      case run_script rt reap_expired_script
             [anchor, str_trunc nms, str_trunc (or_default (Fin 1000) max_reap)] w of
        (Inl e, w1) \<Rightarrow> (Inl e, w1)
      | (Inr res, w1) \<Rightarrow> (count_parse ''REAP_EXPIRED'' res, w1))"

definition job_timeout_ms ::
  "'s runtime \<Rightarrow> string \<Rightarrow> string \<Rightarrow> jsnum option \<Rightarrow> 's world \<Rightarrow> (jsval + jsnum) \<times> 's world" where
  "job_timeout_ms rt queue job_id default_ms w =
     (let base = queueBase queue; k_job = base @ '':job:'' @ job_id in
      case perform rt (HGET k_job ''timeout_ms'') w of
        (Inl e, w1) \<Rightarrow> (Inl e, w1)
      | (Inr v, w1) \<Rightarrow>
          (let n = Number_of v
           in (Inr (if Number_isFinite n \<and> num_gt0 n then Math_trunc n
                    else Math_trunc (or_default (Fin 60000) default_ms)), w1)))"

definition retry_failed ::
  "'s runtime \<Rightarrow> string \<Rightarrow> string \<Rightarrow> jsnum option \<Rightarrow> 's world \<Rightarrow> (jsval + unit) \<times> 's world" where
  "retry_failed rt queue job_id now_ms_override w =
     (let anchor = queueAnchor queue; nms = now_or_override rt now_ms_override w in
      case run_script rt retry_failed_script [anchor, job_id, str_trunc nms] w of
        (Inl e, w1) \<Rightarrow> (Inl e, w1)
      | (Inr res, w1) \<Rightarrow> (status_parse ''RETRY_FAILED'' res, w1))"

function batch_rows :: "jsval list \<Rightarrow> nat \<Rightarrow> (string \<times> string \<times> string option) list" where
  \<comment> \<open>the \<open>while (i < res.length)\<close> loop of the two batch operations\<close>
  "batch_rows res i =
     (if i < length res then
        let job_id = String_of (coalesce (index res i) (JStr ''''));
            status = String_of (coalesce (index res (i + 1)) (JStr ''''))
        in if status = ''ERR'' then
             (job_id, status, Some (String_of (coalesce (index res (i + 2)) (JStr ''UNKNOWN''))))
               # batch_rows res (i + 3)
           else (job_id, status, None) # batch_rows res (i + 2)
      else [])"
  by pat_completeness auto
termination
  by (relation "measure (\<lambda>(res, i). length res - i)") auto

declare batch_rows.simps [simp del]

definition batch_parse :: "string \<Rightarrow> jsval \<Rightarrow> jsval + (string \<times> string \<times> string option) list" where
  "batch_parse op res =
     (case arr_items res of
        None \<Rightarrow> Inl (unexpected op (String_of res))
      | Some xs \<Rightarrow>
          if length xs \<ge> 2 \<and> String_of (index xs 0) = ''ERR'' then
            Inl (Error (trim (op @ '' failed: '' @ String_of (index xs 1) @ '' '' @
                              (if length xs > 2 then String_of (index xs 2) else ''''))))
          else Inr (batch_rows xs 0))"

definition retry_failed_batch ::
  "'s runtime \<Rightarrow> string \<Rightarrow> string list \<Rightarrow> jsnum option \<Rightarrow> 's world
     \<Rightarrow> (jsval + (string \<times> string \<times> string option) list) \<times> 's world" where
  "retry_failed_batch rt queue job_ids now_ms_override w =
     (if length job_ids > 100 then
        (Inl (Error ''retry_failed_batch max is 100 job_ids per call''), w)
      else
        let anchor = queueAnchor queue; nms = now_or_override rt now_ms_override w;
            argv = [str_trunc nms, show_nat (length job_ids)] @ job_ids
        in case run_script rt retry_failed_batch_script (anchor # argv) w of
             (Inl e, w1) \<Rightarrow> (Inl e, w1)
           | (Inr res, w1) \<Rightarrow> (batch_parse ''RETRY_FAILED_BATCH'' res, w1))"

definition remove_job ::
  "'s runtime \<Rightarrow> string \<Rightarrow> string \<Rightarrow> string \<Rightarrow> 's world \<Rightarrow> (jsval + string) \<times> 's world" where
  "remove_job rt queue job_id lane w =
     (let anchor = queueAnchor queue in
      case run_script rt remove_job_script [anchor, job_id, lane] w of
        (Inl e, w1) \<Rightarrow> (Inl e, w1)
      | (Inr res, w1) \<Rightarrow>
          (case status_parse ''REMOVE_JOB'' res of
             Inl e \<Rightarrow> (Inl e, w1)
           | Inr u \<Rightarrow> (Inr ''OK'', w1)))"

definition remove_jobs_batch ::
  "'s runtime \<Rightarrow> string \<Rightarrow> string \<Rightarrow> string list \<Rightarrow> 's world
     \<Rightarrow> (jsval + (string \<times> string \<times> string option) list) \<times> 's world" where
  "remove_jobs_batch rt queue lane job_ids w =
     (if length job_ids > 100 then
        (Inl (Error ''remove_jobs_batch max is 100 job_ids per call''), w)
      else
        let anchor = queueAnchor queue;
            argv = [lane, show_nat (length job_ids)] @ job_ids
        in case run_script rt remove_jobs_batch_script (anchor # argv) w of
             (Inl e, w1) \<Rightarrow> (Inl e, w1)
           | (Inr res, w1) \<Rightarrow> (batch_parse ''REMOVE_JOBS_BATCH'' res, w1))"

definition childs_init ::
  "'s runtime \<Rightarrow> string \<Rightarrow> jsnum \<Rightarrow> 's world \<Rightarrow> (jsval + unit) \<times> 's world" where
  "childs_init rt key expected w =
     (case childsAnchor key of
        Inl e \<Rightarrow> (Inl e, w)
      | Inr anchor \<Rightarrow>
          (case run_script rt childs_init_script [anchor, str_trunc expected] w of
             (Inl e, w1) \<Rightarrow> (Inl e, w1)
           | (Inr res, w1) \<Rightarrow> (status_parse ''CHILDS_INIT'' res, w1)))"

definition child_ack_parse :: "jsval \<Rightarrow> jsnum" where
  \<comment> \<open>the body of the \<open>try\<close> block after the store call\<close>
  "child_ack_parse res =
     (case arr_items res of
        None \<Rightarrow> Fin (- 1)
      | Some xs \<Rightarrow>
          if length xs < 1 then Fin (- 1)
          else if index xs 0 = JStr ''OK'' then
            (if length xs < 2 then Fin (- 1)
             else let n = Number_of (index xs 1)
                  in if Number_isFinite n then Math_trunc n else Fin (- 1))
          else Fin (- 1))"

definition child_ack ::
  "'s runtime \<Rightarrow> string \<Rightarrow> string \<Rightarrow> 's world \<Rightarrow> (jsval + jsnum) \<times> 's world" where
  "child_ack rt key child_id w =
     (case childsAnchor key of
        Inl e \<Rightarrow> (Inl e, w)
      | Inr anchor \<Rightarrow>
          let cid = trim child_id in
          if cid = [] then (Inl (Error ''child_ack child_id is required''), w)
          else
            (case run_script rt child_ack_script [anchor, cid] w of
               (Inl e, w1) \<Rightarrow> (Inr (Fin (- 1)), w1)
             | (Inr res, w1) \<Rightarrow> (Inr (child_ack_parse res), w1)))"

section \<open>The handler-facing facade (src/exec.ts)\<close>

text \<open>
  An \<open>Exec\<close> holds the operations layer and \<open>default_child_id\<close>. An omitted or \<open>null\<close>
  \<open>child_id\<close> is \<open>None\<close>.
\<close>

definition Exec_publish :: "'s runtime \<Rightarrow> publish_args \<Rightarrow> 's world \<Rightarrow> (jsval + string) \<times> 's world" where
  \<comment> \<open>the facade has no \<open>now_ms_override\<close>: it passes none on\<close>
  "Exec_publish rt args w =
     publish rt
       \<lparr>arg_queue = arg_queue args,
        arg_payload = arg_payload args,
        arg_job_id = arg_job_id args,
        arg_max_attempts = Some (or_default (Fin 3) (arg_max_attempts args)),
        arg_timeout_ms = Some (or_default (Fin 60000) (arg_timeout_ms args)),
        arg_backoff_ms = Some (or_default (Fin 5000) (arg_backoff_ms args)),
        arg_due_ms = Some (or_default (Fin 0) (arg_due_ms args)),
        arg_now_ms_override = None,
        arg_gid = arg_gid args,
        arg_group_limit = Some (or_default (Fin 0) (arg_group_limit args))\<rparr> w"

definition Exec_pause :: "'s runtime \<Rightarrow> string \<Rightarrow> 's world \<Rightarrow> (jsval + string) \<times> 's world" where
  "Exec_pause rt queue w = pause rt queue w"

definition Exec_resume :: "'s runtime \<Rightarrow> string \<Rightarrow> 's world \<Rightarrow> (jsval + jsnum) \<times> 's world" where
  "Exec_resume rt queue w = resume rt queue w"

definition Exec_is_paused :: "'s runtime \<Rightarrow> string \<Rightarrow> 's world \<Rightarrow> (jsval + bool) \<times> 's world" where
  "Exec_is_paused rt queue w = is_paused rt queue w"

definition Exec_childs_init :: "'s runtime \<Rightarrow> string \<Rightarrow> jsnum \<Rightarrow> 's world \<Rightarrow> (jsval + unit) \<times> 's world" where
  "Exec_childs_init rt key expected w = childs_init rt key (Math_trunc expected) w"

definition Exec_child_ack ::
  "'s runtime \<Rightarrow> string \<Rightarrow> string \<Rightarrow> string option \<Rightarrow> 's world \<Rightarrow> (jsval + jsnum) \<times> 's world" where
  "Exec_child_ack rt default_child_id key child_id w =
     (let cid = trim (case child_id of None \<Rightarrow> default_child_id | Some c \<Rightarrow> c) in
      if cid = [] then (Inl (Error ''child_id is required (or provide default_child_id)''), w)
      else
        (case child_ack rt key cid w of
           (Inl e, w1) \<Rightarrow> (Inl e, w1)
         | (Inr n, w1) \<Rightarrow> (Inr (Math_trunc n), w1)))"

section \<open>Requests and the keys they use\<close>

text \<open>
  One constructor per operation of the client, to speak about all of them at once:
  \<open>run_request\<close> runs the operation and keeps the world it leaves, \<open>keys_of\<close> gives the keys a
  traced store call names (the declared keys of a script call, the key of \<open>EXISTS\<close> and of
  \<open>HGET\<close>).
\<close>

datatype request =
    Publish publish_args
  | PublishViaExec publish_args
  | Pause string
  | Resume string
  | IsPaused string
  | Reserve string "jsnum option"
  | Heartbeat string string string "jsnum option"
  | AckSuccess string string string "jsnum option"
  | AckFail string string string "string option" "jsnum option"
  | PromoteDelayed string "jsnum option" "jsnum option"
  | ReapExpired string "jsnum option" "jsnum option"
  | JobTimeoutMs string string "jsnum option"
  | RetryFailed string string "jsnum option"
  | RetryFailedBatch string "string list" "jsnum option"
  | RemoveJob string string string
  | RemoveJobsBatch string string "string list"
  | ChildsInit string jsnum
  | ChildAck string string

fun run_request :: "'s runtime \<Rightarrow> request \<Rightarrow> 's world \<Rightarrow> 's world" where
  "run_request rt (Publish args) w = snd (publish rt args w)"
| "run_request rt (PublishViaExec args) w = snd (Exec_publish rt args w)"
| "run_request rt (Pause q) w = snd (pause rt q w)"
| "run_request rt (Resume q) w = snd (resume rt q w)"
| "run_request rt (IsPaused q) w = snd (is_paused rt q w)"
| "run_request rt (Reserve q ov) w = snd (reserve rt q ov w)"
| "run_request rt (Heartbeat q j t ov) w = snd (heartbeat rt q j t ov w)"
| "run_request rt (AckSuccess q j t ov) w = snd (ack_success rt q j t ov w)"
| "run_request rt (AckFail q j t e ov) w = snd (ack_fail rt q j t e ov w)"
| "run_request rt (PromoteDelayed q m ov) w = snd (promote_delayed rt q m ov w)"
| "run_request rt (ReapExpired q m ov) w = snd (reap_expired rt q m ov w)"
| "run_request rt (JobTimeoutMs q j d) w = snd (job_timeout_ms rt q j d w)"
| "run_request rt (RetryFailed q j ov) w = snd (retry_failed rt q j ov w)"
| "run_request rt (RetryFailedBatch q js ov) w = snd (retry_failed_batch rt q js ov w)"
| "run_request rt (RemoveJob q j l) w = snd (remove_job rt q j l w)"
| "run_request rt (RemoveJobsBatch q l js) w = snd (remove_jobs_batch rt q l js w)"
| "run_request rt (ChildsInit k n) w = snd (childs_init rt k n w)"
| "run_request rt (ChildAck k c) w = snd (child_ack rt k c w)"

fun request_queue :: "request \<Rightarrow> string option" where
  "request_queue (Publish args) = Some (arg_queue args)"
| "request_queue (PublishViaExec args) = Some (arg_queue args)"
| "request_queue (Pause q) = Some q"
| "request_queue (Resume q) = Some q"
| "request_queue (IsPaused q) = Some q"
| "request_queue (Reserve q ov) = Some q"
| "request_queue (Heartbeat q j t ov) = Some q"
| "request_queue (AckSuccess q j t ov) = Some q"
| "request_queue (AckFail q j t e ov) = Some q"
| "request_queue (PromoteDelayed q m ov) = Some q"
| "request_queue (ReapExpired q m ov) = Some q"
| "request_queue (JobTimeoutMs q j d) = Some q"
| "request_queue (RetryFailed q j ov) = Some q"
| "request_queue (RetryFailedBatch q js ov) = Some q"
| "request_queue (RemoveJob q j l) = Some q"
| "request_queue (RemoveJobsBatch q l js) = Some q"
| "request_queue (ChildsInit k n) = None"
| "request_queue (ChildAck k c) = None"

fun request_child_key :: "request \<Rightarrow> string option" where
  "request_child_key (ChildsInit k n) = Some k"
| "request_child_key (ChildAck k c) = Some k"
| "request_child_key r = None"

fun keys_of :: "event \<Rightarrow> string list" where
  "keys_of (Call (EVALSHA h n ka)) = take n ka"
| "keys_of (Call (EVAL s n ka)) = take n ka"
| "keys_of (Call (EXISTS k)) = [k]"
| "keys_of (Call (HGET k f)) = [k]"
| "keys_of e = []"

definition uses_only :: "string set \<Rightarrow> 's world \<Rightarrow> 's world \<Rightarrow> bool" where
  \<comment> \<open>from \<open>w\<close> to \<open>w'\<close> the trace only grew, and the calls added name no key outside \<open>K\<close>\<close>
  "uses_only K w w' = (\<exists>evs. trace w' = trace w @ evs \<and> set (concat (map keys_of evs)) \<subseteq> K)"

definition store_calls :: "event list \<Rightarrow> call list" where
  "store_calls evs = concat (map (\<lambda>e. case e of Call c \<Rightarrow> [c] | _ \<Rightarrow> []) evs)"

section \<open>The consumer runloop (src/consumer.ts)\<close>

text \<open>
  The runloop is one cooperative task. It suspends at every \<open>await\<close>; what else happens
  in the meantime is an input of the model: the signals delivered during each suspension
  (\<open>signals\<close>, one list per suspension, in order), and, while the handler runs, the turns of
  the event loop (\<open>turn\<close>): a segment of the handler, the heartbeat timer firing, the
  result of a heartbeat call arriving, a signal. A store operation is one atomic step;
  the time a sleep or a timer takes is not modelled, the value passed to it is.
\<close>

datatype signal = SIGINT | SIGTERM

record StopController =
  stop :: bool
  sigint_count :: nat

datatype outcome = Returned | Threw jsval | Exited nat

datatype 'a res = Val 'a | Halt outcome

record consume_opts =
  poll_interval_s :: "jsnum option"
  promote_interval_s :: "jsnum option"
  promote_batch :: "jsnum option"
  reap_interval_s :: "jsnum option"
  reap_batch :: "jsnum option"
  heartbeat_interval_s :: "jsnum option"
  verbose :: "bool option"
  drain :: "bool option"
  stop_on_ctrl_c :: "bool option"

record JobCtx =
  ctx_queue :: string
  ctx_job_id :: string
  ctx_payload_raw :: string
  ctx_attempt :: int
  ctx_lock_until_ms :: int
  ctx_lease_token :: string
  ctx_gid :: string
  ctx_default_child_id :: string

record 's cstate =
  world :: "'s world"
  ctrl :: StopController
  lastPromote :: jsnum
  lastReap :: jsnum
  signals :: "signal list list"

datatype 's turn = Handler "'s world \<Rightarrow> 's world" | Fire | Deliver | Signal signal

subsection \<open>The heartbeater\<close>

text \<open>
  The variables shared by the closures of \<open>startHeartbeater\<close>, and the heartbeat calls that
  were issued and whose results have not arrived yet (\<open>True\<close> marks the immediate first
  call, whose continuation arms the timer).
\<close>

record HeartbeatHandle =
  stopped :: bool
  lost :: bool
  timer :: "jsnum option"
  done_resolved :: bool
  interval_s :: jsnum
  inflight :: "(bool \<times> (jsval + int)) list"

definition hb_stop :: "HeartbeatHandle \<Rightarrow> HeartbeatHandle" where
  "hb_stop h = (if stopped h then h else h\<lparr>stopped := True, timer := None, done_resolved := True\<rparr>)"

definition lease_lost_message :: "jsval \<Rightarrow> bool" where
  \<comment> \<open>the test of \<open>checkLost\<close> on \<open>String(e?.message ?? e ?? "")\<close>\<close>
  "lease_lost_message e =
     (let msg = String_of (coalesce (coalesce (get_message e) e) (JStr ''''))
      in str_includes msg ''NOT_ACTIVE'' \<or> str_includes msg ''TOKEN_MISMATCH'')"

definition checkLost :: "jsval \<Rightarrow> HeartbeatHandle \<Rightarrow> bool \<times> HeartbeatHandle" where
  "checkLost e h =
     (if lease_lost_message e then (True, hb_stop (h\<lparr>lost := True\<rparr>)) else (False, h))"

definition startHeartbeater ::
  "'s runtime \<Rightarrow> string \<Rightarrow> string \<Rightarrow> string \<Rightarrow> jsnum \<Rightarrow> 's world \<Rightarrow> HeartbeatHandle \<times> 's world" where
  \<comment> \<open>the immediate heartbeat is issued before \<open>startHeartbeater\<close> returns\<close>
  "startHeartbeater rt queue job_id lease_token interval w =
     (let (r, w1) = heartbeat rt queue job_id lease_token None w
      in (\<lparr>stopped = False, lost = False, timer = None, done_resolved = False,
           interval_s = interval, inflight = [(True, r)]\<rparr>, w1))"

definition hb_deliver :: "HeartbeatHandle \<Rightarrow> HeartbeatHandle" where
  \<comment> \<open>the oldest heartbeat call in flight settles and its continuation runs\<close>
  "hb_deliver h =
     (case inflight h of
        [] \<Rightarrow> h
      | (first, r) # rest \<Rightarrow>
          let h0 = h\<lparr>inflight := rest\<rparr>;
              (was_lost, h1) = (case r of Inl e \<Rightarrow> checkLost e h0 | Inr v \<Rightarrow> (False, h0))
          in if \<not> first \<or> was_lost \<or> stopped h1 then h1
             else h1\<lparr>timer := Some (Math_max (Fin 1) (Math_floor (num_mul (interval_s h1) (Fin 1000))))\<rparr>)"

definition hb_fire ::
  "'s runtime \<Rightarrow> string \<Rightarrow> string \<Rightarrow> string \<Rightarrow> HeartbeatHandle \<times> 's world \<Rightarrow> HeartbeatHandle \<times> 's world" where
  \<comment> \<open>the interval timer fires, if it is armed\<close>
  "hb_fire rt queue job_id lease_token hw =
     (let (h, w) = hw in
      if timer h = None \<or> stopped h then (h, w)
      else let (r, w1) = heartbeat rt queue job_id lease_token None w
           in (h\<lparr>inflight := inflight h @ [(False, r)]\<rparr>, w1))"

subsection \<open>Signals, logging, suspension\<close>

definition safeLog :: "consume_opts \<Rightarrow> log_line \<Rightarrow> 's cstate \<Rightarrow> 's cstate" where
  \<comment> \<open>\<open>if (verbose) safeLog(logger, msg)\<close>\<close>
  "safeLog opts l s =
     (if or_default False (verbose opts) then s\<lparr>world := emit (Log l) (world s)\<rparr> else s)"

definition request_stop :: "'s cstate \<Rightarrow> 's cstate" where
  "request_stop s = s\<lparr>ctrl := (ctrl s)\<lparr>stop := True\<rparr>\<rparr>"

definition onSigterm :: "consume_opts \<Rightarrow> string \<Rightarrow> 's cstate \<Rightarrow> unit res \<times> 's cstate" where
  "onSigterm opts queue s = (Val (), safeLog opts (LogSigterm queue) (request_stop s))"

definition onSigint :: "consume_opts \<Rightarrow> string \<Rightarrow> 's cstate \<Rightarrow> unit res \<times> 's cstate" where
  "onSigint opts queue s =
     (let s1 = s\<lparr>ctrl := (ctrl s)\<lparr>sigint_count := sigint_count (ctrl s) + 1\<rparr>\<rparr> in
      if or_default True (drain opts) then
        (if sigint_count (ctrl s1) \<ge> 2 then (Halt (Exited 130), safeLog opts (LogHardExit queue) s1)
         else (Val (), safeLog opts (LogDraining queue) (request_stop s1)))
      else (Val (), safeLog opts (LogStopping queue) (request_stop s1)))"

definition and_then :: "'a res \<times> 'c \<Rightarrow> ('a \<Rightarrow> 'c \<Rightarrow> 'b res \<times> 'c) \<Rightarrow> 'b res \<times> 'c" where
  "and_then p f = (case p of (Halt h, s) \<Rightarrow> (Halt h, s) | (Val a, s) \<Rightarrow> f a s)"

definition on_signal :: "consume_opts \<Rightarrow> string \<Rightarrow> signal \<Rightarrow> 's cstate \<Rightarrow> unit res \<times> 's cstate" where
  \<comment> \<open>the handlers are installed only with \<open>stop_on_ctrl_c\<close>\<close>
  "on_signal opts queue sg s =
     (if \<not> or_default True (stop_on_ctrl_c opts) then (Val (), s)
      else case sg of SIGTERM \<Rightarrow> onSigterm opts queue s | SIGINT \<Rightarrow> onSigint opts queue s)"

fun on_signals :: "consume_opts \<Rightarrow> string \<Rightarrow> signal list \<Rightarrow> 's cstate \<Rightarrow> unit res \<times> 's cstate" where
  "on_signals opts queue [] s = (Val (), s)"
| "on_signals opts queue (sg # sgs) s =
     and_then (on_signal opts queue sg s) (\<lambda>u. on_signals opts queue sgs)"

definition suspend :: "consume_opts \<Rightarrow> string \<Rightarrow> 's cstate \<Rightarrow> unit res \<times> 's cstate" where
  \<comment> \<open>one \<open>await\<close>: the signals of this suspension are delivered\<close>
  "suspend opts queue s =
     (case signals s of
        [] \<Rightarrow> (Val (), s)
      | sgs # later \<Rightarrow> on_signals opts queue sgs (s\<lparr>signals := later\<rparr>))"

definition await_op ::
  "consume_opts \<Rightarrow> string \<Rightarrow> ('s world \<Rightarrow> 'a \<times> 's world) \<Rightarrow> 's cstate \<Rightarrow> 'a res \<times> 's cstate" where
  \<comment> \<open>\<open>await ops.X(...)\<close>\<close>
  "await_op opts queue op s =
     (let (r, w1) = op (world s)
      in and_then (suspend opts queue (s\<lparr>world := w1\<rparr>)) (\<lambda>u s1. (Val r, s1)))"

definition sleep :: "consume_opts \<Rightarrow> string \<Rightarrow> jsnum \<Rightarrow> 's cstate \<Rightarrow> unit res \<times> 's cstate" where
  \<comment> \<open>\<open>await sleep(ms)\<close>\<close>
  "sleep opts queue ms s = suspend opts queue (s\<lparr>world := emit (Sleep ms) (world s)\<rparr>)"

definition paused_backoff_s :: "jsnum \<Rightarrow> jsnum" where
  "paused_backoff_s poll = Math_max (to_double (1 / 4)) (num_mul poll (Fin 10))"

definition derive_heartbeat_interval_s :: "jsnum \<Rightarrow> jsnum" where
  "derive_heartbeat_interval_s timeout =
     (let half = Math_max (Fin 1) (num_div (num_div timeout (Fin 1000)) (Fin 2))
      in Math_max (Fin 1) (Math_min (Fin 10) half))"

definition sleep_ms :: "jsnum \<Rightarrow> jsnum" where
  \<comment> \<open>\<open>Math.max(1, Math.floor(seconds * 1000))\<close>\<close>
  "sleep_ms seconds = Math_max (Fin 1) (Math_floor (num_mul seconds (Fin 1000)))"

definition error_text :: "jsval \<Rightarrow> string" where
  \<comment> \<open>\<open>String(e?.message ?? e)\<close>\<close>
  "error_text e = String_of (coalesce (get_message e) e)"

subsection \<open>One job\<close>

fun run_turns ::
  "consume_opts \<Rightarrow> 's runtime \<Rightarrow> string \<Rightarrow> ReserveJob \<Rightarrow> 's turn list
     \<Rightarrow> HeartbeatHandle \<Rightarrow> 's cstate \<Rightarrow> HeartbeatHandle res \<times> 's cstate" where
  \<comment> \<open>what happens during \<open>await handler(ctx)\<close>; the handler cannot reach the heartbeater\<close>
  "run_turns opts rt queue job [] h s = (Val h, s)"
| "run_turns opts rt queue job (Handler f # ts) h s =
     run_turns opts rt queue job ts h (s\<lparr>world := f (world s)\<rparr>)"
| "run_turns opts rt queue job (Fire # ts) h s =
     (let (h1, w1) = hb_fire rt queue (rj_job_id job) (rj_lease_token job) (h, world s)
      in run_turns opts rt queue job ts h1 (s\<lparr>world := w1\<rparr>))"
| "run_turns opts rt queue job (Deliver # ts) h s =
     run_turns opts rt queue job ts (hb_deliver h) s"
| "run_turns opts rt queue job (Signal sg # ts) h s =
     and_then (on_signal opts queue sg s) (\<lambda>u. run_turns opts rt queue job ts h)"

definition ack_after_success ::
  "consume_opts \<Rightarrow> 's runtime \<Rightarrow> string \<Rightarrow> ReserveJob \<Rightarrow> 's cstate \<Rightarrow> unit res \<times> 's cstate" where
  \<comment> \<open>the inner \<open>try\<close> of the success path\<close>
  "ack_after_success opts rt queue job s =
     and_then (await_op opts queue (ack_success rt queue (rj_job_id job) (rj_lease_token job) None) s)
       (\<lambda>r s1. case r of
          Inr u \<Rightarrow> (Val (), safeLog opts (LogAckSuccess (rj_job_id job)) s1)
        | Inl e \<Rightarrow> (Val (), safeLog opts (LogAckSuccessError (rj_job_id job) (error_text e)) s1))"

definition ack_after_failure ::
  "consume_opts \<Rightarrow> 's runtime \<Rightarrow> string \<Rightarrow> ReserveJob \<Rightarrow> jsval \<Rightarrow> 's cstate \<Rightarrow> unit res \<times> 's cstate" where
  \<comment> \<open>the inner \<open>try\<close> of the failure path; \<open>e\<close> is what the handler threw\<close>
  "ack_after_failure opts rt queue job e s =
     (let errMsg = String_of (coalesce (get_name e) (JStr ''Error'')) @ '': '' @ error_text e in
      and_then (await_op opts queue
                  (ack_fail rt queue (rj_job_id job) (rj_lease_token job) (Some errMsg) None) s)
        (\<lambda>r s1. case r of
           Inr (RETRY due) \<Rightarrow>
             (Val (), safeLog opts (LogJobError (rj_job_id job) errMsg)
                        (safeLog opts (LogAckFailRetry (rj_job_id job) due) s1))
         | Inr FAILED \<Rightarrow>
             (Val (), safeLog opts (LogJobError (rj_job_id job) errMsg)
                        (safeLog opts (LogAckFailFailed (rj_job_id job)) s1))
         | Inl e2 \<Rightarrow> (Val (), safeLog opts (LogAckFailError (rj_job_id job) (error_text e2)) s1)))"

definition settle ::
  "consume_opts \<Rightarrow> 's runtime \<Rightarrow> string \<Rightarrow> ReserveJob \<Rightarrow> jsval option \<Rightarrow> HeartbeatHandle
     \<Rightarrow> 's cstate \<Rightarrow> unit res \<times> 's cstate" where
  \<comment> \<open>from the end of the handler to the end of the iteration: \<open>hb.stop()\<close>, the ack unless
      the lease was lost, the \<open>finally\<close> block, the drain exit. \<open>result\<close> is \<open>None\<close> when the
      handler returned and \<open>Some e\<close> when it threw \<open>e\<close>. \<open>hb.done\<close> is resolved by \<open>hb.stop()\<close>,
      so the race of the \<open>finally\<close> block is one suspension.\<close>
  "settle opts rt queue job result h s =
     (let h1 = hb_stop h in
      and_then
        (if lost h1 then (Val (), s)
         else case result of
                None \<Rightarrow> ack_after_success opts rt queue job s
              | Some e \<Rightarrow> ack_after_failure opts rt queue job e s)
        (\<lambda>u s1.
           and_then (sleep opts queue (Fin 100) s1)
             (\<lambda>u s2.
                if stop (ctrl s2) \<and> or_default True (drain opts) then
                  (Halt Returned, safeLog opts (LogExitDrained (rj_job_id job)) s2)
                else (Val (), s2))))"

definition heartbeat_interval ::
  "consume_opts \<Rightarrow> 's runtime \<Rightarrow> string \<Rightarrow> ReserveJob \<Rightarrow> 's cstate \<Rightarrow> jsnum res \<times> 's cstate" where
  \<comment> \<open>an error of \<open>job_timeout_ms\<close> is not caught: it ends \<open>consume\<close>\<close>
  "heartbeat_interval opts rt queue job s =
     (case heartbeat_interval_s opts of
        Some n \<Rightarrow> (Val n, s)
      | None \<Rightarrow>
          and_then (await_op opts queue (job_timeout_ms rt queue (rj_job_id job) None) s)
            (\<lambda>r s1. case r of
               Inl e \<Rightarrow> (Halt (Threw e), s1)
             | Inr timeoutMs \<Rightarrow> (Val (derive_heartbeat_interval_s timeoutMs), s1)))"

definition job_ctx :: "string \<Rightarrow> ReserveJob \<Rightarrow> JobCtx" where
  \<comment> \<open>the context handed to the handler; \<open>payload\<close> is parsed from \<open>payload_raw\<close> and \<open>exec\<close> is
      the facade with \<open>default_child_id = job_id\<close>\<close>
  "job_ctx queue job =
     \<lparr>ctx_queue = queue, ctx_job_id = rj_job_id job, ctx_payload_raw = rj_payload job,
      ctx_attempt = rj_attempt job, ctx_lock_until_ms = rj_lock_until_ms job,
      ctx_lease_token = rj_lease_token job, ctx_gid = rj_gid job,
      ctx_default_child_id = rj_job_id job\<rparr>"

definition handler_phase ::
  "consume_opts \<Rightarrow> 's runtime \<Rightarrow> string \<Rightarrow> ReserveJob \<Rightarrow> 's turn list
     \<Rightarrow> 's cstate \<Rightarrow> HeartbeatHandle res \<times> 's cstate" where
  \<comment> \<open>from the reserved job to the end of the handler\<close>
  "handler_phase opts rt queue job turns s =
     (let s0 = safeLog opts (LogReceived (rj_job_id job) (rj_attempt job)
                 (if rj_gid job \<noteq> [] then rj_gid job else ''-'') (rj_payload job)) s
      in and_then (heartbeat_interval opts rt queue job s0)
           (\<lambda>hb_s s1.
              let (h, w1) = startHeartbeater rt queue (rj_job_id job) (rj_lease_token job) hb_s (world s1)
              in run_turns opts rt queue job turns h (s1\<lparr>world := w1\<rparr>)))"

definition process_job ::
  "consume_opts \<Rightarrow> 's runtime \<Rightarrow> string \<Rightarrow> (JobCtx \<Rightarrow> 's turn list \<times> jsval option)
     \<Rightarrow> ReserveJob \<Rightarrow> 's cstate \<Rightarrow> unit res \<times> 's cstate" where
  "process_job opts rt queue handler job s =
     (let (turns, result) = handler (job_ctx queue job) in
      and_then (handler_phase opts rt queue job turns s)
        (\<lambda>h. settle opts rt queue job result h))"

subsection \<open>The loop\<close>

definition housekeeping ::
  "consume_opts \<Rightarrow> 's runtime \<Rightarrow> string \<Rightarrow> jsnum \<Rightarrow> 's cstate \<Rightarrow> unit res \<times> 's cstate" where
  \<comment> \<open>\<open>promote_delayed\<close> and \<open>reap_expired\<close> when due; their errors are ignored\<close>
  "housekeeping opts rt queue now s =
     and_then
       (if num_le (num_mul (or_default (Fin 1) (promote_interval_s opts)) (Fin 1000))
                  (num_sub now (lastPromote s)) then
          and_then (await_op opts queue
                      (promote_delayed rt queue (Some (or_default (Fin 1000) (promote_batch opts))) None) s)
            (\<lambda>r s1. (Val (), s1\<lparr>lastPromote := now\<rparr>))
        else (Val (), s))
       (\<lambda>u s2.
          if num_le (num_mul (or_default (Fin 1) (reap_interval_s opts)) (Fin 1000))
                    (num_sub now (lastReap s2)) then
            and_then (await_op opts queue
                        (reap_expired rt queue (Some (or_default (Fin 1000) (reap_batch opts))) None) s2)
              (\<lambda>r s3. (Val (), s3\<lparr>lastReap := now\<rparr>))
          else (Val (), s2))"

definition iteration ::
  "consume_opts \<Rightarrow> 's runtime \<Rightarrow> string \<Rightarrow> (JobCtx \<Rightarrow> 's turn list \<times> jsval option)
     \<Rightarrow> 's cstate \<Rightarrow> unit res \<times> 's cstate" where
  \<comment> \<open>the body of \<open>while (true)\<close>: \<open>Val ()\<close> goes on to the next iteration\<close>
  "iteration opts rt queue handler s =
     (let poll = or_default (to_double (5 / 100)) (poll_interval_s opts) in
      if stop (ctrl s) then (Halt Returned, safeLog opts (LogExitIdle queue) s)
      else
        and_then (housekeeping opts rt queue (Fin (of_int (nowMs rt (ext (world s))))) s)
          (\<lambda>u s1.
             and_then (await_op opts queue (reserve rt queue None) s1)
               (\<lambda>res s2. case res of
                  Inl e \<Rightarrow> sleep opts queue (Fin 200) (safeLog opts (LogReserveError (error_text e)) s2)
                | Inr Empty \<Rightarrow> sleep opts queue (sleep_ms poll) s2
                | Inr Paused \<Rightarrow> sleep opts queue (sleep_ms (paused_backoff_s poll)) s2
                | Inr (Job job) \<Rightarrow>
                    if rj_lease_token job = [] then
                      sleep opts queue (Fin 200) (safeLog opts (LogMissingToken (rj_job_id job)) s2)
                    else if stop (ctrl s2) \<and> \<not> or_default True (drain opts) then
                      (Halt Returned, safeLog opts (LogFastExit (rj_job_id job)) s2)
                    else process_job opts rt queue handler job s2)))"

fun consume_loop ::
  "nat \<Rightarrow> consume_opts \<Rightarrow> 's runtime \<Rightarrow> string \<Rightarrow> (JobCtx \<Rightarrow> 's turn list \<times> jsval option)
     \<Rightarrow> 's cstate \<Rightarrow> outcome option \<times> 's cstate" where
  \<comment> \<open>at most \<open>n\<close> iterations of \<open>while (true)\<close>; \<open>None\<close>: still running\<close>
  "consume_loop 0 opts rt queue handler s = (None, s)"
| "consume_loop (Suc n) opts rt queue handler s =
     (case iteration opts rt queue handler s of
        (Halt out, s1) \<Rightarrow> (Some out, s1)
      | (Val u, s1) \<Rightarrow> consume_loop n opts rt queue handler s1)"

definition consume ::
  "nat \<Rightarrow> consume_opts \<Rightarrow> 's runtime \<Rightarrow> string \<Rightarrow> (JobCtx \<Rightarrow> 's turn list \<times> jsval option)
     \<Rightarrow> signal list list \<Rightarrow> 's world \<Rightarrow> outcome option \<times> 's cstate" where
  "consume n opts rt queue handler sigs w =
     consume_loop n opts rt queue handler
       \<lparr>world = w, ctrl = \<lparr>stop = False, sigint_count = 0\<rparr>,
        lastPromote = Fin 0, lastReap = Fin 0, signals = sigs\<rparr>"

subsection \<open>What a step adds to the trace\<close>

fun is_call :: "event \<Rightarrow> bool" where
  "is_call (Call c) = True"
| "is_call e = False"

fun is_log :: "event \<Rightarrow> bool" where
  "is_log (Log l) = True"
| "is_log e = False"

definition only_adds :: "(event \<Rightarrow> bool) \<Rightarrow> 's cstate \<Rightarrow> 's cstate \<Rightarrow> bool" where
  \<comment> \<open>from \<open>s\<close> to \<open>s'\<close> the trace only grew, by events that satisfy \<open>P\<close>\<close>
  "only_adds P s s' = (\<exists>evs. trace (world s') = trace (world s) @ evs \<and> list_all P evs)"

section \<open>Example worlds\<close>

text \<open>
  Concrete runtimes on which the theorems below are instantiated. The state of the world
  is the number of store calls answered so far.
\<close>

definition the_script :: script where
  "the_script = \<lparr>sha = ''5f2a'', src = ''return 1''\<rparr>"

definition the_scripts :: scripts where
  "the_scripts =
     \<lparr>enqueue_script = the_script, reserve_script = the_script, heartbeat_script = the_script,
      ack_success_script = the_script, ack_fail_script = the_script,
      promote_delayed_script = the_script, reap_expired_script = the_script,
      pause_script = the_script, resume_script = the_script, retry_failed_script = the_script,
      retry_failed_batch_script = the_script, remove_job_script = the_script,
      remove_jobs_batch_script = the_script, childs_init_script = the_script,
      child_ack_script = the_script\<rparr>"

definition runtime_of :: "(call \<Rightarrow> jsval + jsval) \<Rightarrow> nat runtime" where
  \<comment> \<open>a store that answers by the call alone, at a fixed clock\<close>
  "runtime_of answer =
     \<lparr>respond = (\<lambda>c s. (answer c, Suc s)),
      nowMs = (\<lambda>s. 1700000000000),
      newUlid = (\<lambda>s. (''01ARZ3NDEKTSV4RRFFQ69G5FAV'', s)),
      scripts = the_scripts\<rparr>"

definition w0 :: "nat world" where
  "w0 = \<lparr>ext = 0, trace = []\<rparr>"

definition flushed :: "call \<Rightarrow> jsval + jsval" where
  \<comment> \<open>a store whose script cache was flushed: EVALSHA fails with NOSCRIPT, EVAL works\<close>
  "flushed c =
     (case c of
        EVALSHA h n ka \<Rightarrow> Inl (JError ''ReplyError'' ''NOSCRIPT No matching script. Please use EVAL.'')
      | _ \<Rightarrow> Inr (JArr [JStr ''OK'', JStr ''7'']))"

definition ok_with :: "jsval \<Rightarrow> call \<Rightarrow> jsval + jsval" where
  \<comment> \<open>a store that answers every call with \<open>["OK", v]\<close>\<close>
  "ok_with v c = Inr (JArr [JStr ''OK'', v])"

definition failing_with :: "string \<Rightarrow> call \<Rightarrow> jsval + jsval" where
  \<comment> \<open>a store that answers every call with \<open>["ERR", reason]\<close>\<close>
  "failing_with reason c = Inr (JArr [JStr ''ERR'', JStr reason])"

definition down :: "call \<Rightarrow> jsval + jsval" where
  \<comment> \<open>a store that cannot be reached\<close>
  "down c = Inl (JError ''Error'' ''connect ECONNREFUSED'')"

definition plain_args :: "string \<Rightarrow> jsval \<Rightarrow> publish_args" where
  \<comment> \<open>a publish call that omits every optional field\<close>
  "plain_args q p =
     \<lparr>arg_queue = q, arg_payload = p, arg_job_id = None, arg_max_attempts = None,
      arg_timeout_ms = None, arg_backoff_ms = None, arg_due_ms = None,
      arg_now_ms_override = None, arg_gid = None, arg_group_limit = None\<rparr>"

definition quiet_opts :: consume_opts where
  "quiet_opts =
     \<lparr>poll_interval_s = None, promote_interval_s = None, promote_batch = None,
      reap_interval_s = None, reap_batch = None, heartbeat_interval_s = Some (Fin 1),
      verbose = None, drain = None, stop_on_ctrl_c = None\<rparr>"

definition job1 :: ReserveJob where
  "job1 = \<lparr>rj_job_id = ''j1'', rj_payload = ''{}'', rj_lock_until_ms = 0, rj_attempt = 1,
           rj_gid = '''', rj_lease_token = ''tok''\<rparr>"

definition start_state :: "nat cstate" where
  "start_state = \<lparr>world = w0, ctrl = \<lparr>stop = False, sigint_count = 0\<rparr>,
                  lastPromote = Fin 0, lastReap = Fin 0, signals = []\<rparr>"

definition loud_opts :: consume_opts where
  "loud_opts = quiet_opts\<lparr>verbose := Some True\<rparr>"

definition derived_opts :: consume_opts where
  \<comment> \<open>no \<open>heartbeat_interval_s\<close>: the interval is derived from the timeout of the job\<close>
  "derived_opts = quiet_opts\<lparr>heartbeat_interval_s := None\<rparr>"

definition armed :: HeartbeatHandle where
  \<comment> \<open>a heartbeater whose first call has settled and whose timer is armed\<close>
  "armed = \<lparr>stopped = False, lost = False, timer = Some (Fin 1000), done_resolved = False,
            interval_s = Fin 1, inflight = []\<rparr>"

definition scripted :: "(jsval + jsval) list \<Rightarrow> (jsval + jsval) \<Rightarrow> nat runtime" where
  \<comment> \<open>a store that gives the listed answers to its calls, in order, and \<open>later\<close> to every
      call after them; its state counts the calls\<close>
  "scripted answers later =
     \<lparr>respond = (\<lambda>c s. (if s < length answers then answers ! s else later, Suc s)),
      nowMs = (\<lambda>s. 1700000000000),
      newUlid = (\<lambda>s. (''01ARZ3NDEKTSV4RRFFQ69G5FAV'', s)),
      scripts = the_scripts\<rparr>"

definition job_reply :: jsval where
  \<comment> \<open>the reply of the reserve script that \<open>reserve\<close> parses as \<open>job1\<close>\<close>
  "job_reply = JArr [JStr ''JOB'', JStr ''j1'', JStr ''{}'', JNum (Fin 0), JNum (Fin 1), JStr '''', JStr ''tok'']"

definition refused :: "jsval + jsval" where
  "refused = Inl (JError ''Error'' ''connect ECONNREFUSED'')"

definition one_job_then :: "(jsval + jsval) \<Rightarrow> nat runtime" where
  \<comment> \<open>promote and reap find nothing, reserve hands out \<open>job1\<close>, the first heartbeat
      succeeds; every later call is answered with \<open>later\<close>\<close>
  "one_job_then later =
     scripted [Inr (JArr [JStr ''OK'', JNum (Fin 0)]), Inr (JArr [JStr ''OK'', JNum (Fin 0)]),
               Inr job_reply, Inr (JArr [JStr ''OK'', JNum (Fin 1700000030000)])] later"

definition job_then_down :: "nat runtime" where
  \<comment> \<open>as \<open>one_job_then\<close> without the heartbeat: the store is down once the job is reserved\<close>
  "job_then_down =
     scripted [Inr (JArr [JStr ''OK'', JNum (Fin 0)]), Inr (JArr [JStr ''OK'', JNum (Fin 0)]),
               Inr job_reply] refused"

definition bad_state :: "jsval + jsval" where
  \<comment> \<open>the reply of a script that refuses the operation\<close>
  "bad_state = Inr (JArr [JStr ''ERR'', JStr ''BAD_STATE''])"

definition returns_after_heartbeat :: "JobCtx \<Rightarrow> nat turn list \<times> jsval option" where
  \<comment> \<open>a handler that returns once the result of the first heartbeat has arrived\<close>
  "returns_after_heartbeat ctx = ([Deliver], None)"

definition throws_after_heartbeat :: "JobCtx \<Rightarrow> nat turn list \<times> jsval option" where
  \<comment> \<open>a handler that throws \<open>new Error("boom")\<close> once the result of the first heartbeat has arrived\<close>
  "throws_after_heartbeat ctx = ([Deliver], Some (JError ''Error'' ''boom''))"

definition returns_at_once :: "JobCtx \<Rightarrow> nat turn list \<times> jsval option" where
  "returns_at_once ctx = ([], None)"

definition after_housekeeping :: "nat cstate" where
  \<comment> \<open>\<open>start_state\<close> after the promote and reap calls of the first iteration\<close>
  "after_housekeeping =
     \<lparr>world = \<lparr>ext = 2, trace =
         [Call (EVALSHA ''5f2a'' 1 [''{demo}:meta'', ''1700000000000'', ''1000'']),
          Call (EVALSHA ''5f2a'' 1 [''{demo}:meta'', ''1700000000000'', ''1000''])]\<rparr>,
      ctrl = \<lparr>stop = False, sigint_count = 0\<rparr>,
      lastPromote = Fin 1700000000000, lastReap = Fin 1700000000000, signals = []\<rparr>"

definition after_reserve :: "nat cstate" where
  "after_reserve =
     after_housekeeping\<lparr>world := \<lparr>ext = 3, trace = trace (world after_housekeeping) @
         [Call (EVALSHA ''5f2a'' 1 [''{demo}:meta'', ''1700000000000''])]\<rparr>\<rparr>"

definition after_handler :: "nat cstate" where
  \<comment> \<open>with \<open>verbose\<close>: the job is logged, the first heartbeat is called\<close>
  "after_handler =
     after_reserve\<lparr>world := \<lparr>ext = 4, trace = trace (world after_reserve) @
         [Log (LogReceived ''j1'' 1 ''-'' ''{}''),
          Call (EVALSHA ''5f2a'' 1 [''{demo}:meta'', ''j1'', ''1700000000000'', ''tok''])]\<rparr>\<rparr>"

section \<open>Properties\<close>

lemma str_includes_single: "str_includes s [c] \<longleftrightarrow> c \<in> set s"
  by (induction s) (auto simp: str_includes_def sublist_Cons_right)

lemma str_includes_iff: "str_includes s t \<longleftrightarrow> (\<exists>p r. s = p @ t @ r)"
  by (simp add: str_includes_def sublist_def)

lemma dropWhile_id: "s = [] \<or> \<not> P (hd s) \<Longrightarrow> dropWhile P s = s"
  by (cases s) auto

lemma trim_eq_self: "s = [] \<or> (\<not> is_ws (hd s) \<and> \<not> is_ws (last s)) \<Longrightarrow> trim s = s"
  unfolding trim_def
  by (auto simp: dropWhile_id hd_rev)

lemma show_128: "show_nat 128 = ''128''"
  by (simp add: show_nat_def show_digits.simps digit_char_def)

lemma Number_toString_seventeen_digits:
  \<comment> \<open>doubles whose shortest form has 17 digits: the nearest one, the even one at a tie\<close>
  "Number_toString (Fin 144115188075855968) = ''144115188075855970''"
  "Number_toString (Fin (43 / 4194304)) = ''0.000010251998901367188''"
  by code_simp+

lemma childsAnchor_cases:
  "childsAnchor key =
     (if trim key = [] then Inl (Error ''childs_anchor key is required'')
      else if CHR ''{'' \<in> set (trim key) \<or> CHR ''}'' \<in> set (trim key) then
        Inl (Error (''childs_anchor key must not contain '{' or '}'' @ [CHR 0x27]))
      else if length (trim key) > 128 then Inl (Error ''childs_anchor key too long (max 128 chars)'')
      else Inr (''{cc:'' @ trim key @ ''}:meta''))"
  by (simp add: childsAnchor_def childsAnchor_max_def str_includes_single Let_def show_128 Error_def)

lemma evalsha_cases:
  assumes "evalshaWithNoScriptFallback rt sh sr n ka w = (r, w')"
      and "respond rt (EVALSHA sh n ka) (ext w) = (first, s1)"
  shows "case first of
           Inr res \<Rightarrow> r = Inr res \<and> ext w' = s1 \<and> trace w' = trace w @ [Call (EVALSHA sh n ka)]
         | Inl err \<Rightarrow>
             if isNoScriptError err then
               r = fst (respond rt (EVAL sr n ka) s1) \<and> ext w' = snd (respond rt (EVAL sr n ka) s1)
               \<and> trace w' = trace w @ [Call (EVALSHA sh n ka), Lock, Call (EVAL sr n ka), Unlock]
             else r = Inl err \<and> ext w' = s1 \<and> trace w' = trace w @ [Call (EVALSHA sh n ka)]"
  using assms
  by (auto simp: evalshaWithNoScriptFallback_def perform_def emit_def Let_def
           split: sum.splits prod.splits if_splits)

lemma isNoScriptError_Error:
  "isNoScriptError (JError name msg) = str_includes (toUpperCase msg) ''NOSCRIPT''"
  by (simp add: isNoScriptError_def coalesce_def nullish_def)

lemma run_script_trace:
  assumes "run_script rt which ka w = (r, w')"
  shows "\<exists>rest. trace w' = trace w @ Call (EVALSHA (sha (which (scripts rt))) 1 ka) # rest
           \<and> set rest \<subseteq> {Lock, Unlock, Call (EVAL (src (which (scripts rt))) 1 ka)}"
  using assms
  by (auto simp: run_script_def evalshaWithNoScriptFallback_def perform_def emit_def Let_def
           split: sum.splits prod.splits if_splits)

subsection \<open>C3: the NOSCRIPT fallback\<close>

text \<open>
  Claim C3. The invoke helper first attempts EVALSHA. When EVALSHA replies, the reply is
  the result and nothing else is called. When EVALSHA throws an error that
  \<open>isNoScriptError\<close> accepts, the helper takes the script mutex, runs EVAL with the stored
  source exactly once, releases the mutex and returns (or throws) what EVAL returned (or
  threw). Any other error is thrown on unchanged, with no EVAL. For an error object,
  \<open>isNoScriptError\<close> holds exactly when the upper-cased message contains NOSCRIPT.
\<close>

theorem evalsha_noscript_fallback:
  assumes "evalshaWithNoScriptFallback rt sh sr n ka w = (r, w')"
      and "respond rt (EVALSHA sh n ka) (ext w) = (first, s1)"
  shows "(\<forall>res. first = Inr res \<longrightarrow>
            r = Inr res \<and> trace w' = trace w @ [Call (EVALSHA sh n ka)])
       \<and> (\<forall>err. first = Inl err \<and> isNoScriptError err \<longrightarrow>
            r = fst (respond rt (EVAL sr n ka) s1)
            \<and> trace w' = trace w @ [Call (EVALSHA sh n ka), Lock, Call (EVAL sr n ka), Unlock])
       \<and> (\<forall>err. first = Inl err \<and> \<not> isNoScriptError err \<longrightarrow>
            r = Inl err \<and> trace w' = trace w @ [Call (EVALSHA sh n ka)])
       \<and> (\<forall>name msg. isNoScriptError (JError name msg)
            = (\<exists>p q. toUpperCase msg = p @ ''NOSCRIPT'' @ q))"
proof -
  have "\<forall>name msg. isNoScriptError (JError name msg)
          = (\<exists>p q. toUpperCase msg = p @ ''NOSCRIPT'' @ q)"
    by (simp only: isNoScriptError_Error str_includes_iff) simp
  moreover have "\<forall>res. first = Inr res \<longrightarrow>
            r = Inr res \<and> trace w' = trace w @ [Call (EVALSHA sh n ka)]"
    using evalsha_cases [OF assms] by auto
  moreover have "\<forall>err. first = Inl err \<and> isNoScriptError err \<longrightarrow>
            r = fst (respond rt (EVAL sr n ka) s1)
            \<and> trace w' = trace w @ [Call (EVALSHA sh n ka), Lock, Call (EVAL sr n ka), Unlock]"
    using evalsha_cases [OF assms] by auto
  moreover have "\<forall>err. first = Inl err \<and> \<not> isNoScriptError err \<longrightarrow>
            r = Inl err \<and> trace w' = trace w @ [Call (EVALSHA sh n ka)]"
    using evalsha_cases [OF assms] by auto
  ultimately show ?thesis by blast
qed

lemma flushed_is_noscript:
  "isNoScriptError (JError ''ReplyError'' ''NOSCRIPT No matching script. Please use EVAL.'')"
  by code_simp

lemma lowercase_is_noscript: "isNoScriptError (JError ''ReplyError'' ''ERR noscript'')"
  by code_simp

lemma refused_is_not_noscript: "\<not> isNoScriptError (JError ''Error'' ''connect ECONNREFUSED'')"
  by code_simp

lemma flushed_run:
  "evalshaWithNoScriptFallback (runtime_of flushed) ''5f2a'' ''return 1'' 1 [''{q}:meta''] w0
     = (Inr (JArr [JStr ''OK'', JStr ''7'']),
        \<lparr>ext = 2, trace = [Call (EVALSHA ''5f2a'' 1 [''{q}:meta'']), Lock,
                            Call (EVAL ''return 1'' 1 [''{q}:meta'']), Unlock]\<rparr>)"
  by (simp add: evalshaWithNoScriptFallback_def perform_def emit_def runtime_of_def flushed_def
        w0_def flushed_is_noscript numeral_2_eq_2)

theorem evalsha_noscript_fallback_witness:
  "evalshaWithNoScriptFallback (runtime_of flushed) ''5f2a'' ''return 1'' 1 [''{q}:meta''] w0
     = (Inr (JArr [JStr ''OK'', JStr ''7'']),
        \<lparr>ext = 2, trace = [Call (EVALSHA ''5f2a'' 1 [''{q}:meta'']), Lock,
                            Call (EVAL ''return 1'' 1 [''{q}:meta'']), Unlock]\<rparr>)
   \<and> respond (runtime_of flushed) (EVALSHA ''5f2a'' 1 [''{q}:meta'']) (ext w0)
       = (Inl (JError ''ReplyError'' ''NOSCRIPT No matching script. Please use EVAL.''), 1)
   \<and> isNoScriptError (JError ''ReplyError'' ''NOSCRIPT No matching script. Please use EVAL.'')
   \<and> fst (respond (runtime_of flushed) (EVAL ''return 1'' 1 [''{q}:meta'']) 1)
       = Inr (JArr [JStr ''OK'', JStr ''7''])
   \<and> isNoScriptError (JError ''ReplyError'' ''ERR noscript'')
   \<and> (\<exists>p q. toUpperCase ''ERR noscript'' = p @ ''NOSCRIPT'' @ q)"
proof -
  have h2: "respond (runtime_of flushed) (EVALSHA ''5f2a'' 1 [''{q}:meta'']) (ext w0)
       = (Inl (JError ''ReplyError'' ''NOSCRIPT No matching script. Please use EVAL.''), 1)"
    by (simp add: runtime_of_def flushed_def w0_def)
  note t = evalsha_noscript_fallback [OF flushed_run h2]
  from t have "isNoScriptError (JError ''ReplyError'' ''ERR noscript'')
                 = (\<exists>p q. toUpperCase ''ERR noscript'' = p @ ''NOSCRIPT'' @ q)"
    by blast
  with lowercase_is_noscript have "\<exists>p q. toUpperCase ''ERR noscript'' = p @ ''NOSCRIPT'' @ q"
    by simp
  moreover have "fst (respond (runtime_of flushed) (EVAL ''return 1'' 1 [''{q}:meta'']) 1)
       = Inr (JArr [JStr ''OK'', JStr ''7''])"
    by (simp add: runtime_of_def flushed_def)
  ultimately show ?thesis
    using flushed_run h2 flushed_is_noscript lowercase_is_noscript by blast
qed

subsection \<open>C4: publish validates the payload before any store call\<close>

text \<open>
  Claim C4. For every queue name and every payload that is \<open>null\<close>, a string, a number or
  a boolean, \<open>publish\<close> throws its \<open>TypeError\<close> and leaves the world as it was: no store
  call is issued. For every payload that is an object or an array the validation passes:
  the enqueue script is called, with the queue anchor as its one declared key.
\<close>

lemma publish_argv_trace: "publish_argv rt args w = (argv, w1) \<Longrightarrow> trace w1 = trace w"
  by (auto simp: publish_argv_def Let_def fresh_ulid_def split: option.splits if_splits prod.splits)

lemma publish_accepts:
  assumes "(\<exists>xs. arg_payload args = JArr xs) \<or> (\<exists>kvs. arg_payload args = JObj kvs)"
  shows "\<exists>rest. trace (snd (publish rt args w)) =
            trace w @ Call (EVALSHA (sha (enqueue_script (scripts rt))) 1
                              (queueAnchor (arg_queue args) # fst (publish_argv rt args w))) # rest"
proof -
  obtain argv w1 where a: "publish_argv rt args w = (argv, w1)" by (cases "publish_argv rt args w")
  obtain r w2 where b: "run_script rt enqueue_script (queueAnchor (arg_queue args) # argv) w1 = (r, w2)"
    by (cases "run_script rt enqueue_script (queueAnchor (arg_queue args) # argv) w1")
  from run_script_trace [OF b] obtain rest where
    c: "trace w2 = trace w1 @ Call (EVALSHA (sha (enqueue_script (scripts rt))) 1 (queueAnchor (arg_queue args) # argv)) # rest"
    by blast
  have "snd (publish rt args w) = w2"
    using assms a b by (auto simp: publish_def Let_def split: sum.splits option.splits)
  with c a publish_argv_trace [OF a] show ?thesis by auto
qed

theorem publish_payload_validation:
  "(arg_payload args = JNull \<or> (\<exists>s. arg_payload args = JStr s)
      \<or> (\<exists>n. arg_payload args = JNum n) \<or> (\<exists>b. arg_payload args = JBool b)
    \<longrightarrow> publish rt args w = (Inl publish_type_error, w))
   \<and> ((\<exists>xs. arg_payload args = JArr xs) \<or> (\<exists>kvs. arg_payload args = JObj kvs)
    \<longrightarrow> (\<exists>rest. trace (snd (publish rt args w)) =
            trace w @ Call (EVALSHA (sha (enqueue_script (scripts rt))) 1
                              (queueAnchor (arg_queue args) # fst (publish_argv rt args w))) # rest))
   \<and> (\<exists>msg. publish_type_error = JError ''TypeError'' msg)"
proof -
  have "arg_payload args = JNull \<or> (\<exists>s. arg_payload args = JStr s)
      \<or> (\<exists>n. arg_payload args = JNum n) \<or> (\<exists>b. arg_payload args = JBool b)
    \<longrightarrow> publish rt args w = (Inl publish_type_error, w)"
    by (auto simp: publish_def)
  moreover have "\<exists>msg. publish_type_error = JError ''TypeError'' msg"
    by (simp add: publish_type_error_def)
  ultimately show ?thesis using publish_accepts [of args rt w] by blast
qed

theorem publish_payload_validation_witness:
  "publish (runtime_of (ok_with (JStr ''j1''))) (plain_args ''demo'' (JStr ''hello'')) w0
     = (Inl publish_type_error, w0)
   \<and> publish (runtime_of down) (plain_args ''demo'' JNull) w0 = (Inl publish_type_error, w0)
   \<and> (\<exists>rest. trace (snd (publish (runtime_of (ok_with (JStr ''j1'')))
                           (plain_args ''demo'' (JObj [(''hello'', JStr ''world'')])) w0)) =
         trace w0 @ Call (EVALSHA ''5f2a'' 1
            (''{demo}:meta'' # fst (publish_argv (runtime_of (ok_with (JStr ''j1'')))
                           (plain_args ''demo'' (JObj [(''hello'', JStr ''world'')])) w0))) # rest)"
proof -
  have a: "arg_payload (plain_args ''demo'' (JStr ''hello'')) = JStr ''hello''"
    and b: "arg_payload (plain_args ''demo'' JNull) = JNull"
    and c: "arg_payload (plain_args ''demo'' (JObj [(''hello'', JStr ''world'')])) = JObj [(''hello'', JStr ''world'')]"
    and q: "arg_queue (plain_args ''demo'' (JObj [(''hello'', JStr ''world'')])) = ''demo''"
    by (simp_all add: plain_args_def)
  have s: "sha (enqueue_script (scripts (runtime_of (ok_with (JStr ''j1''))))) = ''5f2a''"
    by (simp add: runtime_of_def the_scripts_def the_script_def)
  have k: "queueAnchor ''demo'' = ''{demo}:meta''"
    by (simp add: queueAnchor_def queueBase_def str_includes_single)
  show ?thesis
    using publish_payload_validation [of "plain_args ''demo'' (JStr ''hello'')" "runtime_of (ok_with (JStr ''j1''))" w0]
      publish_payload_validation [of "plain_args ''demo'' JNull" "runtime_of down" w0]
      publish_payload_validation [of "plain_args ''demo'' (JObj [(''hello'', JStr ''world'')])"
         "runtime_of (ok_with (JStr ''j1''))" w0]
    unfolding a b c q s k by blast
qed

subsection \<open>C1: the lease expiry returned by heartbeat\<close>

lemma run_script_reply:
  assumes "respond rt (EVALSHA (sha (which (scripts rt))) 1 ka) (ext w) = (Inr res, s1)"
  shows "run_script rt which ka w
           = (Inr res, \<lparr>ext = s1, trace = trace w @ [Call (EVALSHA (sha (which (scripts rt))) 1 ka)]\<rparr>)"
  using assms by (simp add: run_script_def evalshaWithNoScriptFallback_def perform_def)

lemma expiry_wraps: "ToInt32 (StringToNumber ''1700000000000'') = - 807049216"
  by code_simp

lemma expiry_exact: "ToInt32 (StringToNumber ''2147483647'') = 2147483647"
  by code_simp

text \<open>
  Claim C1 says that on the reply \<open>["OK", v]\<close> heartbeat returns the integer \<open>v\<close>. The code
  returns \<open>Number(v) | 0\<close>, the value wrapped to a signed 32-bit integer: on the reply
  \<open>["OK", "1700000000000"]\<close>, a lease expiry in milliseconds since the epoch, heartbeat returns
  \<open>-807049216\<close>.
\<close>

theorem heartbeat_expiry_wraps:
  assumes "respond rt (EVALSHA (sha (heartbeat_script (scripts rt))) 1
                         [queueAnchor q, j, str_trunc (now_or_override rt ov w), t]) (ext w)
             = (Inr (JArr [JStr ''OK'', JStr ''1700000000000'']), s1)"
  shows "fst (heartbeat rt q j t ov w) = Inr (- 807049216)"
  using run_script_reply [of rt heartbeat_script _ w, OF assms]
  by (simp add: heartbeat_def heartbeat_parse_def arr_items_def expiry_wraps)

lemma now_demo: "str_trunc (Fin 1700000000000) = ''1700000000000''"
  by code_simp

theorem heartbeat_expiry_wraps_witness:
  "respond (runtime_of (ok_with (JStr ''1700000000000'')))
      (EVALSHA ''5f2a'' 1 [''{demo}:meta'', ''j1'', ''1700000000000'', ''tok'']) (ext w0)
     = (Inr (JArr [JStr ''OK'', JStr ''1700000000000'']), 1)
   \<and> fst (heartbeat (runtime_of (ok_with (JStr ''1700000000000''))) ''demo'' ''j1'' ''tok'' None w0)
     = Inr (- 807049216)"
proof -
  have s: "sha (heartbeat_script (scripts (runtime_of (ok_with (JStr ''1700000000000''))))) = ''5f2a''"
    by (simp add: runtime_of_def the_scripts_def the_script_def)
  have k: "queueAnchor ''demo'' = ''{demo}:meta''"
    by (simp add: queueAnchor_def queueBase_def str_includes_single)
  have n: "str_trunc (now_or_override (runtime_of (ok_with (JStr ''1700000000000''))) None w0)
             = ''1700000000000''"
    by (simp add: now_or_override_def runtime_of_def w0_def now_demo)
  have h: "respond (runtime_of (ok_with (JStr ''1700000000000'')))
      (EVALSHA ''5f2a'' 1 [''{demo}:meta'', ''j1'', ''1700000000000'', ''tok'']) (ext w0)
     = (Inr (JArr [JStr ''OK'', JStr ''1700000000000'']), 1)"
    by (simp add: runtime_of_def ok_with_def w0_def)
  show ?thesis
    using h heartbeat_expiry_wraps [of "runtime_of (ok_with (JStr ''1700000000000''))" "''demo''" "''j1''" None w0 "''tok''" 1]
    unfolding s k n by simp
qed

subsection \<open>C5: the defaults of publish\<close>

lemma str_trunc_defaults:
  "str_trunc (Fin 3) = ''3''" "str_trunc (Fin 30000) = ''30000''" "str_trunc (Fin 60000) = ''60000''"
  "str_trunc (Fin 5000) = ''5000''" "str_trunc (Fin 0) = ''0''"
  by code_simp+

lemma publish_argv_plain:
  "fst (publish_argv rt (plain_args q p) w)
     = [fst (newUlid rt (ext w)), template (JSON_stringify p), ''3'', ''30000'', ''5000'',
        str_trunc (Fin (of_int (nowMs rt (ext w)))), ''0'', '''', ''0'']"
  by (simp add: publish_argv_def plain_args_def or_default_def now_or_override_def fresh_ulid_def
        str_trunc_defaults trim_def split_beta)

lemma publish_argv_via_exec:
  "fst (publish_argv rt
     \<lparr>arg_queue = q, arg_payload = p, arg_job_id = None,
      arg_max_attempts = Some (Fin 3), arg_timeout_ms = Some (Fin 60000),
      arg_backoff_ms = Some (Fin 5000), arg_due_ms = Some (Fin 0), arg_now_ms_override = None,
      arg_gid = None, arg_group_limit = Some (Fin 0)\<rparr> w)
     = [fst (newUlid rt (ext w)), template (JSON_stringify p), ''3'', ''60000'', ''5000'',
        str_trunc (Fin (of_int (nowMs rt (ext w)))), ''0'', '''', ''0'']"
  by (simp add: publish_argv_def or_default_def now_or_override_def fresh_ulid_def
        str_trunc_defaults trim_def split_beta)

text \<open>
  Claim C5 says that a publish call that omits the optional fields marshals
  \<open>max_attempts = 3\<close>, \<open>timeout_ms = 30000\<close>, \<open>backoff_ms = 5000\<close>, \<open>due_ms = 0\<close>, \<open>gid = ""\<close> and
  \<open>group_limit = 0\<close>, on the operations layer and through the \<open>Exec\<close> facade alike. On the
  operations layer it does. Through the facade the enqueue script receives
  \<open>timeout_ms = 60000\<close>; the other five defaults are the same.
\<close>

theorem publish_defaults_differ_via_exec:
  assumes "(\<exists>xs. p = JArr xs) \<or> (\<exists>kvs. p = JObj kvs)"
  shows "(\<exists>rest. trace (snd (publish rt (plain_args q p) w)) =
            trace w @ Call (EVALSHA (sha (enqueue_script (scripts rt))) 1
              [queueAnchor q, fst (newUlid rt (ext w)), template (JSON_stringify p),
               ''3'', ''30000'', ''5000'', str_trunc (Fin (of_int (nowMs rt (ext w)))),
               ''0'', '''', ''0'']) # rest)
       \<and> (\<exists>rest. trace (snd (Exec_publish rt (plain_args q p) w)) =
            trace w @ Call (EVALSHA (sha (enqueue_script (scripts rt))) 1
              [queueAnchor q, fst (newUlid rt (ext w)), template (JSON_stringify p),
               ''3'', ''60000'', ''5000'', str_trunc (Fin (of_int (nowMs rt (ext w)))),
               ''0'', '''', ''0'']) # rest)"
proof -
  let ?a = "\<lparr>arg_queue = q, arg_payload = p, arg_job_id = None,
      arg_max_attempts = Some (Fin 3), arg_timeout_ms = Some (Fin 60000),
      arg_backoff_ms = Some (Fin 5000), arg_due_ms = Some (Fin 0), arg_now_ms_override = None,
      arg_gid = None, arg_group_limit = Some (Fin 0)\<rparr>"
  have e: "Exec_publish rt (plain_args q p) w = publish rt ?a w"
    by (simp add: Exec_publish_def plain_args_def or_default_def)
  have "(\<exists>xs. arg_payload (plain_args q p) = JArr xs) \<or> (\<exists>kvs. arg_payload (plain_args q p) = JObj kvs)"
    using assms by (simp add: plain_args_def)
  from publish_accepts [OF this, of rt w] have 1: "\<exists>rest. trace (snd (publish rt (plain_args q p) w)) =
            trace w @ Call (EVALSHA (sha (enqueue_script (scripts rt))) 1
              [queueAnchor q, fst (newUlid rt (ext w)), template (JSON_stringify p),
               ''3'', ''30000'', ''5000'', str_trunc (Fin (of_int (nowMs rt (ext w)))),
               ''0'', '''', ''0'']) # rest"
    by (simp add: publish_argv_plain) (simp add: plain_args_def)
  have "(\<exists>xs. arg_payload ?a = JArr xs) \<or> (\<exists>kvs. arg_payload ?a = JObj kvs)"
    using assms by simp
  from publish_accepts [OF this, of rt w] have 2: "\<exists>rest. trace (snd (Exec_publish rt (plain_args q p) w)) =
            trace w @ Call (EVALSHA (sha (enqueue_script (scripts rt))) 1
              [queueAnchor q, fst (newUlid rt (ext w)), template (JSON_stringify p),
               ''3'', ''60000'', ''5000'', str_trunc (Fin (of_int (nowMs rt (ext w)))),
               ''0'', '''', ''0'']) # rest"
    unfolding e by (simp add: publish_argv_via_exec)
  from 1 2 show ?thesis by blast
qed

lemma page_json: "template (JSON_stringify (JObj [(''page'', JNum (Fin 1))])) = ''{'' @ [CHR 0x22] @ ''page'' @ [CHR 0x22] @ '':1}''"
  by code_simp

theorem publish_defaults_differ_via_exec_witness:
  "(\<exists>rest. trace (snd (Exec_publish (runtime_of (ok_with (JStr ''j1'')))
                        (plain_args ''pages'' (JObj [(''page'', JNum (Fin 1))])) w0)) =
       Call (EVALSHA ''5f2a'' 1
              [''{pages}:meta'', ''01ARZ3NDEKTSV4RRFFQ69G5FAV'',
               ''{'' @ [CHR 0x22] @ ''page'' @ [CHR 0x22] @ '':1}'',
               ''3'', ''60000'', ''5000'', ''1700000000000'', ''0'', '''', ''0'']) # rest)
   \<and> (\<exists>rest. trace (snd (publish (runtime_of (ok_with (JStr ''j1'')))
                        (plain_args ''pages'' (JObj [(''page'', JNum (Fin 1))])) w0)) =
       Call (EVALSHA ''5f2a'' 1
              [''{pages}:meta'', ''01ARZ3NDEKTSV4RRFFQ69G5FAV'',
               ''{'' @ [CHR 0x22] @ ''page'' @ [CHR 0x22] @ '':1}'',
               ''3'', ''30000'', ''5000'', ''1700000000000'', ''0'', '''', ''0'']) # rest)"
proof -
  have s: "sha (enqueue_script (scripts (runtime_of (ok_with (JStr ''j1''))))) = ''5f2a''"
    by (simp add: runtime_of_def the_scripts_def the_script_def)
  have k: "queueAnchor ''pages'' = ''{pages}:meta''"
    by (simp add: queueAnchor_def queueBase_def str_includes_single)
  have u: "fst (newUlid (runtime_of (ok_with (JStr ''j1''))) (ext w0)) = ''01ARZ3NDEKTSV4RRFFQ69G5FAV''"
    by (simp add: runtime_of_def)
  have n: "str_trunc (Fin (of_int (nowMs (runtime_of (ok_with (JStr ''j1''))) (ext w0)))) = ''1700000000000''"
    by (simp add: runtime_of_def now_demo)
  have t: "trace w0 = []" by (simp add: w0_def)
  have "(\<exists>xs. JObj [(''page'', JNum (Fin 1))] = JArr xs) \<or> (\<exists>kvs. JObj [(''page'', JNum (Fin 1))] = JObj kvs)"
    by simp
  from publish_defaults_differ_via_exec [OF this, of "runtime_of (ok_with (JStr ''j1''))" "''pages''" w0]
  show ?thesis
    unfolding s k u n t page_json by simp
qed

subsection \<open>C6: every key carries the hash tag\<close>

lemma uses_only_refl: "uses_only K w w"
  by (simp add: uses_only_def)

lemma run_script_uses:
  "uses_only {a} w (snd (run_script rt which (a # args) w))"
proof -
  obtain r w' where b: "run_script rt which (a # args) w = (r, w')"
    by (cases "run_script rt which (a # args) w")
  from run_script_trace [OF b] obtain rest where
    "trace w' = trace w @ Call (EVALSHA (sha (which (scripts rt))) 1 (a # args)) # rest"
    "set rest \<subseteq> {Lock, Unlock, Call (EVAL (src (which (scripts rt))) 1 (a # args))}"
    by blast
  then have "trace w' = trace w @ (Call (EVALSHA (sha (which (scripts rt))) 1 (a # args)) # rest)
     \<and> set (concat (map keys_of (Call (EVALSHA (sha (which (scripts rt))) 1 (a # args)) # rest))) \<subseteq> {a}"
    by auto
  then show ?thesis unfolding uses_only_def b by (metis snd_conv)
qed

lemma snd_case_sum:
  "snd (case p of (Inl e, w1) \<Rightarrow> (f e, w1) | (Inr r, w1) \<Rightarrow> (g r, w1)) = snd p"
  by (auto split: prod.splits sum.splits)

lemma publish_uses: "uses_only {queueAnchor (arg_queue args)} w (snd (publish rt args w))"
proof (cases "(\<exists>xs. arg_payload args = JArr xs) \<or> (\<exists>kvs. arg_payload args = JObj kvs) \<or> (\<exists>n m. arg_payload args = JError n m)")
  case True
  obtain argv w1 where a: "publish_argv rt args w = (argv, w1)" by (cases "publish_argv rt args w")
  have s: "snd (publish rt args w) = snd (run_script rt enqueue_script (queueAnchor (arg_queue args) # argv) w1)"
    using True a by (auto simp: publish_def Let_def split: sum.splits option.splits prod.splits)
  have "uses_only {queueAnchor (arg_queue args)} w1 (snd (publish rt args w))"
    unfolding s by (rule run_script_uses)
  then show ?thesis using publish_argv_trace [OF a] by (simp add: uses_only_def)
next
  case False
  then have "publish rt args w = (Inl publish_type_error, w)"
    by (cases "arg_payload args") (auto simp: publish_def)
  then show ?thesis by (simp add: uses_only_refl)
qed

lemma queue_ops_use:
  "uses_only {queueAnchor q} w (snd (pause rt q w))"
  "uses_only {queueAnchor q} w (snd (resume rt q w))"
  "uses_only {queueAnchor q} w (snd (reserve rt q ov w))"
  "uses_only {queueAnchor q} w (snd (heartbeat rt q j t ov w))"
  "uses_only {queueAnchor q} w (snd (ack_success rt q j t ov w))"
  "uses_only {queueAnchor q} w (snd (promote_delayed rt q m ov w))"
  "uses_only {queueAnchor q} w (snd (reap_expired rt q m ov w))"
  "uses_only {queueAnchor q} w (snd (retry_failed rt q j ov w))"
  unfolding pause_def resume_def reserve_def heartbeat_def ack_success_def promote_delayed_def
    reap_expired_def retry_failed_def Let_def snd_case_sum
  by (rule run_script_uses)+

lemma ack_fail_uses: "uses_only {queueAnchor q} w (snd (ack_fail rt q j t e ov w))"
  unfolding ack_fail_def Let_def snd_case_sum
  by (cases e) (simp_all add: run_script_uses)

lemma remove_job_uses: "uses_only {queueAnchor q} w (snd (remove_job rt q j l w))"
proof -
  have "snd (remove_job rt q j l w) = snd (run_script rt remove_job_script [queueAnchor q, j, l] w)"
    by (auto simp: remove_job_def Let_def split: prod.splits sum.splits)
  then show ?thesis by (simp add: run_script_uses)
qed

lemma batch_ops_use:
  "uses_only {queueAnchor q} w (snd (retry_failed_batch rt q js ov w))"
  "uses_only {queueAnchor q} w (snd (remove_jobs_batch rt q l js w))"
  unfolding retry_failed_batch_def remove_jobs_batch_def Let_def
  by (simp_all only: snd_case_sum run_script_uses uses_only_refl snd_conv if_distrib [of snd] if_cancel split: if_split) simp_all

lemma is_paused_trace:
  "trace (snd (is_paused rt q w)) = trace w @ [Call (EXISTS (queueBase q @ '':paused''))]"
  by (auto simp: is_paused_def perform_def Let_def split: prod.splits sum.splits)

lemma job_timeout_ms_trace:
  "trace (snd (job_timeout_ms rt q j d w)) = trace w @ [Call (HGET (queueBase q @ '':job:'' @ j) ''timeout_ms'')]"
  by (auto simp: job_timeout_ms_def perform_def Let_def split: prod.splits sum.splits)

lemma child_ops_use:
  "uses_only {''{cc:'' @ trim key @ ''}:meta''} w (snd (childs_init rt key n w))"
  "uses_only {''{cc:'' @ trim key @ ''}:meta''} w (snd (child_ack rt key c w))"
proof -
  show "uses_only {''{cc:'' @ trim key @ ''}:meta''} w (snd (childs_init rt key n w))"
  proof (cases "childsAnchor key")
    case (Inl e)
    then show ?thesis by (simp add: childs_init_def uses_only_refl)
  next
    case (Inr a)
    then have a: "a = ''{cc:'' @ trim key @ ''}:meta''"
      by (simp add: childsAnchor_cases split: if_splits)
    have "snd (childs_init rt key n w) = snd (run_script rt childs_init_script [a, str_trunc n] w)"
      using Inr by (auto simp: childs_init_def split: prod.splits sum.splits)
    then show ?thesis unfolding a by (simp add: run_script_uses)
  qed
  show "uses_only {''{cc:'' @ trim key @ ''}:meta''} w (snd (child_ack rt key c w))"
  proof (cases "childsAnchor key")
    case (Inl e)
    then show ?thesis by (simp add: child_ack_def uses_only_refl)
  next
    case (Inr a)
    then have a: "a = ''{cc:'' @ trim key @ ''}:meta''"
      by (simp add: childsAnchor_cases split: if_splits)
    show ?thesis
    proof (cases "trim c = []")
      case True
      then show ?thesis using Inr by (simp add: child_ack_def uses_only_refl)
    next
      case False
      then have "snd (child_ack rt key c w) = snd (run_script rt child_ack_script [a, trim c] w)"
        using Inr by (auto simp: child_ack_def Let_def split: prod.splits sum.splits)
      then show ?thesis unfolding a by (simp add: run_script_uses)
    qed
  qed
qed

lemma uses_only_mono: "uses_only K w w' \<Longrightarrow> K \<subseteq> K' \<Longrightarrow> uses_only K' w w'"
  unfolding uses_only_def by blast

lemma uses_only_trace: "trace w' = trace w @ evs \<Longrightarrow> set (concat (map keys_of evs)) \<subseteq> K \<Longrightarrow> uses_only K w w'"
  unfolding uses_only_def by blast

lemma queue_request_uses:
  assumes "request_queue req = Some q"
  shows "uses_only ({queueAnchor q, queueBase q @ '':paused''} \<union> {queueBase q @ '':job:'' @ j | j. True})
           w (run_request rt req w)"
proof (cases req)
  case (Publish args)
  then show ?thesis using assms publish_uses [of args w rt]
    by (auto elim!: uses_only_mono)
next
  case (PublishViaExec args)
  then show ?thesis using assms
      publish_uses [of "\<lparr>arg_queue = arg_queue args, arg_payload = arg_payload args,
        arg_job_id = arg_job_id args,
        arg_max_attempts = Some (or_default (Fin 3) (arg_max_attempts args)),
        arg_timeout_ms = Some (or_default (Fin 60000) (arg_timeout_ms args)),
        arg_backoff_ms = Some (or_default (Fin 5000) (arg_backoff_ms args)),
        arg_due_ms = Some (or_default (Fin 0) (arg_due_ms args)),
        arg_now_ms_override = None,
        arg_gid = arg_gid args,
        arg_group_limit = Some (or_default (Fin 0) (arg_group_limit args))\<rparr>" w rt]
    by (auto simp: Exec_publish_def elim!: uses_only_mono)
next
  case (IsPaused x)
  then show ?thesis using assms
    by (auto intro!: uses_only_trace [OF is_paused_trace])
next
  case (JobTimeoutMs x j d)
  then show ?thesis using assms
    by (auto intro!: uses_only_trace [OF job_timeout_ms_trace])
qed (use assms in \<open>auto intro: uses_only_mono [OF queue_ops_use(1)] uses_only_mono [OF queue_ops_use(2)]
       uses_only_mono [OF queue_ops_use(3)] uses_only_mono [OF queue_ops_use(4)]
       uses_only_mono [OF queue_ops_use(5)] uses_only_mono [OF queue_ops_use(6)]
       uses_only_mono [OF queue_ops_use(7)] uses_only_mono [OF queue_ops_use(8)]
       uses_only_mono [OF ack_fail_uses] uses_only_mono [OF remove_job_uses]
       uses_only_mono [OF batch_ops_use(1)] uses_only_mono [OF batch_ops_use(2)]\<close>)

lemma child_request_uses:
  assumes "request_child_key req = Some key"
  shows "uses_only {''{cc:'' @ trim key @ ''}:meta''} w (run_request rt req w)"
proof (cases req)
  case (ChildsInit k n)
  then show ?thesis using assms child_ops_use(1) [of key w rt n] by simp
next
  case (ChildAck k c)
  then show ?thesis using assms child_ops_use(2) [of key w rt c] by simp
qed (use assms in simp_all)

lemma queueBase_cases:
  "queueBase q = (if CHR ''{'' \<in> set q \<and> CHR ''}'' \<in> set q then q else ''{'' @ q @ ''}'')"
  by (simp add: queueBase_def str_includes_single)

text \<open>
  Claim C6, as stated, fails for a child key with white space around it: the key \<open>"k "\<close>
  is non-empty, short and free of braces, and its anchor is \<open>{cc:k}:meta\<close>, which does not
  contain \<open>{cc:k }\<close>.
\<close>

theorem child_anchor_tag_counterexample:
  "''k '' \<noteq> [] \<and> length ''k '' \<le> 128 \<and> CHR ''{'' \<notin> set ''k '' \<and> CHR ''}'' \<notin> set ''k ''
   \<and> childsAnchor ''k '' = Inr ''{cc:k}:meta''
   \<and> \<not> str_includes ''{cc:k}:meta'' (''{cc:'' @ ''k '' @ ''}'')"
  by (simp add: childsAnchor_cases trim_def is_ws_def str_includes_def sublist_code)

text \<open>
  Claim C6, amended. Every key a queue operation names in a store call starts with
  \<open>queueBase q\<close>: it is the anchor \<open>queueBase q + ":meta"\<close>, the one declared key of every
  script call, the pause flag \<open>queueBase q + ":paused"\<close> read by \<open>is_paused\<close>, or the job record
  \<open>queueBase q + ":job:" + job_id\<close> read by \<open>job_timeout_ms\<close>. So each contains \<open>{q}\<close> when \<open>q\<close> has
  no brace, and \<open>q\<close> itself when \<open>q\<close> has both braces. Every key a child-counter operation
  names is the child anchor of the trimmed key \<open>k\<close>, which contains \<open>{cc:k}\<close>; it contains the
  tag of the key as given when the key has no white space around it.
\<close>

theorem client_keys_carry_hash_tag:
  "(request_queue req = Some q \<longrightarrow>
      uses_only ({queueAnchor q, queueBase q @ '':paused''} \<union> {queueBase q @ '':job:'' @ j | j. True})
        w (run_request rt req w))
   \<and> queueAnchor q = queueBase q @ '':meta''
   \<and> trace (snd (is_paused rt q w)) = trace w @ [Call (EXISTS (queueBase q @ '':paused''))]
   \<and> trace (snd (job_timeout_ms rt q j d w))
        = trace w @ [Call (HGET (queueBase q @ '':job:'' @ j) ''timeout_ms'')]
   \<and> (CHR ''{'' \<notin> set q \<and> CHR ''}'' \<notin> set q \<longrightarrow>
        (\<forall>suffix. str_includes (queueBase q @ suffix) (''{'' @ q @ ''}'')))
   \<and> (CHR ''{'' \<in> set q \<and> CHR ''}'' \<in> set q \<longrightarrow> (\<forall>suffix. queueBase q @ suffix = q @ suffix))
   \<and> (request_child_key req = Some key \<longrightarrow>
        uses_only {''{cc:'' @ trim key @ ''}:meta''} w (run_request rt req w))
   \<and> (\<forall>a. childsAnchor key = Inr a \<longrightarrow>
        a = ''{cc:'' @ trim key @ ''}:meta'' \<and> str_includes a (''{cc:'' @ trim key @ ''}''))"
proof -
  have 1: "request_queue req = Some q \<longrightarrow>
      uses_only ({queueAnchor q, queueBase q @ '':paused''} \<union> {queueBase q @ '':job:'' @ j | j. True})
        w (run_request rt req w)"
    using queue_request_uses by blast
  have 2: "CHR ''{'' \<notin> set q \<and> CHR ''}'' \<notin> set q \<longrightarrow>
        (\<forall>suffix. str_includes (queueBase q @ suffix) (''{'' @ q @ ''}''))"
  proof (intro impI allI)
    fix suffix
    assume "CHR ''{'' \<notin> set q \<and> CHR ''}'' \<notin> set q"
    then have "queueBase q @ suffix = [] @ (''{'' @ q @ ''}'') @ suffix"
      by (simp add: queueBase_cases)
    then show "str_includes (queueBase q @ suffix) (''{'' @ q @ ''}'')"
      unfolding str_includes_iff by blast
  qed
  have 3: "CHR ''{'' \<in> set q \<and> CHR ''}'' \<in> set q \<longrightarrow> (\<forall>suffix. queueBase q @ suffix = q @ suffix)"
    by (simp add: queueBase_cases)
  have 4: "request_child_key req = Some key \<longrightarrow>
        uses_only {''{cc:'' @ trim key @ ''}:meta''} w (run_request rt req w)"
    using child_request_uses by blast
  have 5: "\<forall>a. childsAnchor key = Inr a \<longrightarrow>
        a = ''{cc:'' @ trim key @ ''}:meta'' \<and> str_includes a (''{cc:'' @ trim key @ ''}'')"
  proof (intro impI allI)
    fix a
    assume "childsAnchor key = Inr a"
    then have a: "a = ''{cc:'' @ trim key @ ''}:meta''"
      by (simp add: childsAnchor_cases split: if_splits)
    then have "a = [] @ (''{cc:'' @ trim key @ ''}'') @ '':meta''" by simp
    then have "str_includes a (''{cc:'' @ trim key @ ''}'')"
      unfolding str_includes_iff by blast
    with a show "a = ''{cc:'' @ trim key @ ''}:meta'' \<and> str_includes a (''{cc:'' @ trim key @ ''}'')"
      by simp
  qed
  show ?thesis
    using 1 2 3 4 5 is_paused_trace [of rt q w] job_timeout_ms_trace [of rt q j d w]
    by (simp add: queueAnchor_def)
qed

lemma trim_doc: "trim ''document:doc_123'' = ''document:doc_123''"
  by (simp add: trim_def is_ws_def)

theorem client_keys_carry_hash_tag_witness:
  "uses_only ({''{demo}:meta'', ''{demo}:paused''} \<union> {''{demo}:job:'' @ j | j. True})
     w0 (run_request (runtime_of flushed) (Heartbeat ''demo'' ''j1'' ''tok'' None) w0)
   \<and> str_includes (''{demo}'' @ '':meta'') ''{demo}''
   \<and> queueBase ''{a}b'' @ '':meta'' = ''{a}b:meta''
   \<and> uses_only {''{cc:document:doc_123}:meta''} w0
        (run_request (runtime_of (ok_with (JStr ''4''))) (ChildAck ''document:doc_123'' ''j1'') w0)
   \<and> childsAnchor ''document:doc_123'' = Inr ''{cc:document:doc_123}:meta''
   \<and> str_includes ''{cc:document:doc_123}:meta'' ''{cc:document:doc_123}''"
proof -
  have b: "queueBase ''demo'' = ''{demo}''" "queueAnchor ''demo'' = ''{demo}:meta''"
    by (simp_all add: queueAnchor_def queueBase_cases)
  have c: "childsAnchor ''document:doc_123'' = Inr ''{cc:document:doc_123}:meta''"
    by (simp add: childsAnchor_cases trim_doc)
  have n: "CHR ''{'' \<notin> set ''demo'' \<and> CHR ''}'' \<notin> set ''demo''"
    and y: "CHR ''{'' \<in> set ''{a}b'' \<and> CHR ''}'' \<in> set ''{a}b''"
    by simp_all
  have q: "request_queue (Heartbeat ''demo'' ''j1'' ''tok'' None) = Some ''demo''"
    and k: "request_child_key (ChildAck ''document:doc_123'' ''j1'') = Some ''document:doc_123''"
    by simp_all
  note t1 = client_keys_carry_hash_tag [of "Heartbeat ''demo'' ''j1'' ''tok'' None" "''demo''" w0
      "runtime_of flushed" "''j1''" None "''document:doc_123''"]
  note t2 = client_keys_carry_hash_tag [of "ChildAck ''document:doc_123'' ''j1''" "''{a}b''" w0
      "runtime_of (ok_with (JStr ''4''))" "''j1''" None "''document:doc_123''"]
  have "uses_only ({''{demo}:meta'', ''{demo}:paused''} \<union> {''{demo}:job:'' @ j | j. True})
     w0 (run_request (runtime_of flushed) (Heartbeat ''demo'' ''j1'' ''tok'' None) w0)"
    using t1 q unfolding b by simp
  moreover have "str_includes (''{demo}'' @ '':meta'') ''{demo}''"
    using t1 n unfolding b by auto
  moreover have "queueBase ''{a}b'' @ '':meta'' = ''{a}b:meta''"
    using t2 y by auto
  moreover have "uses_only {''{cc:document:doc_123}:meta''} w0
        (run_request (runtime_of (ok_with (JStr ''4''))) (ChildAck ''document:doc_123'' ''j1'') w0)"
    using t2 k unfolding trim_doc by simp
  moreover have "str_includes ''{cc:document:doc_123}:meta'' ''{cc:document:doc_123}''"
    using t2 c unfolding trim_doc by auto
  ultimately show ?thesis using c by blast
qed

subsection \<open>C7: the child anchor\<close>

text \<open>
  Claim C7, as stated, fails for a key with white space around it: \<open>" a "\<close> is non-empty,
  short and free of braces, and its anchor is \<open>{cc:a}:meta\<close>, not \<open>{cc: a }:meta\<close>.
\<close>

theorem childsAnchor_padded_key_counterexample:
  "'' a '' \<noteq> [] \<and> length '' a '' \<le> 128 \<and> CHR ''{'' \<notin> set '' a '' \<and> CHR ''}'' \<notin> set '' a ''
   \<and> childsAnchor '' a '' = Inr ''{cc:a}:meta''
   \<and> childsAnchor '' a '' \<noteq> Inr (''{cc:'' @ '' a '' @ ''}:meta'')"
  by (simp add: childsAnchor_cases trim_def is_ws_def)

text \<open>
  Claim C7, amended. \<open>childsAnchor\<close> validates the trimmed key \<open>k\<close>. When \<open>k\<close> is non-empty, has
  no brace and at most 128 code units, the anchor is \<open>"{cc:" + k + "}:meta"\<close>. Otherwise it
  throws an \<open>Error\<close> whose message names the constraint violated, and \<open>childs_init\<close> and
  \<open>child_ack\<close> throw that error before any store call: the world is left as it was.
\<close>

theorem childsAnchor_validates_trimmed_key:
  "childsAnchor key =
     (if trim key = [] then Inl (JError ''Error'' ''childs_anchor key is required'')
      else if CHR ''{'' \<in> set (trim key) \<or> CHR ''}'' \<in> set (trim key) then
        Inl (JError ''Error'' (''childs_anchor key must not contain '{' or '}'' @ [CHR 0x27]))
      else if length (trim key) > 128 then
        Inl (JError ''Error'' ''childs_anchor key too long (max 128 chars)'')
      else Inr (''{cc:'' @ trim key @ ''}:meta''))
   \<and> (\<forall>e. childsAnchor key = Inl e \<longrightarrow>
         childs_init rt key n w = (Inl e, w) \<and> child_ack rt key c w = (Inl e, w))"
  by (simp add: childsAnchor_cases [unfolded Error_def] childs_init_def child_ack_def)

theorem childsAnchor_validates_trimmed_key_witness:
  "childsAnchor ''document:doc_123'' = Inr ''{cc:document:doc_123}:meta''
   \<and> childsAnchor ''a{b'' = Inl (JError ''Error'' (''childs_anchor key must not contain '{' or '}'' @ [CHR 0x27]))
   \<and> childs_init (runtime_of (ok_with JNull)) ''a{b'' (Fin 5) w0
       = (Inl (JError ''Error'' (''childs_anchor key must not contain '{' or '}'' @ [CHR 0x27])), w0)
   \<and> child_ack (runtime_of (ok_with JNull)) ''a{b'' ''j1'' w0
       = (Inl (JError ''Error'' (''childs_anchor key must not contain '{' or '}'' @ [CHR 0x27])), w0)"
proof -
  have t: "trim ''a{b'' = ''a{b''" by (simp add: trim_def is_ws_def)
  show ?thesis
    using childsAnchor_validates_trimmed_key [of "''document:doc_123''" "runtime_of (ok_with JNull)" "Fin 5" w0 "''j1''"]
      childsAnchor_validates_trimmed_key [of "''a{b''" "runtime_of (ok_with JNull)" "Fin 5" w0 "''j1''"]
    unfolding trim_doc t by simp
qed

subsection \<open>C8: child_ack on the operations layer\<close>

lemma run_script_result:
  "fst (run_script rt which ka w) =
     (case fst (respond rt (EVALSHA (sha (which (scripts rt))) 1 ka) (ext w)) of
        Inr res \<Rightarrow> Inr res
      | Inl err \<Rightarrow>
          if isNoScriptError err then
            fst (respond rt (EVAL (src (which (scripts rt))) 1 ka)
                   (snd (respond rt (EVALSHA (sha (which (scripts rt))) 1 ka) (ext w))))
          else Inl err)"
  by (auto simp: run_script_def evalshaWithNoScriptFallback_def perform_def emit_def Let_def
           split: sum.splits prod.splits)

lemma child_ack_result:
  assumes "childsAnchor key = Inr anchor" and "trim child_id \<noteq> []"
  shows "fst (child_ack rt key child_id w) =
           Inr (case fst (run_script rt child_ack_script [anchor, trim child_id] w) of
                  Inl e \<Rightarrow> Fin (- 1)
                | Inr res \<Rightarrow> child_ack_parse res)"
  using assms by (auto simp: child_ack_def Let_def split: prod.splits sum.splits)

lemma child_ack_parse_cases:
  "\<not> Array_isArray v \<Longrightarrow> child_ack_parse v = Fin (- 1)"
  "child_ack_parse (JArr []) = Fin (- 1)"
  "x \<noteq> JStr ''OK'' \<Longrightarrow> child_ack_parse (JArr (x # xs)) = Fin (- 1)"
  "child_ack_parse (JArr [JStr ''OK'']) = Fin (- 1)"
  "child_ack_parse (JArr (JStr ''OK'' # n # xs)) =
     (if Number_isFinite (Number_of n) then Math_trunc (Number_of n) else Fin (- 1))"
  by (cases v; simp add: child_ack_parse_def arr_items_def Let_def)+

text \<open>
  Claim C8, as stated, fails: \<open>child_ack\<close> validates the key and the child id before its
  \<open>try\<close> block, so it throws for the empty key.
\<close>

theorem child_ack_throws_counterexample:
  "fst (child_ack (runtime_of (ok_with (JStr ''2''))) '''' ''c1'' w0)
     = Inl (JError ''Error'' ''childs_anchor key is required'')"
  by (simp add: child_ack_def childsAnchor_cases trim_def Error_def)

text \<open>
  Claim C8, amended. For a key that \<open>childsAnchor\<close> accepts and a child id that is not blank,
  \<open>child_ack\<close> never throws: it returns -1 when the store call throws, when the reply is
  not a list, is the empty list, or does not start with \<open>"OK"\<close>, and on \<open>["OK"]\<close>; on
  \<open>["OK", n, ...]\<close> it returns \<open>Number(n)\<close> truncated when that is finite and -1 otherwise.
  For a key that \<open>childsAnchor\<close> rejects, and for a blank child id, it throws a validation
  error before any store call.
\<close>

theorem child_ack_swallows_store_errors:
  "(\<forall>anchor. childsAnchor key = Inr anchor \<and> trim child_id \<noteq> [] \<longrightarrow>
      fst (child_ack rt key child_id w) =
        Inr (case fst (run_script rt child_ack_script [anchor, trim child_id] w) of
               Inl e \<Rightarrow> Fin (- 1)
             | Inr res \<Rightarrow> child_ack_parse res))
   \<and> (\<forall>v. \<not> Array_isArray v \<longrightarrow> child_ack_parse v = Fin (- 1))
   \<and> child_ack_parse (JArr []) = Fin (- 1)
   \<and> (\<forall>x xs. x \<noteq> JStr ''OK'' \<longrightarrow> child_ack_parse (JArr (x # xs)) = Fin (- 1))
   \<and> child_ack_parse (JArr [JStr ''OK'']) = Fin (- 1)
   \<and> (\<forall>n xs. child_ack_parse (JArr (JStr ''OK'' # n # xs)) =
        (if Number_isFinite (Number_of n) then Math_trunc (Number_of n) else Fin (- 1)))
   \<and> (\<forall>e. childsAnchor key = Inl e \<longrightarrow> child_ack rt key child_id w = (Inl e, w))
   \<and> (\<forall>anchor. childsAnchor key = Inr anchor \<and> trim child_id = [] \<longrightarrow>
        child_ack rt key child_id w = (Inl (JError ''Error'' ''child_ack child_id is required''), w))"
proof -
  have "\<forall>e. childsAnchor key = Inl e \<longrightarrow> child_ack rt key child_id w = (Inl e, w)"
    by (simp add: child_ack_def)
  moreover have "\<forall>anchor. childsAnchor key = Inr anchor \<and> trim child_id = [] \<longrightarrow>
        child_ack rt key child_id w = (Inl (JError ''Error'' ''child_ack child_id is required''), w)"
    by (simp add: child_ack_def Error_def)
  ultimately show ?thesis
    using child_ack_result [of key _ child_id rt w] child_ack_parse_cases by blast
qed

lemma two_parses: "StringToNumber ''2'' = Fin 2"
  by code_simp

lemma refused_not_noscript: "\<not> isNoScriptError (JError ''Error'' ''connect ECONNREFUSED'')"
  by code_simp

theorem child_ack_swallows_store_errors_witness:
  "childsAnchor ''document:doc_123'' = Inr ''{cc:document:doc_123}:meta''
   \<and> trim ''j1'' \<noteq> []
   \<and> fst (child_ack (runtime_of (ok_with (JStr ''2''))) ''document:doc_123'' ''j1'' w0) = Inr (Fin 2)
   \<and> fst (child_ack (runtime_of down) ''document:doc_123'' ''j1'' w0) = Inr (Fin (- 1))
   \<and> \<not> Array_isArray (JStr ''OK'') \<and> child_ack_parse (JStr ''OK'') = Fin (- 1)
   \<and> JStr ''ERR'' \<noteq> JStr ''OK'' \<and> child_ack_parse (JArr [JStr ''ERR'', JStr ''NOPE'']) = Fin (- 1)
   \<and> childsAnchor '''' = Inl (JError ''Error'' ''childs_anchor key is required'')
   \<and> child_ack (runtime_of down) '''' ''j1'' w0 = (Inl (JError ''Error'' ''childs_anchor key is required''), w0)
   \<and> trim ''  '' = []
   \<and> child_ack (runtime_of down) ''document:doc_123'' ''  '' w0
       = (Inl (JError ''Error'' ''child_ack child_id is required''), w0)"
proof -
  have c: "childsAnchor ''document:doc_123'' = Inr ''{cc:document:doc_123}:meta''"
    by (simp add: childsAnchor_cases trim_doc)
  have e: "childsAnchor '''' = Inl (JError ''Error'' ''childs_anchor key is required'')"
    by (simp add: childsAnchor_cases trim_def Error_def)
  have j: "trim ''j1'' = ''j1''" and b: "trim ''  '' = []"
    by (simp_all add: trim_def is_ws_def)
  have r1: "fst (run_script (runtime_of (ok_with (JStr ''2''))) child_ack_script
                 [''{cc:document:doc_123}:meta'', ''j1''] w0) = Inr (JArr [JStr ''OK'', JStr ''2''])"
    by (simp add: run_script_result runtime_of_def ok_with_def)
  have r2: "fst (run_script (runtime_of down) child_ack_script
                 [''{cc:document:doc_123}:meta'', ''j1''] w0) = Inl (JError ''Error'' ''connect ECONNREFUSED'')"
    by (simp add: run_script_result runtime_of_def down_def refused_not_noscript)
  note t1 = child_ack_swallows_store_errors [of "''document:doc_123''" "''j1''" "runtime_of (ok_with (JStr ''2''))" w0]
  note t2 = child_ack_swallows_store_errors [of "''document:doc_123''" "''j1''" "runtime_of down" w0]
  note t3 = child_ack_swallows_store_errors [of "''''" "''j1''" "runtime_of down" w0]
  note t4 = child_ack_swallows_store_errors [of "''document:doc_123''" "''  ''" "runtime_of down" w0]
  have "fst (child_ack (runtime_of (ok_with (JStr ''2''))) ''document:doc_123'' ''j1'' w0) = Inr (Fin 2)"
    using t1 c unfolding j by (simp add: r1 two_parses trunc_rat_def)
  moreover have "fst (child_ack (runtime_of down) ''document:doc_123'' ''j1'' w0) = Inr (Fin (- 1))"
    using t2 c unfolding j by (simp add: r2)
  moreover have "child_ack_parse (JStr ''OK'') = Fin (- 1)"
    using t1 by simp
  moreover have "child_ack_parse (JArr [JStr ''ERR'', JStr ''NOPE'']) = Fin (- 1)"
    using t1 by simp
  moreover have "child_ack (runtime_of down) '''' ''j1'' w0 = (Inl (JError ''Error'' ''childs_anchor key is required''), w0)"
    using t3 e by simp
  moreover have "child_ack (runtime_of down) ''document:doc_123'' ''  '' w0
       = (Inl (JError ''Error'' ''child_ack child_id is required''), w0)"
    using t4 c b by simp
  ultimately show ?thesis using c e j b by simp
qed

subsection \<open>C9: child_ack on the facade\<close>

text \<open>
  Claim C9, as stated, fails: a \<open>child_id\<close> that is supplied but blank is not replaced by
  \<open>default_child_id\<close>. With the default \<open>"job1"\<close> and the supplied id \<open>""\<close> the call fails.
\<close>

theorem exec_child_ack_blank_id_counterexample:
  "trim ''job1'' \<noteq> []
   \<and> Exec_child_ack (runtime_of (ok_with (JStr ''2''))) ''job1'' ''document:doc_123'' (Some '''') w0
       = (Inl (JError ''Error'' ''child_id is required (or provide default_child_id)''), w0)"
  by (simp add: Exec_child_ack_def trim_def is_ws_def Error_def)

text \<open>
  Claim C9, amended. The effective id is \<open>child_id\<close> when it is supplied (not \<open>null\<close>, not
  omitted), blank or not, and \<open>default_child_id\<close> otherwise. \<open>Exec.child_ack\<close> fails with its
  validation error, before any store call, if and only if the effective id is blank after
  trimming; otherwise the trimmed effective id is forwarded to the operations layer's
  \<open>child_ack\<close>, whose result is returned truncated.
\<close>

theorem exec_child_ack_effective_id:
  "(trim (case child_id of None \<Rightarrow> default_child_id | Some c \<Rightarrow> c) = [] \<longrightarrow>
      Exec_child_ack rt default_child_id key child_id w
        = (Inl (JError ''Error'' ''child_id is required (or provide default_child_id)''), w))
   \<and> (trim (case child_id of None \<Rightarrow> default_child_id | Some c \<Rightarrow> c) \<noteq> [] \<longrightarrow>
      Exec_child_ack rt default_child_id key child_id w
        = (case child_ack rt key (trim (case child_id of None \<Rightarrow> default_child_id | Some c \<Rightarrow> c)) w of
             (Inl e, w1) \<Rightarrow> (Inl e, w1)
           | (Inr n, w1) \<Rightarrow> (Inr (Math_trunc n), w1))
      \<and> fst (Exec_child_ack rt default_child_id key child_id w)
           \<noteq> Inl (JError ''Error'' ''child_id is required (or provide default_child_id)''))"
proof -
  let ?eff = "trim (case child_id of None \<Rightarrow> default_child_id | Some c \<Rightarrow> c)"
  have a: "?eff = [] \<longrightarrow> Exec_child_ack rt default_child_id key child_id w
        = (Inl (JError ''Error'' ''child_id is required (or provide default_child_id)''), w)"
    by (simp add: Exec_child_ack_def Error_def)
  have b: "?eff \<noteq> [] \<longrightarrow> Exec_child_ack rt default_child_id key child_id w
        = (case child_ack rt key ?eff w of
             (Inl e, w1) \<Rightarrow> (Inl e, w1)
           | (Inr n, w1) \<Rightarrow> (Inr (Math_trunc n), w1))"
    by (simp add: Exec_child_ack_def)
  have c: "fst (child_ack rt key ?eff w)
             \<noteq> Inl (JError ''Error'' ''child_id is required (or provide default_child_id)'')"
    by (auto simp: child_ack_def childsAnchor_cases Error_def Let_def split: prod.splits sum.splits if_splits)
  have "?eff \<noteq> [] \<longrightarrow> fst (Exec_child_ack rt default_child_id key child_id w)
           \<noteq> Inl (JError ''Error'' ''child_id is required (or provide default_child_id)'')"
    using b c by (auto split: prod.splits sum.splits)
  with a b show ?thesis by blast
qed

theorem exec_child_ack_effective_id_witness:
  "trim ''job1'' \<noteq> []
   \<and> Exec_child_ack (runtime_of (ok_with (JStr ''2''))) ''job1'' ''document:doc_123'' None w0
       = (case child_ack (runtime_of (ok_with (JStr ''2''))) ''document:doc_123'' ''job1'' w0 of
            (Inl e, w1) \<Rightarrow> (Inl e, w1)
          | (Inr n, w1) \<Rightarrow> (Inr (Math_trunc n), w1))
   \<and> trim '' '' = []
   \<and> Exec_child_ack (runtime_of (ok_with (JStr ''2''))) '' '' ''document:doc_123'' None w0
       = (Inl (JError ''Error'' ''child_id is required (or provide default_child_id)''), w0)
   \<and> Exec_child_ack (runtime_of (ok_with (JStr ''2''))) ''job1'' ''document:doc_123'' (Some '' c7 '') w0
       = (case child_ack (runtime_of (ok_with (JStr ''2''))) ''document:doc_123'' ''c7'' w0 of
            (Inl e, w1) \<Rightarrow> (Inl e, w1)
          | (Inr n, w1) \<Rightarrow> (Inr (Math_trunc n), w1))"
proof -
  have j: "trim ''job1'' = ''job1''" and b: "trim '' '' = []" and c: "trim '' c7 '' = ''c7''"
    by (simp_all add: trim_def is_ws_def)
  show ?thesis
    using exec_child_ack_effective_id [where child_id = None and default_child_id = "''job1''"
          and rt = "runtime_of (ok_with (JStr ''2''))" and key = "''document:doc_123''" and w = w0]
      exec_child_ack_effective_id [where child_id = None and default_child_id = "'' ''"
          and rt = "runtime_of (ok_with (JStr ''2''))" and key = "''document:doc_123''" and w = w0]
      exec_child_ack_effective_id [where child_id = "Some '' c7 ''" and default_child_id = "''job1''"
          and rt = "runtime_of (ok_with (JStr ''2''))" and key = "''document:doc_123''" and w = w0]
    unfolding option.case j b c by simp
qed

subsection \<open>The runloop after the handler\<close>

lemma only_adds_refl: "only_adds P s s"
  by (simp add: only_adds_def)

lemma only_adds_trans: "only_adds P s s1 \<Longrightarrow> only_adds P s1 s2 \<Longrightarrow> only_adds P s s2"
  unfolding only_adds_def by (metis append.assoc list_all_append)

lemma only_adds_emit: "P e \<Longrightarrow> only_adds P s (s\<lparr>world := emit e (world s)\<rparr>)"
  by (simp add: only_adds_def emit_def)

lemma only_adds_weaken: "only_adds P s s' \<Longrightarrow> (\<And>e. P e \<Longrightarrow> Q e) \<Longrightarrow> only_adds Q s s'"
  unfolding only_adds_def by (metis (mono_tags, lifting) list.pred_mono_strong)

lemma only_adds_same_world: "world s' = world s \<Longrightarrow> only_adds P s s'"
  by (simp add: only_adds_def)

lemma safeLog_adds:
  "only_adds (\<lambda>e. is_log e \<and> or_default False (verbose opts)) s (safeLog opts l s)"
  by (simp add: safeLog_def only_adds_refl only_adds_emit)

lemma safeLog_ctrl [simp]: "ctrl (safeLog opts l s) = ctrl s" "signals (safeLog opts l s) = signals s"
  by (simp_all add: safeLog_def)

lemma on_signal_adds:
  assumes "on_signal opts queue sg s = (r, s')"
  shows "only_adds (\<lambda>e. is_log e \<and> or_default False (verbose opts)) s s'
         \<and> (r = Val () \<or> r = Halt (Exited 130)) \<and> (stop (ctrl s) \<longrightarrow> stop (ctrl s'))"
proof -
  have a: "\<And>l t. world t = world s \<Longrightarrow>
             only_adds (\<lambda>e. is_log e \<and> or_default False (verbose opts)) s (safeLog opts l t)"
    by (metis only_adds_same_world only_adds_trans safeLog_adds)
  show ?thesis
    using assms
    by (auto simp: on_signal_def onSigterm_def onSigint_def request_stop_def Let_def only_adds_refl
             intro!: a split: if_splits signal.splits)
qed

lemma on_signals_adds:
  "on_signals opts queue sgs s = (r, s') \<Longrightarrow>
     only_adds (\<lambda>e. is_log e \<and> or_default False (verbose opts)) s s'
     \<and> (r = Val () \<or> r = Halt (Exited 130)) \<and> (stop (ctrl s) \<longrightarrow> stop (ctrl s'))"
proof (induction sgs arbitrary: s)
  case Nil
  then show ?case by (auto simp: only_adds_refl)
next
  case (Cons sg sgs)
  obtain r1 s1 where a: "on_signal opts queue sg s = (r1, s1)" by (cases "on_signal opts queue sg s")
  note b = on_signal_adds [OF a]
  show ?case
  proof (cases r1)
    case (Val u)
    then have "on_signals opts queue sgs s1 = (r, s')"
      using Cons.prems a by (simp add: and_then_def)
    from Cons.IH [OF this] b show ?thesis by (blast intro: only_adds_trans)
  next
    case (Halt out)
    then have "r = r1" "s' = s1" using Cons.prems a by (simp_all add: and_then_def)
    with b Halt show ?thesis by auto
  qed
qed

lemma suspend_adds:
  assumes "suspend opts queue s = (r, s')"
  shows "only_adds (\<lambda>e. is_log e \<and> or_default False (verbose opts)) s s'
     \<and> (r = Val () \<or> r = Halt (Exited 130)) \<and> (stop (ctrl s) \<longrightarrow> stop (ctrl s'))"
proof (cases "signals s")
  case Nil
  then show ?thesis using assms by (auto simp: suspend_def only_adds_refl)
next
  case (Cons sgs later)
  then have "on_signals opts queue sgs (s\<lparr>signals := later\<rparr>) = (r, s')"
    using assms by (simp add: suspend_def)
  from on_signals_adds [OF this] show ?thesis
    by (auto elim!: only_adds_trans [rotated] intro: only_adds_same_world)
qed

lemma suspend_quiet: "signals s = [] \<Longrightarrow> suspend opts queue s = (Val (), s)"
  by (simp add: suspend_def)

lemma sleep_adds:
  assumes "sleep opts queue ms s = (r, s')"
  shows "only_adds (\<lambda>e. \<not> is_call e \<and> (is_log e \<longrightarrow> or_default False (verbose opts))) s s'
     \<and> (r = Val () \<or> r = Halt (Exited 130)) \<and> (stop (ctrl s) \<longrightarrow> stop (ctrl s'))"
proof -
  let ?s1 = "s\<lparr>world := emit (Sleep ms) (world s)\<rparr>"
  have 1: "only_adds (\<lambda>e. \<not> is_call e \<and> (is_log e \<longrightarrow> or_default False (verbose opts))) s ?s1"
    by (rule only_adds_emit) simp
  have "suspend opts queue ?s1 = (r, s')" using assms by (simp add: sleep_def)
  from suspend_adds [OF this]
  have "only_adds (\<lambda>e. is_log e \<and> or_default False (verbose opts)) ?s1 s'"
    and 2: "(r = Val () \<or> r = Halt (Exited 130))" "stop (ctrl s) \<longrightarrow> stop (ctrl s')"
    by auto
  then have "only_adds (\<lambda>e. \<not> is_call e \<and> (is_log e \<longrightarrow> or_default False (verbose opts))) ?s1 s'"
    by (auto elim!: only_adds_weaken elim: is_log.elims)
  with 1 2 show ?thesis by (blast intro: only_adds_trans)
qed

lemma run_script_no_log:
  assumes "run_script rt which ka w = (r, w')"
  shows "\<exists>evs. trace w' = trace w @ evs \<and> list_all (\<lambda>e. \<not> is_log e) evs"
proof -
  from run_script_trace [OF assms] obtain rest where
    a: "trace w' = trace w @ Call (EVALSHA (sha (which (scripts rt))) 1 ka) # rest"
    and b: "set rest \<subseteq> {Lock, Unlock, Call (EVAL (src (which (scripts rt))) 1 ka)}"
    by blast
  from b have "list_all (\<lambda>e. \<not> is_log e) (Call (EVALSHA (sha (which (scripts rt))) 1 ka) # rest)"
    by (auto simp: list_all_iff)
  with a show ?thesis by blast
qed

lemma ack_success_no_log:
  assumes "ack_success rt queue j t ov w = (r, w')"
  shows "\<exists>evs. trace w' = trace w @ evs \<and> list_all (\<lambda>e. \<not> is_log e) evs"
proof -
  obtain r0 where "run_script rt ack_success_script
      [queueAnchor queue, j, str_trunc (now_or_override rt ov w), t] w = (r0, w')"
    using assms by (auto simp: ack_success_def Let_def split: prod.splits sum.splits)
  then show ?thesis by (rule run_script_no_log)
qed

lemma ack_fail_no_log:
  assumes "ack_fail rt queue j t err ov w = (r, w')"
  shows "\<exists>evs. trace w' = trace w @ evs \<and> list_all (\<lambda>e. \<not> is_log e) evs"
proof -
  obtain r0 ka where "run_script rt ack_fail_script ka w = (r0, w')"
    using assms by (auto simp: ack_fail_def Let_def split: prod.splits sum.splits option.splits if_splits)
  then show ?thesis by (rule run_script_no_log)
qed

lemma await_op_adds:
  assumes "await_op opts queue op s = (r, s')" and "op (world s) = (x, w1)"
  shows "only_adds (\<lambda>e. is_log e \<and> or_default False (verbose opts)) (s\<lparr>world := w1\<rparr>) s'
     \<and> (r = Val x \<or> r = Halt (Exited 130)) \<and> (stop (ctrl s) \<longrightarrow> stop (ctrl s'))"
proof -
  obtain r1 where a: "suspend opts queue (s\<lparr>world := w1\<rparr>) = (r1, s')"
    and b: "r = (case r1 of Val u \<Rightarrow> Val x | Halt out \<Rightarrow> Halt out)"
    using assms by (auto simp: await_op_def and_then_def split: prod.splits res.splits)
  from suspend_adds [OF a] b show ?thesis by auto
qed

lemma await_op_quiet:
  "signals s = [] \<Longrightarrow> op (world s) = (x, w1) \<Longrightarrow> await_op opts queue op s = (Val x, s\<lparr>world := w1\<rparr>)"
  by (simp add: await_op_def suspend_def and_then_def)

lemma log_weaken_no_call:
  "only_adds (\<lambda>e. is_log e \<and> v) s s' \<Longrightarrow> only_adds (\<lambda>e. is_log e \<longrightarrow> v) s s'"
  by (erule only_adds_weaken) simp

lemma only_adds_world:
  "trace w1 = trace (world s) @ evs \<Longrightarrow> list_all P evs \<Longrightarrow> only_adds P s (s\<lparr>world := w1\<rparr>)"
  by (auto simp: only_adds_def)

lemma ack_after_success_adds:
  assumes "ack_after_success opts rt queue job s = (r, s')"
  shows "only_adds (\<lambda>e. is_log e \<longrightarrow> or_default False (verbose opts)) s s'
     \<and> (r = Val () \<or> r = Halt (Exited 130)) \<and> (stop (ctrl s) \<longrightarrow> stop (ctrl s'))"
proof -
  obtain x w1 where op: "ack_success rt queue (rj_job_id job) (rj_lease_token job) None (world s) = (x, w1)"
    by (cases "ack_success rt queue (rj_job_id job) (rj_lease_token job) None (world s)")
  obtain r1 s1 where aw: "await_op opts queue (ack_success rt queue (rj_job_id job) (rj_lease_token job) None) s = (r1, s1)"
    by (cases "await_op opts queue (ack_success rt queue (rj_job_id job) (rj_lease_token job) None) s")
  from ack_success_no_log [OF op] obtain evs where
    "trace w1 = trace (world s) @ evs" "list_all (\<lambda>e. \<not> is_log e) evs" by blast
  then have 0: "only_adds (\<lambda>e. is_log e \<longrightarrow> or_default False (verbose opts)) s (s\<lparr>world := w1\<rparr>)"
    by (auto intro!: only_adds_world simp: list_all_iff)
  from await_op_adds [OF aw op]
  have 1: "only_adds (\<lambda>e. is_log e \<longrightarrow> or_default False (verbose opts)) (s\<lparr>world := w1\<rparr>) s1"
    and 2: "r1 = Val x \<or> r1 = Halt (Exited 130)" and 3: "stop (ctrl s) \<longrightarrow> stop (ctrl s1)"
    by (auto intro: log_weaken_no_call)
  have 4: "\<And>l. only_adds (\<lambda>e. is_log e \<longrightarrow> or_default False (verbose opts)) s1 (safeLog opts l s1)"
    by (rule log_weaken_no_call) (rule safeLog_adds)
  have 5: "\<And>l. only_adds (\<lambda>e. is_log e \<longrightarrow> or_default False (verbose opts)) s (safeLog opts l s1)"
    by (rule only_adds_trans [OF only_adds_trans [OF 0 1] 4])
  show ?thesis
    using assms 2 3 only_adds_trans [OF 0 1] 5
    unfolding ack_after_success_def aw and_then_def
    by (auto split: sum.splits)
qed

lemma ack_after_failure_adds:
  assumes "ack_after_failure opts rt queue job e s = (r, s')"
  shows "only_adds (\<lambda>e. is_log e \<longrightarrow> or_default False (verbose opts)) s s'
     \<and> (r = Val () \<or> r = Halt (Exited 130)) \<and> (stop (ctrl s) \<longrightarrow> stop (ctrl s'))"
proof -
  let ?msg = "String_of (coalesce (get_name e) (JStr ''Error'')) @ '': '' @ error_text e"
  let ?op = "ack_fail rt queue (rj_job_id job) (rj_lease_token job) (Some ?msg) None"
  obtain x w1 where op: "?op (world s) = (x, w1)" by (cases "?op (world s)")
  obtain r1 s1 where aw: "await_op opts queue ?op s = (r1, s1)" by (cases "await_op opts queue ?op s")
  from ack_fail_no_log [OF op] obtain evs where
    "trace w1 = trace (world s) @ evs" "list_all (\<lambda>e. \<not> is_log e) evs" by blast
  then have 0: "only_adds (\<lambda>e. is_log e \<longrightarrow> or_default False (verbose opts)) s (s\<lparr>world := w1\<rparr>)"
    by (auto intro!: only_adds_world simp: list_all_iff)
  from await_op_adds [OF aw op]
  have 1: "only_adds (\<lambda>e. is_log e \<longrightarrow> or_default False (verbose opts)) (s\<lparr>world := w1\<rparr>) s1"
    and 2: "r1 = Val x \<or> r1 = Halt (Exited 130)" and 3: "stop (ctrl s) \<longrightarrow> stop (ctrl s1)"
    by (auto intro: log_weaken_no_call)
  have 4: "\<And>l t. only_adds (\<lambda>e. is_log e \<longrightarrow> or_default False (verbose opts)) t (safeLog opts l t)"
    by (rule log_weaken_no_call) (rule safeLog_adds)
  have 5: "\<And>l t. only_adds (\<lambda>e. is_log e \<longrightarrow> or_default False (verbose opts)) s t \<Longrightarrow>
             only_adds (\<lambda>e. is_log e \<longrightarrow> or_default False (verbose opts)) s (safeLog opts l t)"
    using 4 by (blast intro: only_adds_trans)
  show ?thesis
    using assms 2 3 only_adds_trans [OF 0 1]
    unfolding ack_after_failure_def Let_def aw and_then_def
    by (auto split: sum.splits AckFailResult.splits intro!: 5)
qed

lemma hb_stop_lost [simp]: "lost (hb_stop h) = lost h"
  by (simp add: hb_stop_def)

lemma settle_lost:
  assumes "lost h"
  shows "only_adds (\<lambda>e. \<not> is_call e) s (snd (settle opts rt queue job result h s))"
proof -
  obtain r1 s1 where sl: "sleep opts queue (Fin 100) s = (r1, s1)" by (cases "sleep opts queue (Fin 100) s")
  from sleep_adds [OF sl] have 1: "only_adds (\<lambda>e. \<not> is_call e) s s1"
    by (auto elim!: only_adds_weaken)
  have 2: "\<And>l. only_adds (\<lambda>e. \<not> is_call e) s1 (safeLog opts l s1)"
    by (rule only_adds_weaken [OF safeLog_adds]) (auto elim: is_log.elims)
  have 3: "\<And>l. only_adds (\<lambda>e. \<not> is_call e) s (safeLog opts l s1)"
    by (rule only_adds_trans [OF 1 2])
  show ?thesis
    using assms 1 3 unfolding settle_def Let_def and_then_def
    by (auto simp: sl split: res.splits)
qed

lemma settle_props:
  assumes "settle opts rt queue job result h s = (r, s')"
  shows "only_adds (\<lambda>e. is_log e \<longrightarrow> or_default False (verbose opts)) s s'
     \<and> (r = Val () \<or> r = Halt (Exited 130) \<or> (r = Halt Returned \<and> stop (ctrl s') \<and> or_default True (drain opts)))"
proof -
  let ?ack = "if lost (hb_stop h) then (Val (), s)
         else case result of
                None \<Rightarrow> ack_after_success opts rt queue job s
              | Some e \<Rightarrow> ack_after_failure opts rt queue job e s"
  obtain r0 s0 where ack: "?ack = (r0, s0)" by (cases ?ack)
  have a: "only_adds (\<lambda>e. is_log e \<longrightarrow> or_default False (verbose opts)) s s0
          \<and> (r0 = Val () \<or> r0 = Halt (Exited 130))"
    using ack ack_after_success_adds [of opts rt queue job s r0 s0]
      ack_after_failure_adds [of opts rt queue job _ s r0 s0]
    by (auto simp: only_adds_refl split: if_splits option.splits)
  obtain r1 s1 where sl: "sleep opts queue (Fin 100) s0 = (r1, s1)" by (cases "sleep opts queue (Fin 100) s0")
  from sleep_adds [OF sl] have b: "only_adds (\<lambda>e. is_log e \<longrightarrow> or_default False (verbose opts)) s0 s1"
    "r1 = Val () \<or> r1 = Halt (Exited 130)"
    by (auto elim!: only_adds_weaken)
  have c: "\<And>l. only_adds (\<lambda>e. is_log e \<longrightarrow> or_default False (verbose opts)) s1 (safeLog opts l s1)"
    by (rule log_weaken_no_call) (rule safeLog_adds)
  have d: "only_adds (\<lambda>e. is_log e \<longrightarrow> or_default False (verbose opts)) s s1"
    using a b(1) by (blast intro: only_adds_trans)
  have e: "\<And>l. only_adds (\<lambda>e. is_log e \<longrightarrow> or_default False (verbose opts)) s (safeLog opts l s1)"
    by (rule only_adds_trans [OF d c])
  have st: "settle opts rt queue job result h s =
      and_then (r0, s0) (\<lambda>u s1. and_then (sleep opts queue (Fin 100) s1)
             (\<lambda>u s2. if stop (ctrl s2) \<and> or_default True (drain opts) then
                  (Halt Returned, safeLog opts (LogExitDrained (rj_job_id job)) s2)
                else (Val (), s2)))"
    unfolding settle_def Let_def ack ..
  show ?thesis
    using assms a b(2) d e unfolding st and_then_def
    by (auto simp: sl split: if_splits)
qed

subsection \<open>C2: a lost lease is not acknowledged\<close>

lemma hb_deliver_lost:
  "lost (hb_deliver h) = (lost h \<or> (\<exists>first e rest. inflight h = (first, Inl e) # rest \<and> lease_lost_message e))"
  by (auto simp: hb_deliver_def checkLost_def hb_stop_def Let_def
           split: list.splits sum.splits prod.splits if_splits)

lemma hb_fire_lost: "lost (fst (hb_fire rt queue j t (h, w))) = lost h"
  by (auto simp: hb_fire_def Let_def split: prod.splits)

lemma startHeartbeater_lost: "\<not> lost (fst (startHeartbeater rt queue j t n w))"
  by (auto simp: startHeartbeater_def Let_def split: prod.splits)

lemma process_job_unfold:
  assumes "handler (job_ctx queue job) = (turns, result)"
      and "handler_phase opts rt queue job turns s = (Val h, s1)"
  shows "process_job opts rt queue handler job s = settle opts rt queue job result h s1"
  using assms by (simp add: process_job_def and_then_def)

text \<open>
  Claim C2. When the handler has finished, the runloop stops the heartbeater and reads
  its \<open>lost\<close> flag. If the flag is set, nothing the runloop does in the rest of the
  iteration is a store call: neither \<open>ack_success\<close> nor \<open>ack_fail\<close> is called, whether the
  handler returned or threw. The flag starts unset; it is set exactly when the result
  of a heartbeat call arrives and is an error whose message contains \<open>NOT_ACTIVE\<close> or
  \<open>TOKEN_MISMATCH\<close>; the timer, \<open>stop()\<close> and the handler leave it as it is.
\<close>

theorem lost_lease_skips_ack:
  "(lost h \<longrightarrow> only_adds (\<lambda>e. \<not> is_call e) s (snd (settle opts rt queue job result h s)))
   \<and> (handler (job_ctx queue job) = (turns, result)
        \<and> handler_phase opts rt queue job turns s = (Val h, s1) \<and> lost h \<longrightarrow>
        only_adds (\<lambda>e. \<not> is_call e) s1 (snd (process_job opts rt queue handler job s)))
   \<and> lost (hb_deliver h)
        = (lost h \<or> (\<exists>first e rest. inflight h = (first, Inl e) # rest \<and> lease_lost_message e))
   \<and> lost (fst (hb_fire rt queue j t (h, w))) = lost h
   \<and> lost (hb_stop h) = lost h
   \<and> \<not> lost (fst (startHeartbeater rt queue j t n w))"
proof -
  have "handler (job_ctx queue job) = (turns, result)
        \<and> handler_phase opts rt queue job turns s = (Val h, s1) \<and> lost h \<longrightarrow>
        only_adds (\<lambda>e. \<not> is_call e) s1 (snd (process_job opts rt queue handler job s))"
    using process_job_unfold [of handler queue job turns result opts rt s h s1]
      settle_lost [of h s1 opts rt queue job result]
    by auto
  then show ?thesis
    using settle_lost [of h s opts rt queue job result] hb_deliver_lost [of h]
      hb_fire_lost [of rt queue j t h w] startHeartbeater_lost [of rt queue j t n w]
    by simp
qed

lemma now_runtime_of: "str_trunc (now_or_override (runtime_of a) None w) = ''1700000000000''"
  by (simp add: now_or_override_def runtime_of_def now_demo)

lemma demo_anchor: "queueAnchor ''demo'' = ''{demo}:meta''"
  by (simp add: queueAnchor_def queueBase_cases)

lemma not_active_heartbeat:
  "heartbeat (runtime_of (failing_with ''NOT_ACTIVE'')) ''demo'' ''j1'' ''tok'' None w0
     = (Inl (JError ''Error'' ''HEARTBEAT failed: NOT_ACTIVE''),
        \<lparr>ext = 1, trace = [Call (EVALSHA ''5f2a'' 1 [''{demo}:meta'', ''j1'', ''1700000000000'', ''tok''])]\<rparr>)"
  by (simp add: heartbeat_def now_runtime_of demo_anchor run_script_def
        evalshaWithNoScriptFallback_def perform_def)
     (simp add: runtime_of_def failing_with_def the_scripts_def the_script_def w0_def
        heartbeat_parse_def arr_items_def failed_def reason_of_def Error_def)

lemma not_active_is_lost: "lease_lost_message (JError ''Error'' ''HEARTBEAT failed: NOT_ACTIVE'')"
  by code_simp

lemma lost_phase:
  "handler_phase quiet_opts (runtime_of (failing_with ''NOT_ACTIVE'')) ''demo'' job1 [Deliver] start_state
     = (Val \<lparr>stopped = True, lost = True, timer = None, done_resolved = True,
              interval_s = Fin 1, inflight = []\<rparr>,
        start_state\<lparr>world := \<lparr>ext = 1, trace = [Call (EVALSHA ''5f2a'' 1
                        [''{demo}:meta'', ''j1'', ''1700000000000'', ''tok''])]\<rparr>\<rparr>)"
  by (simp add: handler_phase_def heartbeat_interval_def safeLog_def quiet_opts_def or_default_def
        and_then_def startHeartbeater_def job1_def start_state_def not_active_heartbeat)
     (simp add: hb_deliver_def checkLost_def not_active_is_lost hb_stop_def)

theorem lost_lease_skips_ack_witness:
  "handler_phase quiet_opts (runtime_of (failing_with ''NOT_ACTIVE'')) ''demo'' job1 [Deliver] start_state
     = (Val \<lparr>stopped = True, lost = True, timer = None, done_resolved = True,
              interval_s = Fin 1, inflight = []\<rparr>,
        start_state\<lparr>world := \<lparr>ext = 1, trace = [Call (EVALSHA ''5f2a'' 1
                        [''{demo}:meta'', ''j1'', ''1700000000000'', ''tok''])]\<rparr>\<rparr>)
   \<and> only_adds (\<lambda>e. \<not> is_call e)
        (start_state\<lparr>world := \<lparr>ext = 1, trace = [Call (EVALSHA ''5f2a'' 1
                        [''{demo}:meta'', ''j1'', ''1700000000000'', ''tok''])]\<rparr>\<rparr>)
        (snd (process_job quiet_opts (runtime_of (failing_with ''NOT_ACTIVE'')) ''demo''
                (\<lambda>ctx. ([Deliver], None)) job1 start_state))
   \<and> lease_lost_message (JError ''Error'' ''HEARTBEAT failed: NOT_ACTIVE'')
   \<and> lost (hb_deliver \<lparr>stopped = False, lost = False, timer = None, done_resolved = False,
              interval_s = Fin 1,
              inflight = [(True, Inl (JError ''Error'' ''HEARTBEAT failed: NOT_ACTIVE''))]\<rparr>)"
proof -
  let ?h = "\<lparr>stopped = True, lost = True, timer = None, done_resolved = True,
              interval_s = Fin 1, inflight = []\<rparr>"
  let ?first = "\<lparr>stopped = False, lost = False, timer = None, done_resolved = False,
              interval_s = Fin 1,
              inflight = [(True, Inl (JError ''Error'' ''HEARTBEAT failed: NOT_ACTIVE''))]\<rparr>"
  have l: "lost ?h" by simp
  have c: "(\<lambda>ctx. ([Deliver], None)) (job_ctx ''demo'' job1) = ([Deliver], None :: jsval option)" by simp
  note t1 = lost_lease_skips_ack [where h = ?h and handler = "\<lambda>ctx. ([Deliver], None)" and queue = "''demo''"
      and job = job1 and turns = "[Deliver]" and result = None and opts = quiet_opts
      and rt = "runtime_of (failing_with ''NOT_ACTIVE'')" and s = start_state]
  note t2 = lost_lease_skips_ack [where h = ?first]
  have "only_adds (\<lambda>e. \<not> is_call e)
        (start_state\<lparr>world := \<lparr>ext = 1, trace = [Call (EVALSHA ''5f2a'' 1
                        [''{demo}:meta'', ''j1'', ''1700000000000'', ''tok''])]\<rparr>\<rparr>)
        (snd (process_job quiet_opts (runtime_of (failing_with ''NOT_ACTIVE'')) ''demo''
                (\<lambda>ctx. ([Deliver], None)) job1 start_state))"
    using t1 lost_phase l c by blast
  moreover have "lost (hb_deliver ?first)"
  proof -
    have "lost (hb_deliver ?first)
            = (lost ?first \<or> (\<exists>first e rest. inflight ?first = (first, Inl e) # rest
                                    \<and> lease_lost_message e))"
      by (rule t2 [THEN conjunct2, THEN conjunct2, THEN conjunct1])
    moreover have "\<exists>first e rest. inflight ?first = (first, Inl e) # rest \<and> lease_lost_message e"
      using not_active_is_lost by auto
    ultimately show ?thesis by blast
  qed
  ultimately show ?thesis using lost_phase not_active_is_lost by blast
qed

subsection \<open>C10: an error of the ack stays inside the iteration\<close>

lemma settle_no_throw: "fst (settle opts rt queue job result h s) \<noteq> Halt (Threw e)"
  using settle_props [of opts rt queue job result h s]
  by (cases "settle opts rt queue job result h s") auto

lemma settle_ack_success_error:
  assumes "signals s = []" and "\<not> stop (ctrl s)" and "\<not> lost h"
      and "ack_success rt queue (rj_job_id job) (rj_lease_token job) None (world s) = (Inl e, w1)"
  shows "fst (settle opts rt queue job None h s) = Val ()
       \<and> trace (world (snd (settle opts rt queue job None h s))) =
           trace w1 @ (if or_default False (verbose opts)
                       then [Log (LogAckSuccessError (rj_job_id job) (error_text e))] else [])
                    @ [Sleep (Fin 100)]"
  using assms
  by (simp add: settle_def ack_after_success_def await_op_quiet and_then_def sleep_def suspend_def
        safeLog_def emit_def)

lemma settle_ack_fail_error:
  assumes "signals s = []" and "\<not> stop (ctrl s)" and "\<not> lost h"
      and "ack_fail rt queue (rj_job_id job) (rj_lease_token job)
             (Some (String_of (coalesce (get_name x) (JStr ''Error'')) @ '': '' @ error_text x))
             None (world s) = (Inl e, w1)"
  shows "fst (settle opts rt queue job (Some x) h s) = Val ()
       \<and> trace (world (snd (settle opts rt queue job (Some x) h s))) =
           trace w1 @ (if or_default False (verbose opts)
                       then [Log (LogAckFailError (rj_job_id job) (error_text e))] else [])
                    @ [Sleep (Fin 100)]"
  using assms
  by (simp add: settle_def ack_after_failure_def await_op_quiet and_then_def sleep_def suspend_def
        safeLog_def emit_def)

lemma process_job_throw:
  assumes "fst (process_job opts rt queue handler job s) = Halt (Threw e)"
  shows "fst (handler_phase opts rt queue job (fst (handler (job_ctx queue job))) s) = Halt (Threw e)"
proof -
  obtain turns result where h: "handler (job_ctx queue job) = (turns, result)"
    by (cases "handler (job_ctx queue job)")
  obtain r1 s1 where p: "handler_phase opts rt queue job turns s = (r1, s1)"
    by (cases "handler_phase opts rt queue job turns s")
  show ?thesis
  proof (cases r1)
    case (Val hb)
    then have "process_job opts rt queue handler job s = settle opts rt queue job result hb s1"
      using h p by (simp add: process_job_def and_then_def)
    with assms settle_no_throw show ?thesis by metis
  next
    case (Halt out)
    then show ?thesis using assms h p by (simp add: process_job_def and_then_def)
  qed
qed

lemma suspend_halt: "suspend opts queue s = (Halt out, s') \<Longrightarrow> out = Exited 130"
  using suspend_adds [of opts queue s "Halt out" s'] by simp

lemma await_op_halt: "await_op opts queue op s = (Halt out, s') \<Longrightarrow> out = Exited 130"
  using await_op_adds [of opts queue op s "Halt out" s' "fst (op (world s))" "snd (op (world s))"]
  by simp

lemma await_op_val:
  "await_op opts queue op s = (Val x, s') \<Longrightarrow> x = fst (op (world s))"
  using await_op_adds [of opts queue op s "Val x" s' "fst (op (world s))" "snd (op (world s))"]
  by simp

lemma sleep_halt: "sleep opts queue ms s = (Halt out, s') \<Longrightarrow> out = Exited 130"
  using sleep_adds [of opts queue ms s "Halt out" s'] by simp

lemma on_signal_halt: "on_signal opts queue sg s = (Halt out, s') \<Longrightarrow> out = Exited 130"
  using on_signal_adds [of opts queue sg s "Halt out" s'] by simp

lemma housekeeping_halt:
  assumes "housekeeping opts rt queue now s = (Halt out, s')"
  shows "out = Exited 130"
  using assms
  by (auto simp: housekeeping_def and_then_def split: if_splits prod.splits res.splits
           dest: await_op_halt)

lemma run_turns_halt:
  "run_turns opts rt queue job ts h s = (Halt out, s') \<Longrightarrow> out = Exited 130"
proof (induction opts rt queue job ts h s rule: run_turns.induct)
  case (5 opts rt queue job sg ts h s)
  obtain r1 s1 where a: "on_signal opts queue sg s = (r1, s1)" by (cases "on_signal opts queue sg s")
  show ?case
  proof (cases r1)
    case (Val u)
    then show ?thesis using 5 a by (simp add: and_then_def)
  next
    case (Halt o1)
    then show ?thesis using 5(2) a on_signal_halt [of opts queue sg s o1 s1] by (simp add: and_then_def)
  qed
qed (auto split: prod.splits)

lemma heartbeat_interval_throw:
  assumes "heartbeat_interval opts rt queue job s = (Halt (Threw e), s')"
  shows "heartbeat_interval_s opts = None
         \<and> fst (job_timeout_ms rt queue (rj_job_id job) None (world s)) = Inl e"
proof (cases "heartbeat_interval_s opts")
  case None
  obtain r1 s1 where a: "await_op opts queue (job_timeout_ms rt queue (rj_job_id job) None) s = (r1, s1)"
    by (cases "await_op opts queue (job_timeout_ms rt queue (rj_job_id job) None) s")
  show ?thesis
  proof (cases r1)
    case (Val x)
    then have "x = Inl e"
      using assms None a by (auto simp: heartbeat_interval_def and_then_def split: sum.splits)
    with await_op_val [of opts queue _ s x s1] a Val None show ?thesis by simp
  next
    case (Halt out)
    then show ?thesis
      using assms None a await_op_halt [OF a [unfolded Halt]]
      by (simp add: heartbeat_interval_def and_then_def)
  qed
next
  case (Some n)
  then show ?thesis using assms by (simp add: heartbeat_interval_def)
qed

lemma handler_phase_throw:
  assumes "handler_phase opts rt queue job turns s = (Halt (Threw e), s')"
  shows "heartbeat_interval_s opts = None
         \<and> (\<exists>w. fst (job_timeout_ms rt queue (rj_job_id job) None w) = Inl e)"
proof -
  let ?s0 = "safeLog opts (LogReceived (rj_job_id job) (rj_attempt job)
                 (if rj_gid job \<noteq> [] then rj_gid job else ''-'') (rj_payload job)) s"
  obtain r1 s1 where a: "heartbeat_interval opts rt queue job ?s0 = (r1, s1)"
    by (cases "heartbeat_interval opts rt queue job ?s0")
  show ?thesis
  proof (cases r1)
    case (Val n)
    then have "\<exists>h s2. run_turns opts rt queue job turns h s2 = (Halt (Threw e), s')"
      using assms a by (auto simp: handler_phase_def and_then_def Let_def split: prod.splits)
    then show ?thesis using run_turns_halt by blast
  next
    case (Halt out)
    then have "heartbeat_interval opts rt queue job ?s0 = (Halt (Threw e), s')"
      using assms a by (simp add: handler_phase_def and_then_def Let_def)
    from heartbeat_interval_throw [OF this] show ?thesis by blast
  qed
qed

lemma iteration_cases:
  assumes "\<not> stop (ctrl s)"
      and "housekeeping opts rt queue (Fin (of_int (nowMs rt (ext (world s))))) s = (Val u, s1)"
      and "await_op opts queue (reserve rt queue None) s1 = (Val (Inr (Job job)), s2)"
      and "rj_lease_token job \<noteq> []"
      and "\<not> (stop (ctrl s2) \<and> \<not> or_default True (drain opts))"
  shows "iteration opts rt queue handler s = process_job opts rt queue handler job s2"
  using assms by (auto simp: iteration_def and_then_def Let_def)

lemma iteration_throw:
  assumes "iteration opts rt queue handler s = (Halt (Threw e), s')"
  shows "\<exists>job s2. fst (handler_phase opts rt queue job (fst (handler (job_ctx queue job))) s2)
                     = Halt (Threw e)"
proof -
  let ?now = "Fin (of_int (nowMs rt (ext (world s))))"
  have ns: "\<not> stop (ctrl s)" using assms by (auto simp: iteration_def Let_def)
  obtain r1 s1 where hk: "housekeeping opts rt queue ?now s = (r1, s1)"
    by (cases "housekeeping opts rt queue ?now s")
  obtain r2 s2 where rs: "await_op opts queue (reserve rt queue None) s1 = (r2, s2)"
    by (cases "await_op opts queue (reserve rt queue None) s1")
  have it: "iteration opts rt queue handler s =
      and_then (r1, s1) (\<lambda>u s1. and_then (await_op opts queue (reserve rt queue None) s1)
         (\<lambda>res s2. case res of
                  Inl e \<Rightarrow> sleep opts queue (Fin 200) (safeLog opts (LogReserveError (error_text e)) s2)
                | Inr Empty \<Rightarrow> sleep opts queue
                     (sleep_ms (or_default (to_double (5 / 100)) (poll_interval_s opts))) s2
                | Inr Paused \<Rightarrow> sleep opts queue
                     (sleep_ms (paused_backoff_s (or_default (to_double (5 / 100)) (poll_interval_s opts)))) s2
                | Inr (Job job) \<Rightarrow>
                    if rj_lease_token job = [] then
                      sleep opts queue (Fin 200) (safeLog opts (LogMissingToken (rj_job_id job)) s2)
                    else if stop (ctrl s2) \<and> \<not> or_default True (drain opts) then
                      (Halt Returned, safeLog opts (LogFastExit (rj_job_id job)) s2)
                    else process_job opts rt queue handler job s2))"
    by (simp only: iteration_def Let_def ns hk if_False)
  show ?thesis
  proof (cases r1)
    case (Halt out)
    then show ?thesis using assms it housekeeping_halt [OF hk [unfolded Halt]]
      by (simp add: and_then_def)
  next
    case v1: (Val u)
    show ?thesis
    proof (cases r2)
      case (Halt out)
      then show ?thesis using assms it v1 rs await_op_halt [OF rs [unfolded Halt]]
        by (simp add: and_then_def)
    next
      case v2: (Val res)
      have sl: "\<And>ms t. sleep opts queue ms t \<noteq> (Halt (Threw e), s')"
        using sleep_halt by fastforce
      have "\<exists>job. process_job opts rt queue handler job s2 = (Halt (Threw e), s')"
        using assms it v1 v2 rs sl
        by (auto simp: and_then_def split: sum.splits ReserveResult.splits if_splits)
      then obtain job where "fst (process_job opts rt queue handler job s2) = Halt (Threw e)"
        by (metis fst_conv)
      from process_job_throw [OF this] show ?thesis by blast
    qed
  qed
qed

lemma consume_loop_throw:
  "consume_loop n opts rt queue handler s = (Some (Threw e), s') \<Longrightarrow>
     \<exists>job s2. fst (handler_phase opts rt queue job (fst (handler (job_ctx queue job))) s2)
                 = Halt (Threw e)"
proof (induction n arbitrary: s)
  case 0
  then show ?case by simp
next
  case (Suc n)
  obtain r1 s1 where it: "iteration opts rt queue handler s = (r1, s1)"
    by (cases "iteration opts rt queue handler s")
  show ?case
  proof (cases r1)
    case (Val u)
    then have "consume_loop n opts rt queue handler s1 = (Some (Threw e), s')"
      using Suc.prems it by simp
    from Suc.IH [OF this] show ?thesis .
  next
    case (Halt out)
    then have "iteration opts rt queue handler s = (Halt (Threw e), s')"
      using Suc.prems it by simp
    from iteration_throw [OF this] show ?thesis .
  qed
qed

lemma consume_throw:
  assumes "fst (consume n opts rt queue handler sigs w) = Some (Threw e)"
  shows "heartbeat_interval_s opts = None
         \<and> (\<exists>job s2. fst (handler_phase opts rt queue job (fst (handler (job_ctx queue job))) s2)
                        = Halt (Threw e))
         \<and> (\<exists>(job :: ReserveJob) w1. fst (job_timeout_ms rt queue (rj_job_id job) None w1) = Inl e)"
proof -
  obtain s' where "consume n opts rt queue handler sigs w = (Some (Threw e), s')"
    using assms by (cases "consume n opts rt queue handler sigs w") simp
  then have "\<exists>job s2. fst (handler_phase opts rt queue job (fst (handler (job_ctx queue job))) s2)
                        = Halt (Threw e)"
    unfolding consume_def by (rule consume_loop_throw)
  then obtain job s2 where
    a: "fst (handler_phase opts rt queue job (fst (handler (job_ctx queue job))) s2) = Halt (Threw e)"
    by blast
  then obtain s3 where
    "handler_phase opts rt queue job (fst (handler (job_ctx queue job))) s2 = (Halt (Threw e), s3)"
    by (cases "handler_phase opts rt queue job (fst (handler (job_ctx queue job))) s2") simp
  from handler_phase_throw [OF this]
  have "heartbeat_interval_s opts = None"
    and "\<exists>(job :: ReserveJob) w1. fst (job_timeout_ms rt queue (rj_job_id job) None w1) = Inl e"
    by auto
  moreover have "\<exists>job s2. fst (handler_phase opts rt queue job (fst (handler (job_ctx queue job))) s2)
                        = Halt (Threw e)"
    using a by (intro exI)
  ultimately show ?thesis by simp
qed

lemma iteration_settles:
  assumes "\<not> stop (ctrl s)"
      and "housekeeping opts rt queue (Fin (of_int (nowMs rt (ext (world s))))) s = (Val (), s1)"
      and "await_op opts queue (reserve rt queue None) s1 = (Val (Inr (Job job)), s2)"
      and "rj_lease_token job \<noteq> []" and "\<not> stop (ctrl s2)"
      and "handler (job_ctx queue job) = (turns, result)"
      and "handler_phase opts rt queue job turns s2 = (Val h, s3)"
  shows "iteration opts rt queue handler s = settle opts rt queue job result h s3"
  using iteration_cases [of s opts rt queue "()" s1 job s2 handler] assms
  by (simp add: process_job_def and_then_def)

lemma consume_loop_next:
  "fst (iteration opts rt queue handler s) = Val () \<Longrightarrow>
     consume_loop (Suc n) opts rt queue handler s
       = consume_loop n opts rt queue handler (snd (iteration opts rt queue handler s))"
  by (cases "iteration opts rt queue handler s") simp

lemma iteration_ack_success_error:
  assumes "\<not> stop (ctrl s)"
      and "housekeeping opts rt queue (Fin (of_int (nowMs rt (ext (world s))))) s = (Val (), s1)"
      and "await_op opts queue (reserve rt queue None) s1 = (Val (Inr (Job job)), s2)"
      and "rj_lease_token job \<noteq> []" and "\<not> stop (ctrl s2)"
      and "handler (job_ctx queue job) = (turns, None)"
      and "handler_phase opts rt queue job turns s2 = (Val h, s3)"
      and "signals s3 = []" and "\<not> stop (ctrl s3)" and "\<not> lost h"
      and "ack_success rt queue (rj_job_id job) (rj_lease_token job) None (world s3) = (Inl e, w1)"
  shows "fst (iteration opts rt queue handler s) = Val ()
       \<and> trace (world (snd (iteration opts rt queue handler s))) =
           trace w1 @ (if or_default False (verbose opts)
                       then [Log (LogAckSuccessError (rj_job_id job) (error_text e))] else [])
                    @ [Sleep (Fin 100)]
       \<and> consume_loop (Suc n) opts rt queue handler s
           = consume_loop n opts rt queue handler (snd (iteration opts rt queue handler s))"
proof -
  note it = iteration_settles [where handler = handler, OF assms(1-7)]
  note st = settle_ack_success_error [OF assms(8-11), of opts]
  have "fst (iteration opts rt queue handler s) = Val ()" using st it by simp
  from consume_loop_next [OF this] st show ?thesis unfolding it by simp
qed

lemma iteration_ack_fail_error:
  assumes "\<not> stop (ctrl s)"
      and "housekeeping opts rt queue (Fin (of_int (nowMs rt (ext (world s))))) s = (Val (), s1)"
      and "await_op opts queue (reserve rt queue None) s1 = (Val (Inr (Job job)), s2)"
      and "rj_lease_token job \<noteq> []" and "\<not> stop (ctrl s2)"
      and "handler (job_ctx queue job) = (turns, Some x)"
      and "handler_phase opts rt queue job turns s2 = (Val h, s3)"
      and "signals s3 = []" and "\<not> stop (ctrl s3)" and "\<not> lost h"
      and "ack_fail rt queue (rj_job_id job) (rj_lease_token job)
             (Some (String_of (coalesce (get_name x) (JStr ''Error'')) @ '': '' @ error_text x))
             None (world s3) = (Inl e, w1)"
  shows "fst (iteration opts rt queue handler s) = Val ()
       \<and> trace (world (snd (iteration opts rt queue handler s))) =
           trace w1 @ (if or_default False (verbose opts)
                       then [Log (LogAckFailError (rj_job_id job) (error_text e))] else [])
                    @ [Sleep (Fin 100)]
       \<and> consume_loop (Suc n) opts rt queue handler s
           = consume_loop n opts rt queue handler (snd (iteration opts rt queue handler s))"
proof -
  note it = iteration_settles [where handler = handler, OF assms(1-7)]
  note st = settle_ack_fail_error [OF assms(8-11), of opts]
  have "fst (iteration opts rt queue handler s) = Val ()" using st it by simp
  from consume_loop_next [OF this] st show ?thesis unfolding it by simp
qed

text \<open>
  Claim C10. Nothing that \<open>ack_success\<close> or \<open>ack_fail\<close> throws leaves the iteration, and so
  nothing of it reaches the caller of \<open>consume\<close>. From the end of the handler on, the
  iteration never ends with a thrown exception: it goes on to the next iteration, or
  \<open>consume\<close> returns because a stop was requested with \<open>drain\<close>, or the process exits on the
  second interrupt. Lines are logged only when \<open>verbose\<close> is set. When the ack throws (no
  signal arriving, no stop requested), the iteration ends normally, having logged the
  error if \<open>verbose\<close> is set and nothing otherwise, and the loop runs its next iteration from
  the state the iteration left. An exception that ends the processing of a job was
  thrown before the handler finished. Whatever the store, the handler and the signals
  are, and however many iterations run, an exception that ends \<open>consume\<close> was thrown by
  \<open>job_timeout_ms\<close> while the heartbeat interval was derived, which happens only when
  \<open>heartbeat_interval_s\<close> is not given: it was not thrown by an ack.
\<close>

theorem ack_errors_stay_inside:
  "(\<forall>e. fst (settle opts rt queue job result h s) \<noteq> Halt (Threw e))
   \<and> (fst (settle opts rt queue job result h s) = Val ()
        \<or> fst (settle opts rt queue job result h s) = Halt (Exited 130)
        \<or> (fst (settle opts rt queue job result h s) = Halt Returned
            \<and> stop (ctrl (snd (settle opts rt queue job result h s))) \<and> or_default True (drain opts)))
   \<and> only_adds (\<lambda>e. is_log e \<longrightarrow> or_default False (verbose opts)) s
        (snd (settle opts rt queue job result h s))
   \<and> (\<forall>e w1. signals s = [] \<and> \<not> stop (ctrl s) \<and> \<not> lost h
        \<and> ack_success rt queue (rj_job_id job) (rj_lease_token job) None (world s) = (Inl e, w1) \<longrightarrow>
        fst (settle opts rt queue job None h s) = Val ()
        \<and> trace (world (snd (settle opts rt queue job None h s))) =
             trace w1 @ (if or_default False (verbose opts)
                         then [Log (LogAckSuccessError (rj_job_id job) (error_text e))] else [])
                      @ [Sleep (Fin 100)])
   \<and> (\<forall>x e w1. signals s = [] \<and> \<not> stop (ctrl s) \<and> \<not> lost h
        \<and> ack_fail rt queue (rj_job_id job) (rj_lease_token job)
             (Some (String_of (coalesce (get_name x) (JStr ''Error'')) @ '': '' @ error_text x))
             None (world s) = (Inl e, w1) \<longrightarrow>
        fst (settle opts rt queue job (Some x) h s) = Val ()
        \<and> trace (world (snd (settle opts rt queue job (Some x) h s))) =
             trace w1 @ (if or_default False (verbose opts)
                         then [Log (LogAckFailError (rj_job_id job) (error_text e))] else [])
                      @ [Sleep (Fin 100)])
   \<and> (\<forall>e. fst (process_job opts rt queue handler job s) = Halt (Threw e) \<longrightarrow>
        fst (handler_phase opts rt queue job (fst (handler (job_ctx queue job))) s) = Halt (Threw e))
   \<and> (\<forall>s1 s2 turns hb s3 e w1.
        \<not> stop (ctrl s)
        \<and> housekeeping opts rt queue (Fin (of_int (nowMs rt (ext (world s))))) s = (Val (), s1)
        \<and> await_op opts queue (reserve rt queue None) s1 = (Val (Inr (Job job)), s2)
        \<and> rj_lease_token job \<noteq> [] \<and> \<not> stop (ctrl s2)
        \<and> handler (job_ctx queue job) = (turns, None)
        \<and> handler_phase opts rt queue job turns s2 = (Val hb, s3)
        \<and> signals s3 = [] \<and> \<not> stop (ctrl s3) \<and> \<not> lost hb
        \<and> ack_success rt queue (rj_job_id job) (rj_lease_token job) None (world s3) = (Inl e, w1) \<longrightarrow>
        fst (iteration opts rt queue handler s) = Val ()
        \<and> trace (world (snd (iteration opts rt queue handler s))) =
             trace w1 @ (if or_default False (verbose opts)
                         then [Log (LogAckSuccessError (rj_job_id job) (error_text e))] else [])
                      @ [Sleep (Fin 100)]
        \<and> consume_loop (Suc n) opts rt queue handler s
             = consume_loop n opts rt queue handler (snd (iteration opts rt queue handler s)))
   \<and> (\<forall>s1 s2 turns x hb s3 e w1.
        \<not> stop (ctrl s)
        \<and> housekeeping opts rt queue (Fin (of_int (nowMs rt (ext (world s))))) s = (Val (), s1)
        \<and> await_op opts queue (reserve rt queue None) s1 = (Val (Inr (Job job)), s2)
        \<and> rj_lease_token job \<noteq> [] \<and> \<not> stop (ctrl s2)
        \<and> handler (job_ctx queue job) = (turns, Some x)
        \<and> handler_phase opts rt queue job turns s2 = (Val hb, s3)
        \<and> signals s3 = [] \<and> \<not> stop (ctrl s3) \<and> \<not> lost hb
        \<and> ack_fail rt queue (rj_job_id job) (rj_lease_token job)
             (Some (String_of (coalesce (get_name x) (JStr ''Error'')) @ '': '' @ error_text x))
             None (world s3) = (Inl e, w1) \<longrightarrow>
        fst (iteration opts rt queue handler s) = Val ()
        \<and> trace (world (snd (iteration opts rt queue handler s))) =
             trace w1 @ (if or_default False (verbose opts)
                         then [Log (LogAckFailError (rj_job_id job) (error_text e))] else [])
                      @ [Sleep (Fin 100)]
        \<and> consume_loop (Suc n) opts rt queue handler s
             = consume_loop n opts rt queue handler (snd (iteration opts rt queue handler s)))
   \<and> (\<forall>m sigs w e. fst (consume m opts rt queue handler sigs w) = Some (Threw e) \<longrightarrow>
        heartbeat_interval_s opts = None
        \<and> (\<exists>j s2. fst (handler_phase opts rt queue j (fst (handler (job_ctx queue j))) s2)
                     = Halt (Threw e))
        \<and> (\<exists>(j :: ReserveJob) w1. fst (job_timeout_ms rt queue (rj_job_id j) None w1) = Inl e))"
proof -
  obtain r s' where st: "settle opts rt queue job result h s = (r, s')"
    by (cases "settle opts rt queue job result h s")
  note p = settle_props [OF st]
  have 1: "\<forall>e. fst (settle opts rt queue job result h s) \<noteq> Halt (Threw e)"
    using settle_no_throw by blast
  have 2: "fst (settle opts rt queue job result h s) = Val ()
        \<or> fst (settle opts rt queue job result h s) = Halt (Exited 130)
        \<or> (fst (settle opts rt queue job result h s) = Halt Returned
            \<and> stop (ctrl (snd (settle opts rt queue job result h s))) \<and> or_default True (drain opts))"
    using p unfolding st by auto
  have 3: "only_adds (\<lambda>e. is_log e \<longrightarrow> or_default False (verbose opts)) s
        (snd (settle opts rt queue job result h s))"
    using p unfolding st by simp
  have 4: "\<forall>e w1. signals s = [] \<and> \<not> stop (ctrl s) \<and> \<not> lost h
        \<and> ack_success rt queue (rj_job_id job) (rj_lease_token job) None (world s) = (Inl e, w1) \<longrightarrow>
        fst (settle opts rt queue job None h s) = Val ()
        \<and> trace (world (snd (settle opts rt queue job None h s))) =
             trace w1 @ (if or_default False (verbose opts)
                         then [Log (LogAckSuccessError (rj_job_id job) (error_text e))] else [])
                      @ [Sleep (Fin 100)]"
    using settle_ack_success_error [of s h rt queue job _ _ opts] by blast
  have 5: "\<forall>x e w1. signals s = [] \<and> \<not> stop (ctrl s) \<and> \<not> lost h
        \<and> ack_fail rt queue (rj_job_id job) (rj_lease_token job)
             (Some (String_of (coalesce (get_name x) (JStr ''Error'')) @ '': '' @ error_text x))
             None (world s) = (Inl e, w1) \<longrightarrow>
        fst (settle opts rt queue job (Some x) h s) = Val ()
        \<and> trace (world (snd (settle opts rt queue job (Some x) h s))) =
             trace w1 @ (if or_default False (verbose opts)
                         then [Log (LogAckFailError (rj_job_id job) (error_text e))] else [])
                      @ [Sleep (Fin 100)]"
    using settle_ack_fail_error [of s h rt queue job _ _ _ opts] by blast
  have 6: "\<forall>e. fst (process_job opts rt queue handler job s) = Halt (Threw e) \<longrightarrow>
        fst (handler_phase opts rt queue job (fst (handler (job_ctx queue job))) s) = Halt (Threw e)"
    using process_job_throw [of opts rt queue handler job s] by blast
  have 7: "\<forall>s1 s2 turns hb s3 e w1.
        \<not> stop (ctrl s)
        \<and> housekeeping opts rt queue (Fin (of_int (nowMs rt (ext (world s))))) s = (Val (), s1)
        \<and> await_op opts queue (reserve rt queue None) s1 = (Val (Inr (Job job)), s2)
        \<and> rj_lease_token job \<noteq> [] \<and> \<not> stop (ctrl s2)
        \<and> handler (job_ctx queue job) = (turns, None)
        \<and> handler_phase opts rt queue job turns s2 = (Val hb, s3)
        \<and> signals s3 = [] \<and> \<not> stop (ctrl s3) \<and> \<not> lost hb
        \<and> ack_success rt queue (rj_job_id job) (rj_lease_token job) None (world s3) = (Inl e, w1) \<longrightarrow>
        fst (iteration opts rt queue handler s) = Val ()
        \<and> trace (world (snd (iteration opts rt queue handler s))) =
             trace w1 @ (if or_default False (verbose opts)
                         then [Log (LogAckSuccessError (rj_job_id job) (error_text e))] else [])
                      @ [Sleep (Fin 100)]
        \<and> consume_loop (Suc n) opts rt queue handler s
             = consume_loop n opts rt queue handler (snd (iteration opts rt queue handler s))"
    by (intro allI impI, elim conjE, rule iteration_ack_success_error)
  have 8: "\<forall>s1 s2 turns x hb s3 e w1.
        \<not> stop (ctrl s)
        \<and> housekeeping opts rt queue (Fin (of_int (nowMs rt (ext (world s))))) s = (Val (), s1)
        \<and> await_op opts queue (reserve rt queue None) s1 = (Val (Inr (Job job)), s2)
        \<and> rj_lease_token job \<noteq> [] \<and> \<not> stop (ctrl s2)
        \<and> handler (job_ctx queue job) = (turns, Some x)
        \<and> handler_phase opts rt queue job turns s2 = (Val hb, s3)
        \<and> signals s3 = [] \<and> \<not> stop (ctrl s3) \<and> \<not> lost hb
        \<and> ack_fail rt queue (rj_job_id job) (rj_lease_token job)
             (Some (String_of (coalesce (get_name x) (JStr ''Error'')) @ '': '' @ error_text x))
             None (world s3) = (Inl e, w1) \<longrightarrow>
        fst (iteration opts rt queue handler s) = Val ()
        \<and> trace (world (snd (iteration opts rt queue handler s))) =
             trace w1 @ (if or_default False (verbose opts)
                         then [Log (LogAckFailError (rj_job_id job) (error_text e))] else [])
                      @ [Sleep (Fin 100)]
        \<and> consume_loop (Suc n) opts rt queue handler s
             = consume_loop n opts rt queue handler (snd (iteration opts rt queue handler s))"
    by (intro allI impI, elim conjE, rule iteration_ack_fail_error)
  have 9: "\<forall>m sigs w e. fst (consume m opts rt queue handler sigs w) = Some (Threw e) \<longrightarrow>
        heartbeat_interval_s opts = None
        \<and> (\<exists>j s2. fst (handler_phase opts rt queue j (fst (handler (job_ctx queue j))) s2)
                     = Halt (Threw e))
        \<and> (\<exists>(j :: ReserveJob) w1. fst (job_timeout_ms rt queue (rj_job_id j) None w1) = Inl e)"
    by (intro allI impI, rule consume_throw)
  from 1 2 3 4 5 6 7 8 9 show ?thesis by (intro conjI)
qed

lemma down_ack_success:
  "ack_success (runtime_of down) ''demo'' (rj_job_id job1) (rj_lease_token job1) None (world start_state)
     = (Inl (JError ''Error'' ''connect ECONNREFUSED''),
        \<lparr>ext = 1, trace = [Call (EVALSHA ''5f2a'' 1 [''{demo}:meta'', ''j1'', ''1700000000000'', ''tok''])]\<rparr>)"
  by code_simp

lemma down_ack_fail:
  "ack_fail (runtime_of down) ''demo'' (rj_job_id job1) (rj_lease_token job1)
     (Some (String_of (coalesce (get_name (JError ''Error'' ''boom'')) (JStr ''Error'')) @ '': ''
              @ error_text (JError ''Error'' ''boom'')))
     None (world start_state)
     = (Inl (JError ''Error'' ''connect ECONNREFUSED''),
        \<lparr>ext = 1, trace = [Call (EVALSHA ''5f2a'' 1
               [''{demo}:meta'', ''j1'', ''1700000000000'', ''tok'', ''Error: boom''])]\<rparr>)"
  by code_simp

lemma down_error_text:
  "error_text (JError ''Error'' ''connect ECONNREFUSED'') = ''connect ECONNREFUSED''"
  "error_text (JError ''Error'' ''ACK_FAIL failed: BAD_STATE'') = ''ACK_FAIL failed: BAD_STATE''"
  by code_simp+

lemma down_process_job:
  "fst (process_job derived_opts (runtime_of down) ''demo'' returns_at_once job1 start_state)
     = Halt (Threw (JError ''Error'' ''connect ECONNREFUSED''))"
  by code_simp

lemma first_iteration:
  "housekeeping loud_opts (one_job_then later) ''demo''
     (Fin (of_int (nowMs (one_job_then later) (ext (world start_state))))) start_state
     = (Val (), after_housekeeping)"
  "await_op loud_opts ''demo'' (reserve (one_job_then later) ''demo'' None) after_housekeeping
     = (Val (Inr (Job job1)), after_reserve)"
  "handler_phase loud_opts (one_job_then later) ''demo'' job1 [Deliver] after_reserve
     = (Val armed, after_handler)"
  by code_simp+

lemma first_iteration_flags:
  "\<not> stop (ctrl start_state)" "rj_lease_token job1 \<noteq> []" "\<not> stop (ctrl after_reserve)"
  "signals after_handler = []" "\<not> stop (ctrl after_handler)" "\<not> lost armed"
  by code_simp+

lemma refused_ack_success:
  "ack_success (one_job_then refused) ''demo'' (rj_job_id job1) (rj_lease_token job1) None
     (world after_handler)
     = (Inl (JError ''Error'' ''connect ECONNREFUSED''),
        \<lparr>ext = 5, trace = trace (world after_handler) @
           [Call (EVALSHA ''5f2a'' 1 [''{demo}:meta'', ''j1'', ''1700000000000'', ''tok''])]\<rparr>)"
  by code_simp

lemma bad_state_ack_fail:
  "ack_fail (one_job_then bad_state) ''demo'' (rj_job_id job1) (rj_lease_token job1)
     (Some (String_of (coalesce (get_name (JError ''Error'' ''boom'')) (JStr ''Error'')) @ '': ''
              @ error_text (JError ''Error'' ''boom'')))
     None (world after_handler)
     = (Inl (JError ''Error'' ''ACK_FAIL failed: BAD_STATE''),
        \<lparr>ext = 5, trace = trace (world after_handler) @
           [Call (EVALSHA ''5f2a'' 1
                    [''{demo}:meta'', ''j1'', ''1700000000000'', ''tok'', ''Error: boom''])]\<rparr>)"
  by code_simp

lemma after_handler_trace:
  "trace (world after_handler) =
     [Call (EVALSHA ''5f2a'' 1 [''{demo}:meta'', ''1700000000000'', ''1000'']),
      Call (EVALSHA ''5f2a'' 1 [''{demo}:meta'', ''1700000000000'', ''1000'']),
      Call (EVALSHA ''5f2a'' 1 [''{demo}:meta'', ''1700000000000'']),
      Log (LogReceived ''j1'' 1 ''-'' ''{}''),
      Call (EVALSHA ''5f2a'' 1 [''{demo}:meta'', ''j1'', ''1700000000000'', ''tok''])]"
  by (simp add: after_handler_def after_reserve_def after_housekeeping_def)

lemma second_iteration:
  "fst (consume 2 loud_opts (one_job_then refused) ''demo'' returns_after_heartbeat [] w0) = None"
  "trace (world (snd (consume 2 loud_opts (one_job_then refused) ''demo'' returns_after_heartbeat [] w0)))
     = [Call (EVALSHA ''5f2a'' 1 [''{demo}:meta'', ''1700000000000'', ''1000'']),
        Call (EVALSHA ''5f2a'' 1 [''{demo}:meta'', ''1700000000000'', ''1000'']),
        Call (EVALSHA ''5f2a'' 1 [''{demo}:meta'', ''1700000000000'']),
        Log (LogReceived ''j1'' 1 ''-'' ''{}''),
        Call (EVALSHA ''5f2a'' 1 [''{demo}:meta'', ''j1'', ''1700000000000'', ''tok'']),
        Call (EVALSHA ''5f2a'' 1 [''{demo}:meta'', ''j1'', ''1700000000000'', ''tok'']),
        Log (LogAckSuccessError ''j1'' ''connect ECONNREFUSED''),
        Sleep (Fin 100),
        Call (EVALSHA ''5f2a'' 1 [''{demo}:meta'', ''1700000000000'']),
        Log (LogReserveError ''connect ECONNREFUSED''),
        Sleep (Fin 200)]"
  "fst (consume 2 loud_opts (one_job_then bad_state) ''demo'' throws_after_heartbeat [] w0) = None"
  by code_simp+

lemma job_then_down_throws:
  "fst (consume 1 derived_opts job_then_down ''demo'' returns_at_once [] w0)
     = Some (Threw (JError ''Error'' ''connect ECONNREFUSED''))"
  by code_simp

theorem ack_errors_stay_inside_witness:
  "signals start_state = [] \<and> \<not> stop (ctrl start_state) \<and> \<not> lost armed
   \<and> ack_success (runtime_of down) ''demo'' (rj_job_id job1) (rj_lease_token job1) None (world start_state)
       = (Inl (JError ''Error'' ''connect ECONNREFUSED''),
          \<lparr>ext = 1, trace = [Call (EVALSHA ''5f2a'' 1 [''{demo}:meta'', ''j1'', ''1700000000000'', ''tok''])]\<rparr>)
   \<and> fst (settle loud_opts (runtime_of down) ''demo'' job1 None armed start_state) = Val ()
   \<and> trace (world (snd (settle loud_opts (runtime_of down) ''demo'' job1 None armed start_state)))
       = [Call (EVALSHA ''5f2a'' 1 [''{demo}:meta'', ''j1'', ''1700000000000'', ''tok'']),
          Log (LogAckSuccessError ''j1'' ''connect ECONNREFUSED''),
          Sleep (Fin 100)]
   \<and> trace (world (snd (settle quiet_opts (runtime_of down) ''demo'' job1 None armed start_state)))
       = [Call (EVALSHA ''5f2a'' 1 [''{demo}:meta'', ''j1'', ''1700000000000'', ''tok'']),
          Sleep (Fin 100)]
   \<and> fst (settle loud_opts (runtime_of down) ''demo'' job1 (Some (JError ''Error'' ''boom'')) armed start_state)
       = Val ()
   \<and> trace (world (snd (settle loud_opts (runtime_of down) ''demo'' job1 (Some (JError ''Error'' ''boom''))
                            armed start_state)))
       = [Call (EVALSHA ''5f2a'' 1 [''{demo}:meta'', ''j1'', ''1700000000000'', ''tok'', ''Error: boom'']),
          Log (LogAckFailError ''j1'' ''connect ECONNREFUSED''),
          Sleep (Fin 100)]
   \<and> fst (process_job derived_opts (runtime_of down) ''demo'' returns_at_once job1 start_state)
       = Halt (Threw (JError ''Error'' ''connect ECONNREFUSED''))
   \<and> fst (handler_phase derived_opts (runtime_of down) ''demo'' job1 [] start_state)
       = Halt (Threw (JError ''Error'' ''connect ECONNREFUSED''))
   \<and> await_op loud_opts ''demo'' (reserve (one_job_then refused) ''demo'' None) after_housekeeping
       = (Val (Inr (Job job1)), after_reserve)
   \<and> handler_phase loud_opts (one_job_then refused) ''demo'' job1 [Deliver] after_reserve
       = (Val armed, after_handler)
   \<and> fst (ack_success (one_job_then refused) ''demo'' (rj_job_id job1) (rj_lease_token job1) None
             (world after_handler))
       = Inl (JError ''Error'' ''connect ECONNREFUSED'')
   \<and> fst (iteration loud_opts (one_job_then refused) ''demo'' returns_after_heartbeat start_state) = Val ()
   \<and> trace (world (snd (iteration loud_opts (one_job_then refused) ''demo'' returns_after_heartbeat
                            start_state)))
       = [Call (EVALSHA ''5f2a'' 1 [''{demo}:meta'', ''1700000000000'', ''1000'']),
          Call (EVALSHA ''5f2a'' 1 [''{demo}:meta'', ''1700000000000'', ''1000'']),
          Call (EVALSHA ''5f2a'' 1 [''{demo}:meta'', ''1700000000000'']),
          Log (LogReceived ''j1'' 1 ''-'' ''{}''),
          Call (EVALSHA ''5f2a'' 1 [''{demo}:meta'', ''j1'', ''1700000000000'', ''tok'']),
          Call (EVALSHA ''5f2a'' 1 [''{demo}:meta'', ''j1'', ''1700000000000'', ''tok'']),
          Log (LogAckSuccessError ''j1'' ''connect ECONNREFUSED''),
          Sleep (Fin 100)]
   \<and> consume 2 loud_opts (one_job_then refused) ''demo'' returns_after_heartbeat [] w0
       = consume_loop 1 loud_opts (one_job_then refused) ''demo'' returns_after_heartbeat
           (snd (iteration loud_opts (one_job_then refused) ''demo'' returns_after_heartbeat start_state))
   \<and> fst (consume 2 loud_opts (one_job_then refused) ''demo'' returns_after_heartbeat [] w0) = None
   \<and> trace (world (snd (consume 2 loud_opts (one_job_then refused) ''demo'' returns_after_heartbeat [] w0)))
       = [Call (EVALSHA ''5f2a'' 1 [''{demo}:meta'', ''1700000000000'', ''1000'']),
          Call (EVALSHA ''5f2a'' 1 [''{demo}:meta'', ''1700000000000'', ''1000'']),
          Call (EVALSHA ''5f2a'' 1 [''{demo}:meta'', ''1700000000000'']),
          Log (LogReceived ''j1'' 1 ''-'' ''{}''),
          Call (EVALSHA ''5f2a'' 1 [''{demo}:meta'', ''j1'', ''1700000000000'', ''tok'']),
          Call (EVALSHA ''5f2a'' 1 [''{demo}:meta'', ''j1'', ''1700000000000'', ''tok'']),
          Log (LogAckSuccessError ''j1'' ''connect ECONNREFUSED''),
          Sleep (Fin 100),
          Call (EVALSHA ''5f2a'' 1 [''{demo}:meta'', ''1700000000000'']),
          Log (LogReserveError ''connect ECONNREFUSED''),
          Sleep (Fin 200)]
   \<and> fst (ack_fail (one_job_then bad_state) ''demo'' (rj_job_id job1) (rj_lease_token job1)
             (Some ''Error: boom'') None (world after_handler))
       = Inl (JError ''Error'' ''ACK_FAIL failed: BAD_STATE'')
   \<and> fst (iteration loud_opts (one_job_then bad_state) ''demo'' throws_after_heartbeat start_state) = Val ()
   \<and> trace (world (snd (iteration loud_opts (one_job_then bad_state) ''demo'' throws_after_heartbeat
                            start_state)))
       = [Call (EVALSHA ''5f2a'' 1 [''{demo}:meta'', ''1700000000000'', ''1000'']),
          Call (EVALSHA ''5f2a'' 1 [''{demo}:meta'', ''1700000000000'', ''1000'']),
          Call (EVALSHA ''5f2a'' 1 [''{demo}:meta'', ''1700000000000'']),
          Log (LogReceived ''j1'' 1 ''-'' ''{}''),
          Call (EVALSHA ''5f2a'' 1 [''{demo}:meta'', ''j1'', ''1700000000000'', ''tok'']),
          Call (EVALSHA ''5f2a'' 1 [''{demo}:meta'', ''j1'', ''1700000000000'', ''tok'', ''Error: boom'']),
          Log (LogAckFailError ''j1'' ''ACK_FAIL failed: BAD_STATE''),
          Sleep (Fin 100)]
   \<and> fst (consume 2 loud_opts (one_job_then bad_state) ''demo'' throws_after_heartbeat [] w0) = None
   \<and> fst (consume 1 derived_opts job_then_down ''demo'' returns_at_once [] w0)
       = Some (Threw (JError ''Error'' ''connect ECONNREFUSED''))
   \<and> heartbeat_interval_s derived_opts = None
   \<and> (\<exists>(j :: ReserveJob) w1. fst (job_timeout_ms job_then_down ''demo'' (rj_job_id j) None w1)
                                = Inl (JError ''Error'' ''connect ECONNREFUSED''))
   \<and> (\<forall>m sigs w e. fst (consume m loud_opts (one_job_then refused) ''demo'' returns_after_heartbeat sigs w)
                      \<noteq> Some (Threw e))"
proof -
  note loud = ack_errors_stay_inside [where opts = loud_opts and rt = "runtime_of down" and queue = "''demo''"
      and job = job1 and h = armed and s = start_state]
  note quiet = ack_errors_stay_inside [where opts = quiet_opts and rt = "runtime_of down" and queue = "''demo''"
      and job = job1 and h = armed and s = start_state]
  note derived = ack_errors_stay_inside [where opts = derived_opts and rt = "runtime_of down"
      and queue = "''demo''" and job = job1 and s = start_state and handler = returns_at_once]
  note returned = ack_errors_stay_inside [where opts = loud_opts and rt = "one_job_then refused"
      and queue = "''demo''" and job = job1 and s = start_state and handler = returns_after_heartbeat
      and n = 1]
  note threw = ack_errors_stay_inside [where opts = loud_opts and rt = "one_job_then bad_state"
      and queue = "''demo''" and job = job1 and s = start_state and handler = throws_after_heartbeat
      and n = 1]
  note lost_store = ack_errors_stay_inside [where opts = derived_opts and rt = job_then_down
      and queue = "''demo''" and handler = returns_at_once]
  have a: "signals start_state = []" "\<not> stop (ctrl start_state)" "\<not> lost armed"
    by (simp_all add: start_state_def armed_def)
  have j: "rj_job_id job1 = ''j1''" by (simp add: job1_def)
  have v: "or_default False (verbose loud_opts)" "\<not> or_default False (verbose quiet_opts)"
    by (simp_all add: loud_opts_def quiet_opts_def or_default_def)
  have msg: "String_of (coalesce (get_name (JError ''Error'' ''boom'')) (JStr ''Error'')) @ '': ''
              @ error_text (JError ''Error'' ''boom'') = ''Error: boom''"
    by code_simp
  have s1: "fst (settle loud_opts (runtime_of down) ''demo'' job1 None armed start_state) = Val ()
      \<and> trace (world (snd (settle loud_opts (runtime_of down) ''demo'' job1 None armed start_state)))
       = [Call (EVALSHA ''5f2a'' 1 [''{demo}:meta'', ''j1'', ''1700000000000'', ''tok'']),
          Log (LogAckSuccessError ''j1'' ''connect ECONNREFUSED''),
          Sleep (Fin 100)]"
    using loud [THEN conjunct2, THEN conjunct2, THEN conjunct2, THEN conjunct1, rule_format,
                OF conjI [OF a(1) conjI [OF a(2) conjI [OF a(3) down_ack_success]]]]
    by (simp add: v j down_error_text)
  have s2: "trace (world (snd (settle quiet_opts (runtime_of down) ''demo'' job1 None armed start_state)))
       = [Call (EVALSHA ''5f2a'' 1 [''{demo}:meta'', ''j1'', ''1700000000000'', ''tok'']),
          Sleep (Fin 100)]"
    using quiet [THEN conjunct2, THEN conjunct2, THEN conjunct2, THEN conjunct1, rule_format,
                OF conjI [OF a(1) conjI [OF a(2) conjI [OF a(3) down_ack_success]]]]
    by (simp add: v)
  have s3: "fst (settle loud_opts (runtime_of down) ''demo'' job1 (Some (JError ''Error'' ''boom'')) armed
                   start_state) = Val ()
      \<and> trace (world (snd (settle loud_opts (runtime_of down) ''demo'' job1 (Some (JError ''Error'' ''boom''))
                            armed start_state)))
       = [Call (EVALSHA ''5f2a'' 1 [''{demo}:meta'', ''j1'', ''1700000000000'', ''tok'', ''Error: boom'']),
          Log (LogAckFailError ''j1'' ''connect ECONNREFUSED''),
          Sleep (Fin 100)]"
    using loud [THEN conjunct2, THEN conjunct2, THEN conjunct2, THEN conjunct2, THEN conjunct1, rule_format,
                OF conjI [OF a(1) conjI [OF a(2) conjI [OF a(3) down_ack_fail]]]]
    by (simp add: v j down_error_text)
  have s4: "fst (handler_phase derived_opts (runtime_of down) ''demo'' job1 [] start_state)
       = Halt (Threw (JError ''Error'' ''connect ECONNREFUSED''))"
    using derived [THEN conjunct2, THEN conjunct2, THEN conjunct2, THEN conjunct2, THEN conjunct2,
                   THEN conjunct1, rule_format, OF down_process_job]
    by (simp add: returns_at_once_def)
  note f = first_iteration [of refused]
  have h1: "\<not> stop (ctrl start_state)
        \<and> housekeeping loud_opts (one_job_then refused) ''demo''
            (Fin (of_int (nowMs (one_job_then refused) (ext (world start_state))))) start_state
            = (Val (), after_housekeeping)
        \<and> await_op loud_opts ''demo'' (reserve (one_job_then refused) ''demo'' None) after_housekeeping
            = (Val (Inr (Job job1)), after_reserve)
        \<and> rj_lease_token job1 \<noteq> [] \<and> \<not> stop (ctrl after_reserve)
        \<and> returns_after_heartbeat (job_ctx ''demo'' job1) = ([Deliver], None)
        \<and> handler_phase loud_opts (one_job_then refused) ''demo'' job1 [Deliver] after_reserve
            = (Val armed, after_handler)
        \<and> signals after_handler = [] \<and> \<not> stop (ctrl after_handler) \<and> \<not> lost armed
        \<and> ack_success (one_job_then refused) ''demo'' (rj_job_id job1) (rj_lease_token job1) None
             (world after_handler)
            = (Inl (JError ''Error'' ''connect ECONNREFUSED''),
               \<lparr>ext = 5, trace = trace (world after_handler) @
                 [Call (EVALSHA ''5f2a'' 1 [''{demo}:meta'', ''j1'', ''1700000000000'', ''tok''])]\<rparr>)"
    using f first_iteration_flags refused_ack_success by (simp add: returns_after_heartbeat_def)
  note s5 = returned [THEN conjunct2, THEN conjunct2, THEN conjunct2, THEN conjunct2, THEN conjunct2,
                      THEN conjunct2, THEN conjunct1, rule_format, OF h1]
  have s6: "fst (iteration loud_opts (one_job_then refused) ''demo'' returns_after_heartbeat start_state) = Val ()"
    "trace (world (snd (iteration loud_opts (one_job_then refused) ''demo'' returns_after_heartbeat
                            start_state)))
       = [Call (EVALSHA ''5f2a'' 1 [''{demo}:meta'', ''1700000000000'', ''1000'']),
          Call (EVALSHA ''5f2a'' 1 [''{demo}:meta'', ''1700000000000'', ''1000'']),
          Call (EVALSHA ''5f2a'' 1 [''{demo}:meta'', ''1700000000000'']),
          Log (LogReceived ''j1'' 1 ''-'' ''{}''),
          Call (EVALSHA ''5f2a'' 1 [''{demo}:meta'', ''j1'', ''1700000000000'', ''tok'']),
          Call (EVALSHA ''5f2a'' 1 [''{demo}:meta'', ''j1'', ''1700000000000'', ''tok'']),
          Log (LogAckSuccessError ''j1'' ''connect ECONNREFUSED''),
          Sleep (Fin 100)]"
    "consume 2 loud_opts (one_job_then refused) ''demo'' returns_after_heartbeat [] w0
       = consume_loop 1 loud_opts (one_job_then refused) ''demo'' returns_after_heartbeat
           (snd (iteration loud_opts (one_job_then refused) ''demo'' returns_after_heartbeat start_state))"
    using s5 by (simp_all add: v j down_error_text after_handler_trace consume_def start_state_def
                   numeral_2_eq_2)
  note g = first_iteration [of bad_state]
  have h2: "\<not> stop (ctrl start_state)
        \<and> housekeeping loud_opts (one_job_then bad_state) ''demo''
            (Fin (of_int (nowMs (one_job_then bad_state) (ext (world start_state))))) start_state
            = (Val (), after_housekeeping)
        \<and> await_op loud_opts ''demo'' (reserve (one_job_then bad_state) ''demo'' None) after_housekeeping
            = (Val (Inr (Job job1)), after_reserve)
        \<and> rj_lease_token job1 \<noteq> [] \<and> \<not> stop (ctrl after_reserve)
        \<and> throws_after_heartbeat (job_ctx ''demo'' job1) = ([Deliver], Some (JError ''Error'' ''boom''))
        \<and> handler_phase loud_opts (one_job_then bad_state) ''demo'' job1 [Deliver] after_reserve
            = (Val armed, after_handler)
        \<and> signals after_handler = [] \<and> \<not> stop (ctrl after_handler) \<and> \<not> lost armed
        \<and> ack_fail (one_job_then bad_state) ''demo'' (rj_job_id job1) (rj_lease_token job1)
             (Some (String_of (coalesce (get_name (JError ''Error'' ''boom'')) (JStr ''Error'')) @ '': ''
                      @ error_text (JError ''Error'' ''boom'')))
             None (world after_handler)
            = (Inl (JError ''Error'' ''ACK_FAIL failed: BAD_STATE''),
               \<lparr>ext = 5, trace = trace (world after_handler) @
                 [Call (EVALSHA ''5f2a'' 1
                          [''{demo}:meta'', ''j1'', ''1700000000000'', ''tok'', ''Error: boom''])]\<rparr>)"
    using g first_iteration_flags bad_state_ack_fail by (simp add: throws_after_heartbeat_def)
  note s7 = threw [THEN conjunct2, THEN conjunct2, THEN conjunct2, THEN conjunct2, THEN conjunct2,
                   THEN conjunct2, THEN conjunct2, THEN conjunct1, rule_format, OF h2]
  have s8: "fst (iteration loud_opts (one_job_then bad_state) ''demo'' throws_after_heartbeat start_state) = Val ()"
    "trace (world (snd (iteration loud_opts (one_job_then bad_state) ''demo'' throws_after_heartbeat
                            start_state)))
       = [Call (EVALSHA ''5f2a'' 1 [''{demo}:meta'', ''1700000000000'', ''1000'']),
          Call (EVALSHA ''5f2a'' 1 [''{demo}:meta'', ''1700000000000'', ''1000'']),
          Call (EVALSHA ''5f2a'' 1 [''{demo}:meta'', ''1700000000000'']),
          Log (LogReceived ''j1'' 1 ''-'' ''{}''),
          Call (EVALSHA ''5f2a'' 1 [''{demo}:meta'', ''j1'', ''1700000000000'', ''tok'']),
          Call (EVALSHA ''5f2a'' 1 [''{demo}:meta'', ''j1'', ''1700000000000'', ''tok'', ''Error: boom'']),
          Log (LogAckFailError ''j1'' ''ACK_FAIL failed: BAD_STATE''),
          Sleep (Fin 100)]"
    using s7 by (simp_all add: v j down_error_text after_handler_trace)
  have s9: "fst (ack_fail (one_job_then bad_state) ''demo'' (rj_job_id job1) (rj_lease_token job1)
             (Some ''Error: boom'') None (world after_handler))
       = Inl (JError ''Error'' ''ACK_FAIL failed: BAD_STATE'')"
    using bad_state_ack_fail unfolding msg by simp
  note s10 = lost_store [THEN conjunct2, THEN conjunct2, THEN conjunct2, THEN conjunct2, THEN conjunct2,
                         THEN conjunct2, THEN conjunct2, THEN conjunct2, rule_format,
                         OF job_then_down_throws]
  have s11: "heartbeat_interval_s derived_opts = None"
    "\<exists>(j :: ReserveJob) w1. fst (job_timeout_ms job_then_down ''demo'' (rj_job_id j) None w1)
                                = Inl (JError ''Error'' ''connect ECONNREFUSED'')"
    using s10 by simp_all
  have hs: "heartbeat_interval_s loud_opts \<noteq> None"
    by (simp add: loud_opts_def quiet_opts_def)
  have s12: "\<forall>m sigs w e. fst (consume m loud_opts (one_job_then refused) ''demo'' returns_after_heartbeat sigs w)
                      \<noteq> Some (Threw e)"
  proof (intro allI notI)
    fix m sigs w e
    assume "fst (consume m loud_opts (one_job_then refused) ''demo'' returns_after_heartbeat sigs w)
              = Some (Threw e)"
    from returned [THEN conjunct2, THEN conjunct2, THEN conjunct2, THEN conjunct2, THEN conjunct2,
                   THEN conjunct2, THEN conjunct2, THEN conjunct2, rule_format, OF this] hs
    show False by simp
  qed
  have s13: "fst (ack_success (one_job_then refused) ''demo'' (rj_job_id job1) (rj_lease_token job1) None
             (world after_handler)) = Inl (JError ''Error'' ''connect ECONNREFUSED'')"
    using refused_ack_success by simp
  show ?thesis
    using a down_ack_success s1 s2 s3 down_process_job s4 f(2) f(3) s13 s6 second_iteration s9 s8
      job_then_down_throws s11 s12
    by (intro conjI) simp_all
qed

end
